theory Spec2Isabelle
  imports Complex_Main "HOL-Library.Extended_Nat"
begin

section \<open>Conventions of the embedding\<close>

text \<open>
  The engine is JavaScript. A JavaScript number is modelled by a real (the arithmetic of the
  source is taken as exact: no rounding, no NaN), a counter or a length by a natural number,
  and an integer-valued quantity such as the unique-colour count by an integer. Every class
  is a record of the fields its methods write; a field that only the constructor assigns is a
  constant, or a function of \<open>n\<close> where the constructor computes it from \<open>n\<close>. A method
  takes the record and returns the updated one. \<open>Math.random()\<close> is an oracle: an infinite
  sequence of draws, each in \<open>[0, 1)\<close>, consumed from the front in the order of the calls.
\<close>

subsection \<open>Numbers\<close>

definition js_round :: "real \<Rightarrow> int" where
  \<comment> \<open>\<open>Math.round\<close>: the nearest integer, a tie going up.\<close>
  "js_round x = \<lfloor>x + 1 / 2\<rfloor>"

definition clamp01 :: "real \<Rightarrow> real" where
  \<comment> \<open>\<open>Math.max(0, Math.min(1, x))\<close>\<close>
  "clamp01 x = max 0 (min 1 x)"

subsection \<open>Arrays\<close>

definition push_shift :: "'a list \<Rightarrow> 'a \<Rightarrow> nat \<Rightarrow> 'a list" where
  \<comment> \<open>\<open>xs.push(x); if (xs.length > cap) xs.shift();\<close>\<close>
  "push_shift xs x cap = (let ys = xs @ [x] in if length ys > cap then tl ys else ys)"

definition slice_last :: "nat \<Rightarrow> 'a list \<Rightarrow> 'a list" where
  \<comment> \<open>\<open>xs.slice(-k)\<close> for \<open>k > 0\<close>: the last \<open>k\<close> elements, all of them when there are fewer.\<close>
  "slice_last k xs = drop (length xs - k) xs"

fun uniq :: "'a list \<Rightarrow> 'a list" where
  \<comment> \<open>\<open>[...new Set(xs)]\<close>: the distinct elements in the order of their first occurrence.\<close>
  "uniq [] = []"
| "uniq (x # xs) = x # uniq (filter (\<lambda>y. y \<noteq> x) xs)"

definition set_size :: "'a list \<Rightarrow> nat" where
  \<comment> \<open>\<open>new Set(xs).size\<close>\<close>
  "set_size xs = length (uniq xs)"

subsection \<open>The random oracle\<close>

type_synonym rng = "nat \<Rightarrow> real"

definition rand :: "rng \<Rightarrow> real" where
  "rand g = g 0"

definition rest :: "rng \<Rightarrow> rng" where
  "rest g = (\<lambda>i. g (Suc i))"

definition rng_ok :: "rng \<Rightarrow> bool" where
  \<comment> \<open>every draw of \<open>Math.random()\<close> lies in \<open>[0, 1)\<close>\<close>
  "rng_ok g = (\<forall>i. 0 \<le> g i \<and> g i < 1)"

definition rand_index :: "rng \<Rightarrow> nat \<Rightarrow> nat" where
  \<comment> \<open>\<open>Math.floor(Math.random() * len)\<close>\<close>
  "rand_index g len = nat \<lfloor>rand g * real len\<rfloor>"

section \<open>Signal-detection sensitivity\<close>

definition invNorm :: "real \<Rightarrow> real" where
  "invNorm p =
    (let a1 = - 39.69683028665376; a2 = 220.9460984245205; a3 = - 275.9285104469687;
         a4 = 138.3577518672690; a5 = - 30.66479806614716; a6 = 2.506628277459239;
         b1 = - 54.47609879822406; b2 = 161.5858368580409; b3 = - 155.6989798598866;
         b4 = 66.80131188771972; b5 = - 13.28068155288572;
         c1 = - 0.007784894002430293; c2 = - 0.3223964580411365; c3 = - 2.400758277161838;
         c4 = - 2.549732539343734; c5 = 4.374664141464968; c6 = 2.938163982698783;
         d1 = 0.007784695709041462; d2 = 0.3224671290700398; d3 = 2.445134137142996;
         d4 = 3.754408661907416;
         pLow = 0.02425; pHigh = 1 - pLow
     in if p < pLow then
          (let q = sqrt (- 2 * ln p)
           in (((((c1 * q + c2) * q + c3) * q + c4) * q + c5) * q + c6)
              / ((((d1 * q + d2) * q + d3) * q + d4) * q + 1))
        else if p \<le> pHigh then
          (let q = p - 0.5; r = q * q
           in (((((a1 * r + a2) * r + a3) * r + a4) * r + a5) * r + a6) * q
              / (((((b1 * r + b2) * r + b3) * r + b4) * r + b5) * r + 1))
        else
          (let q = sqrt (- 2 * ln (1 - p))
           in - (((((c1 * q + c2) * q + c3) * q + c4) * q + c5) * q + c6)
              / ((((d1 * q + d2) * q + d3) * q + d4) * q + 1)))"

definition computeDPrime :: "real \<Rightarrow> real \<Rightarrow> real" where
  "computeDPrime hitRate faRate =
    (let cappedHitRate = max 0.01 (min 0.99 hitRate);
         cappedFaRate = max 0.01 (min 0.99 faRate)
     in invNorm cappedHitRate - invNorm cappedFaRate)"

section \<open>AbilityModel\<close>

record ability_model =
  trialWindow :: "(bool \<times> bool) list"   \<comment> \<open>pairs \<open>(wasMatch, userClicked)\<close>\<close>
  theta :: real
  thetaWindow :: "real list"
  rtWindow :: "real list"
  totalTrials :: nat

definition windowSize :: nat where "windowSize = 30"
definition thetaAlpha :: real where "thetaAlpha = 0.15"
definition thetaWindowSize :: nat where "thetaWindowSize = 20"
definition rtWindowSize :: nat where "rtWindowSize = 20"

definition AbilityModel_new :: ability_model where
  "AbilityModel_new =
    \<lparr>trialWindow = [], theta = 1.5, thetaWindow = [], rtWindow = [], totalTrials = 0\<rparr>"

record sdt_counts =
  hits :: nat
  misses :: nat
  falseAlarms :: nat
  correctRejections :: nat

definition getSDTCounts :: "(bool \<times> bool) list \<Rightarrow> sdt_counts" where
  \<comment> \<open>the counting loop over the trial window, shared by \<open>recordTrial\<close> and \<open>getSDTCounts\<close>\<close>
  "getSDTCounts w =
    \<lparr>hits = length (filter (\<lambda>(m, c). m \<and> c) w),
     misses = length (filter (\<lambda>(m, c). m \<and> \<not> c) w),
     falseAlarms = length (filter (\<lambda>(m, c). \<not> m \<and> c) w),
     correctRejections = length (filter (\<lambda>(m, c). \<not> m \<and> \<not> c) w)\<rparr>"

definition rawDPrime :: "(bool \<times> bool) list \<Rightarrow> real" where
  \<comment> \<open>the raw sensitivity \<open>recordTrial\<close> computes from the (already updated) trial window\<close>
  "rawDPrime w =
    (let s = getSDTCounts w;
         targets = hits s + misses s;
         nonTargets = falseAlarms s + correctRejections s;
         hitRate = (real (hits s) + 0.5) / (real targets + 1);
         faRate = (real (falseAlarms s) + 0.5) / (real nonTargets + 1)
     in computeDPrime hitRate faRate)"

definition AbilityModel_recordTrial :: "ability_model \<Rightarrow> bool \<Rightarrow> bool \<Rightarrow> real \<Rightarrow> ability_model" where
  "AbilityModel_recordTrial ab wasMatch userClicked reactionTime =
    (let tw = push_shift (trialWindow ab) (wasMatch, userClicked) windowSize;
         th = theta ab * (1 - thetaAlpha) + rawDPrime tw * thetaAlpha;
         thw = push_shift (thetaWindow ab) th thetaWindowSize;
         rtw = (if reactionTime > 0
                then push_shift (rtWindow ab) reactionTime (rtWindowSize * 2)
                else rtWindow ab)
     in \<lparr>trialWindow = tw, theta = th, thetaWindow = thw, rtWindow = rtw,
         totalTrials = totalTrials ab + 1\<rparr>)"

definition getThetaTrend :: "ability_model \<Rightarrow> real" where
  "getThetaTrend ab =
    (let h = thetaWindow ab; n = length h
     in if n < 5 then 0
        else
          let sumX = (\<Sum>i < n. real i);
              sumY = (\<Sum>i < n. h ! i);
              sumXY = (\<Sum>i < n. real i * h ! i);
              sumX2 = (\<Sum>i < n. real i * real i);
              denom = real n * sumX2 - sumX * sumX
          in if denom = 0 then 0 else (real n * sumXY - sumX * sumY) / denom)"

record rt_stats =
  median :: real
  p90 :: real
  cv :: real

definition getRTStats :: "ability_model \<Rightarrow> rt_stats" where
  "getRTStats ab =
    (let rts = slice_last rtWindowSize (rtWindow ab)
     in if length rts < 3 then \<lparr>median = 800, p90 = 1200, cv = 0.2\<rparr>
        else
          let sorted = sort rts;
              len = length rts;
              med = sorted ! (len div 2);
              p = sorted ! nat \<lfloor>real len * 0.9\<rfloor>;
              mean = sum_list rts / real len;
              variance = (\<Sum>rt \<leftarrow> rts. (rt - mean)\<^sup>2) / real len;
              c = (if mean > 0 then sqrt variance / mean else 0)
          in \<lparr>median = med, p90 = p, cv = c\<rparr>)"

definition getFatigueIndex :: "ability_model \<Rightarrow> real" where
  "getFatigueIndex ab =
    (let rt = getRTStats ab;
         trend = getThetaTrend ab;
         tailRatio = (if median rt > 0 then p90 rt / median rt else 1);
         tailComponent = max 0 ((tailRatio - 1.6) / 0.6);
         cvComponent = max 0 ((cv rt - 0.4) / 0.3);
         trendComponent = max 0 (- trend * 10)
     in min 1 ((tailComponent + cvComponent + trendComponent) / 3))"

definition getFlowScore :: "ability_model \<Rightarrow> real" where
  "getFlowScore ab =
    (let rt = getRTStats ab;
         trend = getThetaTrend ab;
         normalizedTheta = clamp01 (theta ab / 2.5);
         cvBonus = clamp01 (1 - max 0 (cv rt - 0.15) / 0.45);
         trendBonus = clamp01 (trend * 20)
     in min 1 (normalizedTheta * 0.55 + cvBonus * 0.25 + trendBonus * 0.20))"

definition getNormalizedPerformance :: "ability_model \<Rightarrow> real" where
  "getNormalizedPerformance ab = clamp01 (0.3 + theta ab * 0.2)"

definition AbilityModel_reset :: "ability_model \<Rightarrow> ability_model" where
  "AbilityModel_reset ab =
    ab\<lparr>trialWindow := [], theta := 1.5, thetaWindow := [], rtWindow := [], totalTrials := 0\<rparr>"

section \<open>DifficultyController\<close>

record difficulty_controller =
  dc_n :: nat
  integral :: real
  targetEntropy :: real
  matchRate :: real
  stimulusInterval :: real
  tse :: real
  currentUniqueColors :: int
  stepHoldCounter :: nat
  pendingUniqueColors :: int

definition targetTheta :: real where "targetTheta = 1.8"
definition Kp :: real where "Kp = 0.3"
definition Ki :: real where "Ki = 0.05"
definition integralMax :: real where "integralMax = 3.0"
definition tseClimbRate :: real where "tseClimbRate = 0.06"
definition tseDropRate :: real where "tseDropRate = 0.12"
definition minUniqueColors :: int where "minUniqueColors = 2"

definition maxUniqueColors :: "nat \<Rightarrow> int" where
  "maxUniqueColors n = int n + 1"

definition colorRange :: "nat \<Rightarrow> int" where
  "colorRange n = maxUniqueColors n - minUniqueColors"

definition stepHoldIncrease :: "nat \<Rightarrow> enat" where
  \<comment> \<open>\<open>Math.max(2, Math.round(6 / colorRange))\<close>; a zero range divides to \<open>Infinity\<close>\<close>
  "stepHoldIncrease n =
    (if colorRange n = 0 then \<infinity>
     else enat (nat (max 2 (js_round (6 / real_of_int (colorRange n))))))"

definition stepHoldDecrease :: "nat \<Rightarrow> enat" where
  \<comment> \<open>\<open>Math.max(1, Math.round(3 / colorRange))\<close>\<close>
  "stepHoldDecrease n =
    (if colorRange n = 0 then \<infinity>
     else enat (nat (max 1 (js_round (3 / real_of_int (colorRange n))))))"

definition entropyClimbRate :: "nat \<Rightarrow> real" where
  "entropyClimbRate n = min 0.12 (max 0.06 (0.03 + 0.015 * real_of_int (colorRange n)))"

definition entropyDropRate :: "nat \<Rightarrow> real" where
  "entropyDropRate n = entropyClimbRate n * 2"

definition DifficultyController_new :: "nat \<Rightarrow> difficulty_controller" where
  "DifficultyController_new n =
    \<lparr>dc_n = n, integral = 0, targetEntropy = 0.0, matchRate = 0.30, stimulusInterval = 1.0,
     tse = 0.0, currentUniqueColors = 2, stepHoldCounter = 0, pendingUniqueColors = 2\<rparr>"

definition pi_integral :: "difficulty_controller \<Rightarrow> ability_model \<Rightarrow> real" where
  \<comment> \<open>the integral after \<open>this.integral += error\<close> and the anti-windup clamp\<close>
  "pi_integral dc ab =
    max (- integralMax) (min integralMax (integral dc + (targetTheta - theta ab)))"

definition pi_adjustment :: "difficulty_controller \<Rightarrow> ability_model \<Rightarrow> real" where
  \<comment> \<open>\<open>adjustment\<close> of \<open>update\<close>, after the flow boost and the recovery override\<close>
  "pi_adjustment dc ab =
    (let th = theta ab;
         trend = getThetaTrend ab;
         fatigue = getFatigueIndex ab;
         error = targetTheta - th;
         a0 = Kp * error + Ki * pi_integral dc ab;
         a1 = (if th > 1.6 \<and> trend > 0.005 then a0 - 0.1 else a0);
         a2 = (if trend < - 0.01 \<and> fatigue > 0.5 then a1 + 0.15 else a1)
     in a2)"

definition next_entropy :: "difficulty_controller \<Rightarrow> ability_model \<Rightarrow> real" where
  \<comment> \<open>\<open>targetEntropy\<close> after the asymmetric climb or drop\<close>
  "next_entropy dc ab =
    (let adjustment = pi_adjustment dc ab;
         entropyDelta = (if adjustment < 0 then - adjustment * entropyClimbRate (dc_n dc)
                         else - adjustment * entropyDropRate (dc_n dc))
     in clamp01 (targetEntropy dc + entropyDelta))"

definition candidateColors :: "difficulty_controller \<Rightarrow> ability_model \<Rightarrow> int" where
  \<comment> \<open>the candidate unique-colour count that \<open>update\<close> derives from the new entropy\<close>
  "candidateColors dc ab =
    (let range = maxUniqueColors (dc_n dc) - minUniqueColors;
         targetFloat = real_of_int minUniqueColors + next_entropy dc ab * real_of_int range
     in js_round (max (real_of_int minUniqueColors)
                      (min (real_of_int (maxUniqueColors (dc_n dc))) targetFloat)))"

definition requiredHold :: "difficulty_controller \<Rightarrow> int \<Rightarrow> enat" where
  "requiredHold dc cand =
    (if cand > currentUniqueColors dc then stepHoldIncrease (dc_n dc)
     else stepHoldDecrease (dc_n dc))"

definition step_hold_gate :: "difficulty_controller \<Rightarrow> int \<Rightarrow> difficulty_controller" where
  \<comment> \<open>knob 1 of \<open>update\<close>: the hold counter and the gated commit of the candidate\<close>
  "step_hold_gate dc cand =
    (if cand \<noteq> currentUniqueColors dc then
       (let dc1 = (if cand = pendingUniqueColors dc
                   then dc\<lparr>stepHoldCounter := stepHoldCounter dc + 1\<rparr>
                   else dc\<lparr>pendingUniqueColors := cand, stepHoldCounter := 1\<rparr>)
        in if enat (stepHoldCounter dc1) \<ge> requiredHold dc1 cand then
             (if cand > currentUniqueColors dc1 \<and> tse dc1 < 0.5 then dc1
              else dc1\<lparr>currentUniqueColors := cand, stepHoldCounter := 0\<rparr>)
           else dc1)
     else dc\<lparr>stepHoldCounter := 0\<rparr>)"

definition DifficultyController_update ::
    "difficulty_controller \<Rightarrow> ability_model \<Rightarrow> difficulty_controller" where
  "DifficultyController_update dc ab =
    (let fatigue = getFatigueIndex ab;
         flow = getFlowScore ab;
         adjustment = pi_adjustment dc ab;
         cand = candidateColors dc ab;
         dc1 = dc\<lparr>integral := pi_integral dc ab, targetEntropy := next_entropy dc ab\<rparr>;
         dc2 = step_hold_gate dc1 cand;
         matchAdj = max (- 0.05) (min 0.10 (adjustment * 0.05));
         dc3 = dc2\<lparr>matchRate := max 0.25 (min 0.40 (0.30 + matchAdj))\<rparr>;
         dc4 = dc3\<lparr>stimulusInterval :=
                 (if flow > 0.6 \<and> fatigue < 0.3 then 0.95
                  else if fatigue > 0.6 then 1.05 else 1.0)\<rparr>;
         tseDelta = (if adjustment < 0 then - adjustment * tseClimbRate
                     else - adjustment * tseDropRate)
     in dc4\<lparr>tse := clamp01 (tse dc4 + tseDelta)\<rparr>)"

definition onSessionStopped :: "difficulty_controller \<Rightarrow> difficulty_controller" where
  "onSessionStopped dc =
    (let dc1 = dc\<lparr>targetEntropy := max 0 (targetEntropy dc * 0.5)\<rparr>;
         dc2 = (if currentUniqueColors dc1 > minUniqueColors
                then dc1\<lparr>currentUniqueColors := currentUniqueColors dc1 - 1\<rparr> else dc1);
         dc3 = dc2\<lparr>integral := 0, stepHoldCounter := 0\<rparr>;
         dc4 = dc3\<lparr>matchRate := min 0.40 (matchRate dc3 + 0.05)\<rparr>
     in dc4\<lparr>tse := max 0 (tse dc4 * 0.3)\<rparr>)"

section \<open>SPRTStopper\<close>

datatype decision = Continue | Stop

record sprt_stopper =
  logLR :: real
  decision :: decision
  trialsRecorded :: nat

definition theta0 :: real where "theta0 = 1.5"
definition theta1 :: real where "theta1 = 0.8"
definition stopBound :: real where "stopBound = ln ((1 - 0.10) / 0.05)"
definition acceptBound :: real where "acceptBound = ln (0.10 / (1 - 0.05))"

definition SPRTStopper_new :: sprt_stopper where
  "SPRTStopper_new = \<lparr>logLR = 0, decision = Continue, trialsRecorded = 0\<rparr>"

definition thetaToAccuracy :: "real \<Rightarrow> bool \<Rightarrow> real" where
  "thetaToAccuracy th isTarget =
    (if isTarget then 1 / (1 + exp (- (th - 0.5) * 1.5))
     else 1 / (1 + exp (- (th - 0.2) * 1.5)))"

definition accumulated_logLR :: "sprt_stopper \<Rightarrow> bool \<Rightarrow> bool \<Rightarrow> real" where
  \<comment> \<open>\<open>logLR\<close> after the accumulation step of \<open>recordTrial\<close>, before the bounds are checked\<close>
  "accumulated_logLR s correct wasMatch =
    (let p0 = thetaToAccuracy theta0 wasMatch;
         p1 = thetaToAccuracy theta1 wasMatch;
         pObserved0 = (if correct then p0 else 1 - p0);
         pObserved1 = (if correct then p1 else 1 - p1)
     in if pObserved0 > 0 \<and> pObserved1 > 0 then logLR s + ln (pObserved1 / pObserved0)
        else logLR s)"

definition SPRT_recordTrial :: "sprt_stopper \<Rightarrow> bool \<Rightarrow> bool \<Rightarrow> sprt_stopper" where
  "SPRT_recordTrial s correct wasMatch =
    (let s1 = s\<lparr>trialsRecorded := trialsRecorded s + 1\<rparr>;
         s2 = s1\<lparr>logLR := accumulated_logLR s1 correct wasMatch\<rparr>
     in if logLR s2 \<ge> stopBound then s2\<lparr>decision := Stop\<rparr>
        else if logLR s2 \<le> acceptBound then s2\<lparr>decision := Continue, logLR := 0\<rparr>
        else s2)"

definition shouldStop :: "sprt_stopper \<Rightarrow> bool" where
  "shouldStop s = (if trialsRecorded s < 8 then False else decision s = Stop)"

definition SPRT_reset :: "sprt_stopper \<Rightarrow> sprt_stopper" where
  "SPRT_reset s = s\<lparr>logLR := 0, decision := Continue, trialsRecorded := 0\<rparr>"

section \<open>WorkingMemoryState\<close>

text \<open>
  A colour is a palette name, or \<open>None\<close> for the \<open>undefined\<close> an empty array read yields and
  for the \<open>null\<close> of a missing n-back colour. The source compares the two only with names.
\<close>

type_synonym color = "string option"

definition truthy :: "color \<Rightarrow> bool" where
  \<comment> \<open>JavaScript truthiness: \<open>null\<close>, \<open>undefined\<close> and the empty string are false\<close>
  "truthy c = (case c of None \<Rightarrow> False | Some s \<Rightarrow> s \<noteq> [])"

definition js_nth :: "'a option list \<Rightarrow> nat \<Rightarrow> 'a option" where
  \<comment> \<open>\<open>xs[i]\<close>: \<open>undefined\<close> out of range\<close>
  "js_nth xs i = (if i < length xs then xs ! i else None)"

record working_memory_state =
  wm_n :: nat
  recentColors :: "color list"
  currentLoad :: nat

definition WorkingMemoryState_new :: "nat \<Rightarrow> working_memory_state" where
  "WorkingMemoryState_new n = \<lparr>wm_n = n, recentColors = [], currentLoad = 0\<rparr>"

definition addColor :: "working_memory_state \<Rightarrow> color \<Rightarrow> working_memory_state" where
  "addColor m c =
    (let rc = push_shift (recentColors m) c (wm_n m + 1)
     in m\<lparr>recentColors := rc, currentLoad := set_size rc\<rparr>)"

section \<open>ColorSequenceGenerator\<close>

record color_generator =
  cg_n :: nat
  availableColors :: "string list"   \<comment> \<open>the names of the palette, in order\<close>
  memoryState :: working_memory_state
  activeSet :: "color list option"
  lastTarget :: "int option"

definition swapProbability :: real where "swapProbability = 0.7"

definition ColorSequenceGenerator_new :: "nat \<Rightarrow> string list \<Rightarrow> color_generator" where
  "ColorSequenceGenerator_new n colors =
    \<lparr>cg_n = n, availableColors = colors, memoryState = WorkingMemoryState_new n,
     activeSet = None, lastTarget = None\<rparr>"

definition simulated :: "nat \<Rightarrow> color list \<Rightarrow> color \<Rightarrow> color list" where
  \<comment> \<open>\<open>[...currentWindow, candidate].slice(-windowSize)\<close> with \<open>windowSize = n + 1\<close>\<close>
  "simulated n w c = slice_last (n + 1) (w @ [c])"

definition isValidMatchColor :: "nat \<Rightarrow> color list \<Rightarrow> color \<Rightarrow> int \<Rightarrow> bool" where
  "isValidMatchColor n w c target = (int (set_size (simulated n w c)) \<le> target)"

definition isValidNextColor :: "nat \<Rightarrow> color list \<Rightarrow> color \<Rightarrow> int \<Rightarrow> bool" where
  "isValidNextColor n w c target = (int (set_size (simulated n w c)) = target)"

definition forceRepair ::
    "nat \<Rightarrow> string list \<Rightarrow> color list \<Rightarrow> int \<Rightarrow> rng \<Rightarrow> color \<times> rng" where
  "forceRepair n palette w target g =
    (let recentWindow = slice_last (n + 1) w;
         windowSet = uniq recentWindow;
         available = filter (\<lambda>c. c \<notin> set windowSet) (map Some palette)
     in if int (length windowSet) < target \<and> available \<noteq> []
        then (js_nth available (rand_index g (length available)), rest g)
        else (js_nth windowSet 0, g))"

definition pickNextWithConstraint ::
    "nat \<Rightarrow> string list \<Rightarrow> color list \<Rightarrow> color list \<Rightarrow> int \<Rightarrow> rng \<Rightarrow> color \<times> rng" where
  "pickNextWithConstraint n palette w candidates target g =
    (let valid = filter (\<lambda>c. isValidNextColor n w c target) candidates
     in if valid \<noteq> [] then (js_nth valid (rand_index g (length valid)), rest g)
        else forceRepair n palette w target g)"

definition not_in_window :: "string list \<Rightarrow> color list \<Rightarrow> color \<Rightarrow> color list" where
  \<comment> \<open>\<open>availableColors.map(c => c.name).filter(c => !windowSet.has(c) && c !== excludeColor)\<close>\<close>
  "not_in_window palette w excludeColor =
    filter (\<lambda>c. c \<notin> set w \<and> c \<noteq> excludeColor) (map Some palette)"

definition within_active :: "color list \<Rightarrow> color \<Rightarrow> color list" where
  \<comment> \<open>\<open>excludeColor ? activeSet.filter(c => c !== excludeColor) : activeSet\<close>\<close>
  "within_active as excludeColor =
    (if truthy excludeColor then filter (\<lambda>c. c \<noteq> excludeColor) as else as)"

definition validReplacements ::
    "nat \<Rightarrow> string list \<Rightarrow> color list \<Rightarrow> color list \<Rightarrow> int \<Rightarrow> color list" where
  \<comment> \<open>the colours outside the active set (\<open>availableForSwap\<close>) that pass the window check\<close>
  "validReplacements n palette w as target =
    (let availableForSwap = filter (\<lambda>c. c \<notin> set as) (map Some palette)
     in filter (\<lambda>r. isValidNextColor n w r target) availableForSwap)"

definition generateForMinLoad ::
    "color_generator \<Rightarrow> color list \<Rightarrow> color \<Rightarrow> int \<Rightarrow> rng \<Rightarrow> color \<times> color_generator \<times> rng" where
  "generateForMinLoad cg w excludeColor target g =
    (let n = cg_n cg; palette = availableColors cg;
         uniqueColors = uniq w;
         candidates = not_in_window palette w excludeColor
     in if length uniqueColors < 2 \<and> candidates \<noteq> [] then
          (let (newColor, g1) = pickNextWithConstraint n palette w candidates target g
           in (newColor,
               cg\<lparr>activeSet := Some (if length uniqueColors = 1
                                      then [uniqueColors ! 0, newColor] else [newColor])\<rparr>,
               g1))
        else
          (let as = (case activeSet cg of
                       None \<Rightarrow> take 2 uniqueColors
                     | Some a \<Rightarrow> if length a \<noteq> 2 then take 2 uniqueColors else a);
               cg1 = cg\<lparr>activeSet := Some as\<rparr>;
               stay = (\<lambda>g'. let (c, g'') = pickNextWithConstraint n palette w
                                              (within_active as excludeColor) target g'
                            in (c, cg1, g''))
           in if rand g < swapProbability then
                (let keep = js_nth as (rand_index (rest g) (length as));
                     g2 = rest (rest g);
                     valid = validReplacements n palette w as target
                 in if valid \<noteq> [] then
                      (let replacement = js_nth valid (rand_index g2 (length valid))
                       in (replacement, cg1\<lparr>activeSet := Some [keep, replacement]\<rparr>, rest g2))
                    else stay g2)
              else stay (rest g)))"

definition generateForMaxLoad ::
    "color_generator \<Rightarrow> color list \<Rightarrow> color \<Rightarrow> int \<Rightarrow> rng \<Rightarrow> color \<times> color_generator \<times> rng" where
  "generateForMaxLoad cg w excludeColor target g =
    (let (c, g1) = pickNextWithConstraint (cg_n cg) (availableColors cg) w
                     (not_in_window (availableColors cg) w excludeColor) target g
     in (c, cg, g1))"

definition drop_index :: "nat \<Rightarrow> 'a list \<Rightarrow> 'a list" where
  \<comment> \<open>\<open>xs.filter((_, i) => i !== k)\<close>\<close>
  "drop_index k xs = take k xs @ drop (Suc k) xs"

definition generateForMidLoad ::
    "color_generator \<Rightarrow> color list \<Rightarrow> color \<Rightarrow> int \<Rightarrow> rng \<Rightarrow> color \<times> color_generator \<times> rng" where
  "generateForMidLoad cg w excludeColor target g =
    (let n = cg_n cg; palette = availableColors cg;
         uniqueColors = uniq w;
         candidates = not_in_window palette w excludeColor
     in if int (length uniqueColors) < target \<and> candidates \<noteq> [] then
          (let (newColor, g1) = pickNextWithConstraint n palette w candidates target g
           in (newColor,
               cg\<lparr>activeSet := Some (case activeSet cg of
                                       None \<Rightarrow> uniqueColors @ [newColor]
                                     | Some a \<Rightarrow> take (nat target) (uniq (a @ [newColor])))\<rparr>,
               g1))
        else
          (let as = (case activeSet cg of
                       None \<Rightarrow> take (nat target) uniqueColors
                     | Some a \<Rightarrow> if int (length a) \<noteq> target
                                 then take (nat target) uniqueColors else a);
               cg1 = cg\<lparr>activeSet := Some as\<rparr>;
               stay = (\<lambda>g'. let (c, g'') = pickNextWithConstraint n palette w
                                              (within_active as excludeColor) target g'
                            in (c, cg1, g''))
           in if rand g < swapProbability then
                (let keepIndex = rand_index (rest g) (length as);
                     keep = drop_index keepIndex as;
                     g2 = rest (rest g);
                     valid = validReplacements n palette w as target
                 in if valid \<noteq> [] then
                      (let replacement = js_nth valid (rand_index g2 (length valid))
                       in (replacement, cg1\<lparr>activeSet := Some (keep @ [replacement])\<rparr>, rest g2))
                    else stay g2)
              else stay (rest g)))"

definition retarget :: "color_generator \<Rightarrow> int \<Rightarrow> color_generator" where
  \<comment> \<open>the active set is dropped when the target differs from the last one, which is then updated\<close>
  "retarget cg target =
    (let cg0 = (if lastTarget cg \<noteq> None \<and> lastTarget cg \<noteq> Some target
                then cg\<lparr>activeSet := None\<rparr> else cg)
     in cg0\<lparr>lastTarget := Some target\<rparr>)"

definition generateNextColor ::
    "color_generator \<Rightarrow> int \<Rightarrow> bool \<Rightarrow> color \<Rightarrow> bool \<Rightarrow> real \<Rightarrow> rng
      \<Rightarrow> color \<times> color_generator \<times> rng" where
  "generateNextColor cg targetUniqueColors shouldMatch nBackColor isForced tseArg g =
    (let n = cg_n cg;
         currentWindow = recentColors (memoryState cg);
         target = max 2 targetUniqueColors;
         cg1 = retarget cg target
     in if shouldMatch \<and> truthy nBackColor
           \<and> (isForced \<or> isValidMatchColor n currentWindow nBackColor target)
        then (nBackColor, cg1, g)
        else
          (let excludeColor = (if \<not> shouldMatch then nBackColor else None);
               lastColor = last currentWindow;
               biased = (tseArg < 1.0 \<and> currentWindow \<noteq> []
                         \<and> truthy lastColor \<and> lastColor \<noteq> excludeColor);
               repeatProb = (1 - 1 / (real n + 1)) * (1 - tseArg);
               g1 = (if biased then rest g else g)
           in if biased \<and> rand g < repeatProb
                 \<and> isValidNextColor n currentWindow lastColor target
              then (lastColor, cg1, g1)
              else if target = 2 then generateForMinLoad cg1 currentWindow excludeColor target g1
              else if target = int n + 1
                then generateForMaxLoad cg1 currentWindow excludeColor target g1
              else generateForMidLoad cg1 currentWindow excludeColor target g1))"

definition updateMemoryState :: "color_generator \<Rightarrow> color \<Rightarrow> color_generator" where
  "updateMemoryState cg c = cg\<lparr>memoryState := addColor (memoryState cg) c\<rparr>"

definition color_key :: "color \<Rightarrow> string" where
  \<comment> \<open>the property name under which \<open>computeEntropy\<close> counts a colour\<close>
  "color_key c = (case c of None \<Rightarrow> ''undefined'' | Some s \<Rightarrow> s)"

definition computeEntropy :: "color list \<Rightarrow> real" where
  "computeEntropy w =
    (if w = [] then 0
     else
       let ks = map color_key w; n = real (length w)
       in - (\<Sum>k \<leftarrow> uniq ks. let p = real (count_list ks k) / n
                              in if p > 0 then p * log 2 p else 0))"

section \<open>MatchGenerator\<close>

record match_generator =
  targetRate :: real
  recentMatches :: "bool list"   \<comment> \<open>each entry by its truthiness\<close>
  trialsSinceLastMatch :: nat
  maxGap :: int

definition mg_windowSize :: nat where "mg_windowSize = 20"

definition MatchGenerator_new :: "real \<Rightarrow> match_generator" where
  "MatchGenerator_new targetMatchRate =
    \<lparr>targetRate = targetMatchRate, recentMatches = [], trialsSinceLastMatch = 0,
     maxGap = js_round (1 / targetMatchRate) * 2\<rparr>"

definition setTargetRate :: "match_generator \<Rightarrow> real \<Rightarrow> match_generator" where
  "setTargetRate mg rate =
    (let r = max 0.20 (min 0.45 rate)
     in mg\<lparr>targetRate := r, maxGap := js_round (1 / r) * 2\<rparr>)"

definition match_probability :: "match_generator \<Rightarrow> real \<times> bool" where
  \<comment> \<open>\<open>probability\<close> and \<open>isForced\<close> of \<open>shouldCreateMatch\<close> before the draw\<close>
  "match_probability mg =
    (let recentRate = (if recentMatches mg \<noteq> []
                       then real (length (filter (\<lambda>b. b) (recentMatches mg)))
                            / real (length (recentMatches mg))
                       else targetRate mg);
         p0 = targetRate mg;
         p1 = (if recentRate < targetRate mg - 0.05 then p0 + 0.15
               else if recentRate > targetRate mg + 0.05 then p0 - 0.15 else p0);
         forced = (int (trialsSinceLastMatch mg) > maxGap mg);
         p2 = (if forced then 1.0 else p1 + real (trialsSinceLastMatch mg) * 0.03)
     in (min (max p2 0) 1, forced))"

definition shouldCreateMatch ::
    "match_generator \<Rightarrow> working_memory_state \<Rightarrow> rng \<Rightarrow> (bool \<times> bool) \<times> rng" where
  \<comment> \<open>the result is the pair \<open>(shouldMatch, isForced)\<close>\<close>
  "shouldCreateMatch mg ms g =
    (if length (recentColors ms) < wm_n ms then ((False, False), g)
     else
       let (probability, isForced) = match_probability mg;
           shouldMatch = (rand g < probability)
       in ((shouldMatch, isForced \<and> shouldMatch), rest g))"

definition registerActualMatch :: "match_generator \<Rightarrow> bool \<Rightarrow> match_generator" where
  "registerActualMatch mg didMatch =
    mg\<lparr>recentMatches := push_shift (recentMatches mg) didMatch mg_windowSize,
       trialsSinceLastMatch := (if didMatch then 0 else trialsSinceLastMatch mg + 1)\<rparr>"

definition getNBackColor :: "working_memory_state \<Rightarrow> color" where
  "getNBackColor ms =
    (if length (recentColors ms) < wm_n ms then None
     else js_nth (recentColors ms) (length (recentColors ms) - wm_n ms))"

section \<open>WorkingMemoryTrainer\<close>

record tile =
  tile_color :: color
  tile_position :: "(nat \<times> nat) option"
  isMatch :: bool
  tile_currentLoad :: nat
  targetLoad :: int
  tile_targetUniqueColors :: int
  tile_trialNumber :: nat

record trainer =
  tr_n :: nat
  tr_colors :: "string list"
  abilityModel :: ability_model
  difficultyController :: difficulty_controller
  sprtStopper :: sprt_stopper
  colorGenerator :: color_generator
  matchGenerator :: match_generator
  trialNumber :: nat
  tr_currentTile :: "tile option"
  lastTrialCorrect :: bool
  excludedPositions :: "(int \<times> int) list"

record response =
  correct :: bool
  resp_wasMatch :: bool
  feedback :: string
  isValid :: bool

definition WorkingMemoryTrainer_new :: "nat \<Rightarrow> string list \<Rightarrow> trainer" where
  "WorkingMemoryTrainer_new n colors =
    \<lparr>tr_n = n, tr_colors = colors, abilityModel = AbilityModel_new,
     difficultyController = DifficultyController_new n, sprtStopper = SPRTStopper_new,
     colorGenerator = ColorSequenceGenerator_new n colors,
     matchGenerator = MatchGenerator_new 0.30, trialNumber = 0, tr_currentTile = None,
     lastTrialCorrect = True, excludedPositions = []\<rparr>"

definition generatePosition :: "trainer \<Rightarrow> rng \<Rightarrow> (nat \<times> nat) option \<times> rng" where
  "generatePosition tr g =
    (let positions = filter (\<lambda>(row, col). (int row, int col) \<notin> set (excludedPositions tr))
                       (concat (map (\<lambda>row. map (\<lambda>col. (row, col)) [0..<3]) [0..<3]))
     in (js_nth (map Some positions) (rand_index g (length positions)), rest g))"

definition generateNextTrial :: "trainer \<Rightarrow> rng \<Rightarrow> tile \<times> trainer \<times> rng" where
  "generateNextTrial tr g =
    (let mg1 = setTargetRate (matchGenerator tr) (matchRate (difficultyController tr));
         targetUniqueColors = currentUniqueColors (difficultyController tr);
         ms = memoryState (colorGenerator tr);
         ((shouldMatch, isForced), g1) = shouldCreateMatch mg1 ms g;
         nBackColor = getNBackColor ms;
         (color, cg1, g2) = generateNextColor (colorGenerator tr) targetUniqueColors shouldMatch
                               nBackColor isForced (tse (difficultyController tr)) g1;
         cg2 = updateMemoryState cg1 color;
         actuallyIsMatch = (truthy nBackColor \<and> color = nBackColor);
         mg2 = registerActualMatch mg1 actuallyIsMatch;
         (pos, g3) = generatePosition tr g2;
         t = \<lparr>tile_color = color, tile_position = pos, isMatch = actuallyIsMatch,
              tile_currentLoad = currentLoad (memoryState cg2),
              targetLoad = targetUniqueColors, tile_targetUniqueColors = targetUniqueColors,
              tile_trialNumber = trialNumber tr\<rparr>
     in (t,
         tr\<lparr>matchGenerator := mg2, colorGenerator := cg2, tr_currentTile := Some t,
            trialNumber := trialNumber tr + 1\<rparr>,
         g3))"

definition isValidTrial :: "real \<Rightarrow> bool" where
  "isValidTrial reactionTime =
    (if reactionTime < 150 then False else if reactionTime > 5000 then False else True)"

definition generateFeedback :: "bool \<Rightarrow> bool \<Rightarrow> string" where
  "generateFeedback c wasMatch =
    (if c \<and> wasMatch then ''Correct match!''
     else if c \<and> \<not> wasMatch then ''Correct - no match''
     else if \<not> c \<and> wasMatch then ''Missed a match''
     else ''False positive'')"

definition recordResponse :: "trainer \<Rightarrow> bool \<Rightarrow> bool \<Rightarrow> real \<Rightarrow> response \<times> trainer" where
  "recordResponse tr userClicked wasMatch reactionTime =
    (let c = (userClicked = wasMatch);
         valid = isValidTrial reactionTime;
         tr' = (if valid then
                  (let ab = AbilityModel_recordTrial (abilityModel tr) wasMatch userClicked
                              reactionTime;
                       dc = DifficultyController_update (difficultyController tr) ab;
                       sp = SPRT_recordTrial (sprtStopper tr) c wasMatch
                   in tr\<lparr>lastTrialCorrect := c, abilityModel := ab,
                         difficultyController := dc, sprtStopper := sp\<rparr>)
                else tr)
     in (\<lparr>correct = c, resp_wasMatch = wasMatch, feedback = generateFeedback c wasMatch,
          isValid = valid\<rparr>,
         tr'))"

record trainer_stats =
  st_n :: nat
  st_trialNumber :: nat
  st_currentLoad :: nat
  st_theta :: real
  st_thetaTrend :: real
  st_flowScore :: real
  st_fatigueIndex :: real
  st_targetEntropy :: real
  st_tse :: real
  st_windowEntropy :: real
  st_matchRate :: real
  st_stimulusInterval :: real
  st_sprtStatus :: sprt_stopper
  st_rtMedian :: real
  st_rtCV :: real
  st_sdt :: sdt_counts
  st_targetUniqueColors :: int
  st_maxUniqueColors :: int
  st_minUniqueColors :: int
  st_performanceEMA :: real
  st_totalTrials :: nat
  st_confidence :: real
  st_isRecovery :: bool
  st_piError :: real
  st_piIntegral :: real

definition trainer_getStats :: "trainer \<Rightarrow> trainer_stats" where
  "trainer_getStats tr =
    (let ab = abilityModel tr; dc = difficultyController tr;
         ms = memoryState (colorGenerator tr)
     in \<lparr>st_n = tr_n tr, st_trialNumber = trialNumber tr, st_currentLoad = currentLoad ms,
         st_theta = theta ab, st_thetaTrend = getThetaTrend ab, st_flowScore = getFlowScore ab,
         st_fatigueIndex = getFatigueIndex ab, st_targetEntropy = targetEntropy dc,
         st_tse = tse dc, st_windowEntropy = computeEntropy (recentColors ms),
         st_matchRate = matchRate dc, st_stimulusInterval = stimulusInterval dc,
         st_sprtStatus = sprtStopper tr, st_rtMedian = median (getRTStats ab),
         st_rtCV = cv (getRTStats ab), st_sdt = getSDTCounts (trialWindow ab),
         st_targetUniqueColors = currentUniqueColors dc,
         st_maxUniqueColors = maxUniqueColors (dc_n dc), st_minUniqueColors = minUniqueColors,
         st_performanceEMA = getNormalizedPerformance ab, st_totalTrials = totalTrials ab,
         st_confidence = getFlowScore ab, st_isRecovery = (getFatigueIndex ab > 0.6),
         st_piError = targetTheta - (integral dc / max 1 \<bar>integral dc\<bar> * Ki),
         st_piIntegral = integral dc\<rparr>)"

definition trainer_reset :: "trainer \<Rightarrow> trainer" where
  "trainer_reset tr =
    tr\<lparr>trialNumber := 0, tr_currentTile := None,
       colorGenerator := ColorSequenceGenerator_new (tr_n tr) (tr_colors tr),
       matchGenerator := MatchGenerator_new 0.30,
       abilityModel := AbilityModel_reset (abilityModel tr),
       difficultyController := DifficultyController_new (tr_n tr),
       sprtStopper := SPRT_reset (sprtStopper tr)\<rparr>"

record strategic =
  s_theta :: "real option"
  s_targetEntropy :: "real option"
  s_tse :: "real option"
  s_currentUniqueColors :: "int option"
  s_integral :: "real option"
  s_matchRate :: "real option"
  s_totalTrials :: "nat option"

record recency =
  r_trialWindow :: "(bool \<times> bool) list option"
  r_thetaWindow :: "real list option"
  r_rtWindow :: "real list option"
  r_stepHoldCounter :: "nat option"
  r_pendingUniqueColors :: "int option"

definition restore :: "'a option \<Rightarrow> 'a \<Rightarrow> 'a" where
  \<comment> \<open>\<open>if (saved !== undefined) field = saved\<close>\<close>
  "restore saved field = (case saved of None \<Rightarrow> field | Some v \<Rightarrow> v)"

definition trainer_warmStart :: "trainer \<Rightarrow> strategic option \<Rightarrow> recency option \<Rightarrow> trainer" where
  "trainer_warmStart tr strat rec =
    (let ab = abilityModel tr; dc = difficultyController tr;
         (ab1, dc1) =
           (case strat of
              None \<Rightarrow> (ab, dc)
            | Some s \<Rightarrow>
                (ab\<lparr>theta := restore (s_theta s) (theta ab),
                    totalTrials := restore (s_totalTrials s) (totalTrials ab)\<rparr>,
                 dc\<lparr>targetEntropy := restore (s_targetEntropy s) (targetEntropy dc),
                    tse := restore (s_tse s) (tse dc),
                    currentUniqueColors :=
                      restore (s_currentUniqueColors s) (currentUniqueColors dc),
                    integral := restore (s_integral s) (integral dc),
                    matchRate := restore (s_matchRate s) (matchRate dc)\<rparr>));
         (ab2, dc2) =
           (case rec of
              None \<Rightarrow> (ab1, dc1)
            | Some r \<Rightarrow>
                (ab1\<lparr>trialWindow := restore (r_trialWindow r) (trialWindow ab1),
                     thetaWindow := restore (r_thetaWindow r) (thetaWindow ab1),
                     rtWindow := restore (r_rtWindow r) (rtWindow ab1)\<rparr>,
                 dc1\<lparr>stepHoldCounter := restore (r_stepHoldCounter r) (stepHoldCounter dc1),
                     pendingUniqueColors :=
                       restore (r_pendingUniqueColors r) (pendingUniqueColors dc1)\<rparr>))
     in tr\<lparr>abilityModel := ab2, difficultyController := dc2\<rparr>)"

section \<open>NBackEngine\<close>

record engine =
  currentN :: nat
  e_colors :: "string list"
  e_trainer :: trainer
  currentTile :: "tile option"

datatype error = NoCurrentTile

definition NBackEngine_new :: "nat option \<Rightarrow> string list option \<Rightarrow> engine" where
  \<comment> \<open>\<open>options.startN || 2\<close> and \<open>options.colors || []\<close>\<close>
  "NBackEngine_new startN colors =
    (let n = (case startN of None \<Rightarrow> 2 | Some k \<Rightarrow> if k = 0 then 2 else k);
         cs = (case colors of None \<Rightarrow> [] | Some c \<Rightarrow> c)
     in \<lparr>currentN = n, e_colors = cs, e_trainer = WorkingMemoryTrainer_new n cs,
         currentTile = None\<rparr>)"

definition generateNextTile :: "engine \<Rightarrow> rng \<Rightarrow> tile \<times> engine \<times> rng" where
  "generateNextTile e g =
    (let (t, tr, g') = generateNextTrial (e_trainer e) g
     in (t, e\<lparr>e_trainer := tr, currentTile := Some t\<rparr>, g'))"

definition onUserResponse :: "engine \<Rightarrow> bool \<Rightarrow> bool \<Rightarrow> real \<Rightarrow> error + response \<times> engine" where
  "onUserResponse e userClicked wasMatch reactionTime =
    (case currentTile e of
       None \<Rightarrow> Inl NoCurrentTile
     | Some t \<Rightarrow>
         let (r, tr) = recordResponse (e_trainer e) userClicked wasMatch reactionTime
         in Inr (r, e\<lparr>e_trainer := tr\<rparr>))"

definition setExcludedPositions :: "engine \<Rightarrow> (int \<times> int) list option \<Rightarrow> engine" where
  \<comment> \<open>\<open>this.excludedPositions = positions || []\<close>\<close>
  "setExcludedPositions e positions =
    e\<lparr>e_trainer := (e_trainer e)\<lparr>excludedPositions :=
         (case positions of None \<Rightarrow> [] | Some ps \<Rightarrow> ps)\<rparr>\<rparr>"

definition onPoorPerformanceStop :: "engine \<Rightarrow> engine" where
  "onPoorPerformanceStop e =
    e\<lparr>e_trainer := (e_trainer e)
         \<lparr>difficultyController := onSessionStopped (difficultyController (e_trainer e)),
          sprtStopper := SPRT_reset (sprtStopper (e_trainer e))\<rparr>\<rparr>"

definition shouldStopSession :: "engine \<Rightarrow> bool \<times> engine" where
  "shouldStopSession e =
    (if \<not> shouldStop (sprtStopper (e_trainer e)) then (False, e)
     else (True, onPoorPerformanceStop e))"

record played_trial =
  pt_wasMatch :: "bool option"      \<comment> \<open>\<open>None\<close> is \<open>null\<close>: no response yet\<close>
  pt_userClicked :: "bool option"

definition is_true :: "bool option \<Rightarrow> bool" where
  "is_true b = (b = Some True)"

definition shouldStopForErrors :: "engine \<Rightarrow> played_trial list \<Rightarrow> int \<Rightarrow> bool \<times> engine" where
  "shouldStopForErrors e recentTrials errorThreshold =
    (let respondedTrials = filter (\<lambda>t. pt_wasMatch t \<noteq> None) recentTrials
     in if int (length respondedTrials) < int (length recentTrials) - 1 then (False, e)
        else
          let errors = length (filter (\<lambda>t.
                (is_true (pt_userClicked t) \<and> \<not> is_true (pt_wasMatch t))
                \<or> (\<not> is_true (pt_userClicked t) \<and> is_true (pt_wasMatch t))) respondedTrials)
          in if int errors \<ge> errorThreshold then (True, onPoorPerformanceStop e)
             else (False, e))"

record working_memory_stats =
  wms_currentLoad :: nat
  wms_targetUniqueColors :: int
  wms_maxUniqueColors :: int
  wms_minUniqueColors :: int
  wms_performanceEMA :: real
  wms_progressToMax :: real
  wms_piError :: real
  wms_piIntegral :: real

record engine_stats =
  es_currentN :: nat
  es_accuracy :: real
  es_confidence :: real
  es_theta :: real
  es_thetaTrend :: real
  es_flowScore :: real
  es_fatigueIndex :: real
  es_targetEntropy :: real
  es_windowEntropy :: real
  es_matchRate :: real
  es_stimulusInterval :: real
  es_tse :: real
  es_sprtStatus :: sprt_stopper
  es_rtMedian :: real
  es_rtCV :: real
  workingMemory :: working_memory_stats
  es_totalTrials :: nat
  es_isRecovery :: bool

definition getStats :: "engine \<Rightarrow> engine_stats" where
  "getStats e =
    (let stats = trainer_getStats (e_trainer e)
     in \<lparr>es_currentN = currentN e, es_accuracy = st_performanceEMA stats,
         es_confidence = st_confidence stats, es_theta = st_theta stats,
         es_thetaTrend = st_thetaTrend stats, es_flowScore = st_flowScore stats,
         es_fatigueIndex = st_fatigueIndex stats, es_targetEntropy = st_targetEntropy stats,
         es_windowEntropy = st_windowEntropy stats, es_matchRate = st_matchRate stats,
         es_stimulusInterval = st_stimulusInterval stats, es_tse = st_tse stats,
         es_sprtStatus = st_sprtStatus stats, es_rtMedian = st_rtMedian stats,
         es_rtCV = st_rtCV stats,
         workingMemory =
           \<lparr>wms_currentLoad = st_currentLoad stats,
            wms_targetUniqueColors = st_targetUniqueColors stats,
            wms_maxUniqueColors = st_maxUniqueColors stats,
            wms_minUniqueColors = st_minUniqueColors stats,
            wms_performanceEMA = st_performanceEMA stats,
            wms_progressToMax = real_of_int (st_targetUniqueColors stats)
                                / real_of_int (st_maxUniqueColors stats),
            wms_piError = st_piError stats, wms_piIntegral = st_piIntegral stats\<rparr>,
         es_totalTrials = st_totalTrials stats, es_isRecovery = st_isRecovery stats\<rparr>)"

definition reset :: "engine \<Rightarrow> engine" where
  "reset e = e\<lparr>currentTile := None, e_trainer := trainer_reset (e_trainer e)\<rparr>"

definition warmStart :: "engine \<Rightarrow> strategic option \<Rightarrow> recency option \<Rightarrow> engine" where
  "warmStart e strat rec =
    e\<lparr>currentTile := None, e_trainer := trainer_warmStart (e_trainer e) strat rec\<rparr>"

record saved_state =
  sv_currentN :: nat
  sv_savedAt :: real
  sv_strategic :: strategic
  sv_recency :: recency

definition toJSON :: "engine \<Rightarrow> real \<Rightarrow> saved_state" where
  \<comment> \<open>the second argument is the reading of \<open>Date.now()\<close>\<close>
  "toJSON e now =
    (let ab = abilityModel (e_trainer e); dc = difficultyController (e_trainer e)
     in \<lparr>sv_currentN = currentN e, sv_savedAt = now,
         sv_strategic =
           \<lparr>s_theta = Some (theta ab), s_targetEntropy = Some (targetEntropy dc),
            s_tse = Some (tse dc), s_currentUniqueColors = Some (currentUniqueColors dc),
            s_integral = Some (integral dc), s_matchRate = Some (matchRate dc),
            s_totalTrials = Some (totalTrials ab)\<rparr>,
         sv_recency =
           \<lparr>r_trialWindow = Some (trialWindow ab), r_thetaWindow = Some (thetaWindow ab),
            r_rtWindow = Some (rtWindow ab), r_stepHoldCounter = Some (stepHoldCounter dc),
            r_pendingUniqueColors = Some (pendingUniqueColors dc)\<rparr>\<rparr>)"

subsection \<open>The public operations as one step function\<close>

datatype engine_op =
    GenerateNextTile
  | OnUserResponse bool bool real
  | GetCurrentN
  | SetExcludedPositions "(int \<times> int) list option"
  | OnPoorPerformanceStop
  | ShouldStopSession
  | ShouldStopForErrors "played_trial list" int
  | GetStats
  | Reset
  | WarmStart "strategic option" "recency option"
  | ToJSON real

fun engine_step :: "engine \<times> rng \<Rightarrow> engine_op \<Rightarrow> engine \<times> rng" where
  \<comment> \<open>the state after one public call; a call that throws leaves the state as it was\<close>
  "engine_step (e, g) GenerateNextTile = (let (t, e', g') = generateNextTile e g in (e', g'))"
| "engine_step (e, g) (OnUserResponse userClicked wasMatch reactionTime) =
     (case onUserResponse e userClicked wasMatch reactionTime of
        Inl err \<Rightarrow> (e, g) | Inr (r, e') \<Rightarrow> (e', g))"
| "engine_step (e, g) GetCurrentN = (e, g)"
| "engine_step (e, g) (SetExcludedPositions ps) = (setExcludedPositions e ps, g)"
| "engine_step (e, g) OnPoorPerformanceStop = (onPoorPerformanceStop e, g)"
| "engine_step (e, g) ShouldStopSession = (snd (shouldStopSession e), g)"
| "engine_step (e, g) (ShouldStopForErrors ts k) = (snd (shouldStopForErrors e ts k), g)"
| "engine_step (e, g) GetStats = (e, g)"
| "engine_step (e, g) Reset = (reset e, g)"
| "engine_step (e, g) (WarmStart strat rec) = (warmStart e strat rec, g)"
| "engine_step (e, g) (ToJSON now) = (e, g)"

definition engine_theta :: "engine \<Rightarrow> real" where
  "engine_theta e = theta (abilityModel (e_trainer e))"

section \<open>Runs of calls, and predicates of the properties\<close>

definition cg_ok :: "color_generator \<Rightarrow> bool" where
  \<comment> \<open>what the constructor sets up and \<open>updateMemoryState\<close> keeps: the window state has the
      generator's \<open>n\<close>, holds at most \<open>n + 1\<close> colours, and caches their distinct count\<close>
  "cg_ok cg =
    (wm_n (memoryState cg) = cg_n cg
     \<and> length (recentColors (memoryState cg)) \<le> cg_n cg + 1
     \<and> currentLoad (memoryState cg) = set_size (recentColors (memoryState cg)))"

definition repaired :: "nat \<Rightarrow> string list \<Rightarrow> color list \<Rightarrow> int \<Rightarrow> color \<Rightarrow> bool" where
  \<comment> \<open>\<open>c\<close> is a colour \<open>forceRepair\<close> returns for this window and target: a palette colour
      outside the window when the window is under target and one exists, else the first
      colour of the window\<close>
  "repaired n palette w target c =
    (let windowSet = uniq (slice_last (n + 1) w);
         available = filter (\<lambda>c. c \<notin> set windowSet) (map Some palette)
     in if int (length windowSet) < target \<and> available \<noteq> [] then c \<in> set available
        else c = js_nth windowSet 0)"

definition accepted :: "nat \<Rightarrow> string list \<Rightarrow> color list \<Rightarrow> int \<Rightarrow> color \<Rightarrow> bool" where
  \<comment> \<open>\<open>c\<close> passes the exact-count check, or is a colour of the repair fallback\<close>
  "accepted n palette w target c =
    (isValidNextColor n w c target \<or> repaired n palette w target c)"

definition const_rng :: "real \<Rightarrow> rng" where
  \<comment> \<open>the oracle whose every draw is \<open>r\<close>\<close>
  "const_rng r = (\<lambda>i. r)"

definition example_palette :: "string list" where
  "example_palette = [''red'', ''green'', ''blue'', ''yellow'']"

definition full_window_generator :: color_generator where
  \<comment> \<open>a 2-back generator after three trials at the maximum load 3: three distinct colours\<close>
  "full_window_generator =
    \<lparr>cg_n = 2, availableColors = example_palette,
     memoryState = \<lparr>wm_n = 2, recentColors = [Some ''red'', Some ''green'', Some ''blue''],
                    currentLoad = 3\<rparr>,
     activeSet = None, lastTarget = Some 3\<rparr>"

definition window_count :: "color_generator \<Rightarrow> int" where
  \<comment> \<open>the distinct count that the window state holds (\<open>memoryState.currentLoad\<close>)\<close>
  "window_count cg = int (currentLoad (memoryState cg))"

definition settled :: "color_generator \<Rightarrow> int \<Rightarrow> bool" where
  \<comment> \<open>the window is at the target, or it is full and one below the target with its last colour
      an n-back match (the colour \<open>n\<close> places back is then the first of the window)\<close>
  "settled cg target =
    (let w = recentColors (memoryState cg)
     in int (set_size w) = target
        \<or> (length w = cg_n cg + 1 \<and> int (set_size w) = target - 1 \<and> hd w = last w))"

definition after_match_generator :: color_generator where
  \<comment> \<open>\<open>full_window_generator\<close> after a match trial has shown green again\<close>
  "after_match_generator = updateMemoryState full_window_generator (Some ''green'')"

definition repeating_window_generator :: color_generator where
  \<comment> \<open>a 2-back generator at the minimum load 2, its window full\<close>
  "repeating_window_generator =
    \<lparr>cg_n = 2, availableColors = example_palette,
     memoryState = \<lparr>wm_n = 2, recentColors = [Some ''red'', Some ''green'', Some ''green''],
                    currentLoad = 2\<rparr>,
     activeSet = Some [Some ''red'', Some ''green''], lastTarget = Some 2\<rparr>"

definition three_back_generator :: color_generator where
  \<comment> \<open>a 3-back generator at the load 3, its window full\<close>
  "three_back_generator =
    \<lparr>cg_n = 3, availableColors = example_palette,
     memoryState = \<lparr>wm_n = 3,
                    recentColors = [Some ''red'', Some ''green'', Some ''red'', Some ''blue''],
                    currentLoad = 3\<rparr>,
     activeSet = Some [Some ''red'', Some ''green'', Some ''blue''], lastTarget = Some 3\<rparr>"

definition next_trial :: "trainer \<times> rng \<Rightarrow> trainer \<times> rng" where
  \<comment> \<open>one call of \<open>generateNextTrial\<close>, the tile dropped\<close>
  "next_trial s = (let (t, tr, g) = generateNextTrial (fst s) (snd s) in (tr, g))"

definition match_decision :: "trainer \<times> rng \<Rightarrow> bool \<times> bool" where
  \<comment> \<open>the pair \<open>(shouldMatch, isForced)\<close> that the next \<open>generateNextTrial\<close> gets from
      \<open>shouldCreateMatch\<close>, after it has pushed the controller's match rate\<close>
  "match_decision s =
    fst (shouldCreateMatch
           (setTargetRate (matchGenerator (fst s)) (matchRate (difficultyController (fst s))))
           (memoryState (colorGenerator (fst s))) (snd s))"

definition starting :: "nat \<Rightarrow> nat \<Rightarrow> trainer \<Rightarrow> bool" where
  \<comment> \<open>a trainer for \<open>n\<close> that has shown \<open>k\<close> tiles, none a match, and recorded no response\<close>
  "starting n k tr =
     (length (recentColors (memoryState (colorGenerator tr))) = k
      \<and> wm_n (memoryState (colorGenerator tr)) = n
      \<and> trialsSinceLastMatch (matchGenerator tr) = k
      \<and> difficultyController tr = DifficultyController_new n)"

definition only_theta :: "real \<Rightarrow> strategic" where
  \<comment> \<open>a persisted \<open>strategic\<close> object that holds nothing but \<open>theta\<close>\<close>
  "only_theta v =
    \<lparr>s_theta = Some v, s_targetEntropy = None, s_tse = None, s_currentUniqueColors = None,
     s_integral = None, s_matchRate = None, s_totalTrials = None\<rparr>"

definition dc_run :: "difficulty_controller \<Rightarrow> ability_model list \<Rightarrow> difficulty_controller" where
  \<comment> \<open>\<open>update\<close> called once for each ability-model snapshot in turn\<close>
  "dc_run dc snaps = foldl DifficultyController_update dc snaps"

fun candidates :: "difficulty_controller \<Rightarrow> ability_model list \<Rightarrow> int list" where
  \<comment> \<open>the candidate colour count of each of those calls, in order\<close>
  "candidates dc [] = []"
| "candidates dc (ab # snaps) =
     candidateColors dc ab # candidates (DifficultyController_update dc ab) snaps"

definition held :: "nat \<Rightarrow> int \<Rightarrow> int list \<Rightarrow> bool" where
  \<comment> \<open>the last \<open>k\<close> candidates of the list exist and all equal \<open>v\<close>\<close>
  "held k v cs = (k \<le> length cs \<and> drop (length cs - k) cs = replicate k v)"

definition strong_player :: ability_model where
  \<comment> \<open>an ability model with \<open>theta\<close> 3 and empty windows, as after a warm start\<close>
  "strong_player = AbilityModel_new\<lparr>theta := 3\<rparr>"

definition primed_controller :: difficulty_controller where
  \<comment> \<open>a 2-back controller at two colours whose entropy and TSE have reached 1\<close>
  "primed_controller = (DifficultyController_new 2)\<lparr>targetEntropy := 1, tse := 1\<rparr>"

definition ability_run :: "ability_model \<Rightarrow> (bool \<times> bool \<times> real) list \<Rightarrow> ability_model" where
  \<comment> \<open>\<open>recordTrial(wasMatch, userClicked, reactionTime)\<close> called for each triple in turn\<close>
  "ability_run ab trials = foldl (\<lambda>ab (m, c, rt). AbilityModel_recordTrial ab m c rt) ab trials"

definition theta_after :: "nat \<Rightarrow> real" where
  \<comment> \<open>\<open>theta\<close> of a fresh model after \<open>k\<close> correct target trials answered in 500 ms\<close>
  "theta_after k = theta (ability_run AbilityModel_new (replicate k (True, True, 500)))"

definition tail_ratio :: "real \<Rightarrow> real" where
  \<comment> \<open>the rational function of \<open>q\<close> that both tail branches of \<open>invNorm\<close> evaluate\<close>
  "tail_ratio q =
    (((((- 0.007784894002430293 * q + - 0.3223964580411365) * q + - 2.400758277161838) * q
        + - 2.549732539343734) * q + 4.374664141464968) * q + 2.938163982698783)
    / ((((0.007784695709041462 * q + 0.3224671290700398) * q + 2.445134137142996) * q
        + 3.754408661907416) * q + 1)"

definition tail_num :: "real \<Rightarrow> real \<Rightarrow> real" where
  \<comment> \<open>the negated numerator of \<open>tail_ratio\<close>, its growing part taken at \<open>a\<close> and its falling part at \<open>b\<close>\<close>
  "tail_num a b =
     (((0.007784894002430293 * a + 0.3223964580411365) * a + 2.400758277161838) * a
        + 2.549732539343734) * a * a - 4.374664141464968 * b - 2.938163982698783"

definition tail_den :: "real \<Rightarrow> real" where
  \<comment> \<open>the denominator of \<open>tail_ratio\<close>\<close>
  "tail_den q = (((0.007784695709041462 * q + 0.3224671290700398) * q + 2.445134137142996) * q
        + 3.754408661907416) * q + 1"

definition llr_step :: "bool \<Rightarrow> bool \<Rightarrow> real" where
  \<comment> \<open>the log-likelihood ratio \<open>Math.log(pObserved1 / pObserved0)\<close> of one trial\<close>
  "llr_step c m =
    (if c then ln (thetaToAccuracy theta1 m / thetaToAccuracy theta0 m)
     else ln ((1 - thetaToAccuracy theta1 m) / (1 - thetaToAccuracy theta0 m)))"

definition SPRT_run :: "sprt_stopper \<Rightarrow> (bool \<times> bool) list \<Rightarrow> sprt_stopper" where
  \<comment> \<open>\<open>recordTrial(correct, wasMatch)\<close> called for each pair in turn\<close>
  "SPRT_run s trials = foldl (\<lambda>s (c, m). SPRT_recordTrial s c m) s trials"

section \<open>Bounds on the exponential and the logarithm\<close>

lemma exp_lower_even:
  fixes x :: real assumes "even n" shows "(\<Sum>m<n. x ^ m / fact m) \<le> exp x"
proof -
  obtain t where "exp x = (\<Sum>m<n. x ^ m / fact m) + (exp t / fact n) * x ^ n"
    using Maclaurin_exp_le [of x n] by blast
  moreover have "0 \<le> (exp t / fact n) * x ^ n"
    using assms by (simp add: zero_le_even_power)
  ultimately show ?thesis by linarith
qed

lemma exp_upper_odd:
  fixes x :: real assumes "odd n" and "x \<le> 0" shows "exp x \<le> (\<Sum>m<n. x ^ m / fact m)"
proof -
  obtain t where "exp x = (\<Sum>m<n. x ^ m / fact m) + (exp t / fact n) * x ^ n"
    using Maclaurin_exp_le [of x n] by blast
  moreover have "x ^ n \<le> 0"
    using assms odd_pos [of n] by (simp add: power_le_zero_eq)
  then have "(exp t / fact n) * x ^ n \<le> 0"
    by (intro mult_nonneg_nonpos) simp_all
  ultimately show ?thesis by linarith
qed

lemma exp_taylor_lower:
  fixes x :: real assumes "0 \<le> x" shows "(\<Sum>m<n. x ^ m / fact m) \<le> exp x"
proof -
  obtain t where "exp x = (\<Sum>m<n. x ^ m / fact m) + (exp t / fact n) * x ^ n"
    using Maclaurin_exp_le [of x n] by blast
  moreover have "0 \<le> (exp t / fact n) * x ^ n"
    using assms by simp
  ultimately show ?thesis by linarith
qed

lemma exp_taylor_upper:
  fixes x :: real assumes "0 \<le> x" and "x \<le> 1"
  shows "exp x \<le> (\<Sum>m<n. x ^ m / fact m) + 3 * x ^ n / fact n"
proof -
  obtain t where t: "\<bar>t\<bar> \<le> \<bar>x\<bar>"
      "exp x = (\<Sum>m<n. x ^ m / fact m) + (exp t / fact n) * x ^ n"
    using Maclaurin_exp_le [of x n] by blast
  have "exp t \<le> exp 1"
    using t(1) assms by simp
  then have "exp t \<le> 3"
    using exp_le by linarith
  then have "exp t * (x ^ n / fact n) \<le> 3 * (x ^ n / fact n)"
    using assms(1) by (intro mult_right_mono) simp_all
  then show ?thesis
    using t(2) by simp
qed

lemma ln_lower_taylor:
  fixes x :: real assumes "0 \<le> x" and "x \<le> 1"
    and "(\<Sum>m<10. x ^ m / fact m) + 3 * x ^ 10 / fact 10 \<le> n"
  shows "x \<le> ln n"
proof -
  have "exp x \<le> n"
    using exp_taylor_upper [OF assms(1,2), of 10] assms(3) by linarith
  then have "ln (exp x) \<le> ln n"
    by (intro ln_mono) simp_all
  then show ?thesis by simp
qed

lemma ln_upper_taylor:
  fixes x :: real assumes "0 \<le> x" and "0 < n"
    and "n \<le> (\<Sum>m<10. x ^ m / fact m)"
  shows "ln n \<le> x"
proof -
  have "n \<le> exp x"
    using exp_taylor_lower [OF assms(1), of 10] assms(3) by linarith
  then have "ln n \<le> ln (exp x)"
    using assms(2) by (intro ln_mono) simp_all
  then show ?thesis by simp
qed

lemma ln_2_bounds: "0.6931471 \<le> ln (2::real) \<and> ln (2::real) \<le> 0.6931473"
proof -
  have "0.6931471 \<le> ln (2::real)"
    by (rule ln_lower_taylor) (simp_all add: eval_nat_numeral)
  moreover have "ln (2::real) \<le> 0.6931473"
    by (rule ln_upper_taylor) (simp_all add: eval_nat_numeral)
  ultimately show ?thesis by simp
qed

lemma stopBound_approx: "2.89 < stopBound \<and> stopBound < 2.891"
proof -
  have "0.117782 \<le> ln (9 / 8 :: real)"
    by (rule ln_lower_taylor) (simp_all add: eval_nat_numeral)
  moreover have "ln (9 / 8 :: real) \<le> 0.117784"
    by (rule ln_upper_taylor) (simp_all add: eval_nat_numeral)
  moreover have "ln (18::real) = 4 * ln 2 + ln (9 / 8 :: real)"
    using ln_mult [of "2 ^ 4 :: real" "9 / 8"] ln_realpow [of "2::real" 4] by simp
  moreover have "stopBound = ln 18"
    by (simp add: stopBound_def)
  ultimately show ?thesis
    using ln_2_bounds by auto
qed

lemma acceptBound_approx: "- 2.252 < acceptBound \<and> acceptBound < - 2.251"
proof -
  have "0.171850 \<le> ln (19 / 16 :: real)"
    by (rule ln_lower_taylor) (simp_all add: eval_nat_numeral)
  moreover have "ln (19 / 16 :: real) \<le> 0.171851"
    by (rule ln_upper_taylor) (simp_all add: eval_nat_numeral)
  moreover have "ln (19 / 2 :: real) = 3 * ln 2 + ln (19 / 16 :: real)"
    using ln_mult [of "2 ^ 3 :: real" "19 / 16"] ln_realpow [of "2::real" 3] by simp
  moreover have "acceptBound = - ln (19 / 2 :: real)"
    using ln_div [of 2 "19::real"] ln_div [of 19 "2::real"] by (simp add: acceptBound_def)
  ultimately show ?thesis
    using ln_2_bounds by auto
qed

section \<open>Properties of the SPRT stopper\<close>

lemma thetaToAccuracy_pos: "0 < thetaToAccuracy th m"
  by (simp add: thetaToAccuracy_def add_pos_pos)

lemma thetaToAccuracy_less_one: "thetaToAccuracy th m < 1"
  by (simp add: thetaToAccuracy_def add_pos_pos)

lemma thetaToAccuracy_strict_mono:
  assumes "a < b" shows "thetaToAccuracy a m < thetaToAccuracy b m"
proof -
  have "exp (- (b - 0.5) * 1.5) < exp (- (a - 0.5) * 1.5)"
       "exp (- (b - 0.2) * 1.5) < exp (- (a - 0.2) * 1.5)"
    using assms by simp_all
  then show ?thesis
    by (auto simp: thetaToAccuracy_def add_pos_pos intro!: divide_strict_left_mono mult_pos_pos)
qed

lemma p1_less_p0: "thetaToAccuracy theta1 m < thetaToAccuracy theta0 m"
  by (rule thetaToAccuracy_strict_mono) (simp add: theta0_def theta1_def)

lemma p1_gt_half: "1 / 2 < thetaToAccuracy theta1 m"
proof -
  have "exp (- (theta1 - 0.5) * 1.5) < 1" "exp (- (theta1 - 0.2) * 1.5) < 1"
    by (simp_all add: theta1_def)
  then show ?thesis
    by (cases m) (simp_all add: thetaToAccuracy_def field_simps add_pos_pos)
qed

lemma accumulated_logLR_eq: "accumulated_logLR s c m = logLR s + llr_step c m"
  using thetaToAccuracy_pos [of theta0 m] thetaToAccuracy_pos [of theta1 m]
    thetaToAccuracy_less_one [of theta0 m] thetaToAccuracy_less_one [of theta1 m]
  by (simp add: accumulated_logLR_def llr_step_def Let_def)

lemma llr_step_correct_neg: "llr_step True m < 0"
  using p1_less_p0 [of m] thetaToAccuracy_pos [of theta0 m] thetaToAccuracy_pos [of theta1 m]
  by (simp add: llr_step_def)

lemma llr_step_incorrect_pos: "0 < llr_step False m"
  using p1_less_p0 [of m] thetaToAccuracy_less_one [of theta0 m] thetaToAccuracy_less_one [of theta1 m]
  by (simp add: llr_step_def)

lemma llr_step_correct_lower: "- ln 2 < llr_step True m"
proof -
  have "1 / 2 < thetaToAccuracy theta1 m / thetaToAccuracy theta0 m"
    using p1_gt_half [of m] thetaToAccuracy_less_one [of theta0 m] thetaToAccuracy_pos [of theta0 m]
    by (simp add: field_simps)
  moreover have "0 < thetaToAccuracy theta1 m / thetaToAccuracy theta0 m"
    using thetaToAccuracy_pos [of theta0 m] thetaToAccuracy_pos [of theta1 m] by simp
  ultimately have "ln (1 / 2) < ln (thetaToAccuracy theta1 m / thetaToAccuracy theta0 m)"
    by (subst ln_less_cancel_iff) simp_all
  then show ?thesis by (simp add: llr_step_def ln_div)
qed

lemma acceptBound_neg: "acceptBound < - ln 2"
proof -
  have "ln (0.10 / (1 - 0.05)) < ln (1 / (2::real))"
    by (subst ln_less_cancel_iff) simp_all
  then show ?thesis by (simp add: acceptBound_def ln_div)
qed

lemma stopBound_pos: "0 < stopBound"
  by (simp add: stopBound_def)

lemma SPRT_recordTrial_logLR:
  "logLR (SPRT_recordTrial s c m) =
     (if logLR s + llr_step c m \<ge> stopBound then logLR s + llr_step c m
      else if logLR s + llr_step c m \<le> acceptBound then 0 else logLR s + llr_step c m)"
  using accumulated_logLR_eq [of "s\<lparr>trialsRecorded := trialsRecorded s + 1\<rparr>" c m]
  by (simp add: SPRT_recordTrial_def Let_def)

text \<open>
  Claim C7, as the code has it. An incorrect trial strictly increases \<open>logLR\<close>, for a target and
  for a non-target trial, whatever the state. A correct trial strictly decreases it as long as
  the accumulated value stays above the lower bound; when a correct trial takes the accumulated
  value to the lower bound or below, \<open>logLR\<close> is reset to 0, which is above its negative value
  before the call.
\<close>

theorem logLR_direction:
  "logLR s < logLR (SPRT_recordTrial s False m)
   \<and> (acceptBound < accumulated_logLR s True m \<longrightarrow> logLR (SPRT_recordTrial s True m) < logLR s)
   \<and> (accumulated_logLR s True m \<le> acceptBound \<longrightarrow>
        logLR (SPRT_recordTrial s True m) = 0 \<and> logLR s < 0)"
  using llr_step_incorrect_pos [of m] llr_step_correct_neg [of m] llr_step_correct_lower [of m]
    acceptBound_neg stopBound_pos
  by (auto simp: SPRT_recordTrial_logLR accumulated_logLR_eq)

lemma accumulated_logLR_trials [simp]:
  "accumulated_logLR (s\<lparr>trialsRecorded := k\<rparr>) c m = accumulated_logLR s c m"
  by (simp add: accumulated_logLR_def Let_def)

lemma acceptBound_less_stopBound: "acceptBound < stopBound"
  using acceptBound_neg stopBound_pos ln_gt_zero [of "2::real"] by linarith

lemma SPRT_recordTrial_cases:
  "SPRT_recordTrial s c m =
     (if stopBound \<le> accumulated_logLR s c m
      then \<lparr>logLR = accumulated_logLR s c m, decision = Stop,
            trialsRecorded = trialsRecorded s + 1\<rparr>
      else if accumulated_logLR s c m \<le> acceptBound
      then \<lparr>logLR = 0, decision = Continue, trialsRecorded = trialsRecorded s + 1\<rparr>
      else \<lparr>logLR = accumulated_logLR s c m, decision = decision s,
            trialsRecorded = trialsRecorded s + 1\<rparr>)"
  by (simp add: SPRT_recordTrial_def Let_def)

text \<open>
  Claim C4. With \<open>accumulated_logLR\<close> the value of \<open>logLR\<close> after the accumulation step:
  \<open>recordTrial\<close> assigns \<open>Stop\<close> when that value is at or above \<open>stopBound = ln (0.90 / 0.05)\<close>,
  which is 2.89 to two decimals,
  and below the bound it never does (the decision is set to \<open>Continue\<close> at the lower bound and
  left as it was in between); at or below \<open>acceptBound = ln (0.10 / 0.95)\<close>, which is -2.25
  to two decimals, it resets \<open>logLR\<close> to 0 with the decision \<open>Continue\<close>, and \<open>trialsRecorded\<close> is incremented, not reset;
  \<open>shouldStop\<close> is false with fewer than 8 recorded trials, whatever \<open>logLR\<close> and the decision.
\<close>

theorem sprt_bounds:
  "(stopBound \<le> accumulated_logLR s c m \<longrightarrow>
      decision (SPRT_recordTrial s c m) = Stop
      \<and> logLR (SPRT_recordTrial s c m) = accumulated_logLR s c m)
 \<and> (accumulated_logLR s c m < stopBound \<longrightarrow>
      decision (SPRT_recordTrial s c m)
        = (if accumulated_logLR s c m \<le> acceptBound then Continue else decision s))
 \<and> (accumulated_logLR s c m \<le> acceptBound \<longrightarrow>
      logLR (SPRT_recordTrial s c m) = 0 \<and> decision (SPRT_recordTrial s c m) = Continue
      \<and> trialsRecorded (SPRT_recordTrial s c m) = trialsRecorded s + 1)
 \<and> (trialsRecorded s < 8 \<longrightarrow> \<not> shouldStop s)
 \<and> stopBound = ln (0.90 / 0.05) \<and> acceptBound = ln (0.10 / 0.95)
 \<and> 2.89 < stopBound \<and> stopBound < 2.891
 \<and> - 2.252 < acceptBound \<and> acceptBound < - 2.251"
proof -
  have "stopBound = ln (0.90 / 0.05)" "acceptBound = ln (0.10 / 0.95)"
    by (simp_all add: stopBound_def acceptBound_def)
  moreover have "trialsRecorded s < 8 \<longrightarrow> \<not> shouldStop s"
    by (simp add: shouldStop_def)
  moreover have "accumulated_logLR s c m \<le> acceptBound \<Longrightarrow>
      \<not> stopBound \<le> accumulated_logLR s c m"
    using acceptBound_less_stopBound by linarith
  ultimately show ?thesis
    using stopBound_approx acceptBound_approx
    by (auto simp: SPRT_recordTrial_cases)
qed

lemma stopBound_le_17: "stopBound \<le> 17"
proof -
  have "ln (18::real) \<le> 18 - 1" by (rule ln_le_minus_one) simp
  then show ?thesis by (simp add: stopBound_def)
qed

theorem sprt_bounds_witness:
  "stopBound \<le> accumulated_logLR \<lparr>logLR = 17, decision = Continue, trialsRecorded = 3\<rparr> False True
   \<and> decision (SPRT_recordTrial \<lparr>logLR = 17, decision = Continue, trialsRecorded = 3\<rparr> False True)
       = Stop
   \<and> trialsRecorded \<lparr>logLR = 17, decision = Continue, trialsRecorded = 3\<rparr> < 8
   \<and> \<not> shouldStop \<lparr>logLR = 17, decision = Continue, trialsRecorded = 3\<rparr>"
proof -
  have "stopBound \<le> accumulated_logLR \<lparr>logLR = 17, decision = Continue, trialsRecorded = 3\<rparr>
                       False True"
    using stopBound_le_17 llr_step_incorrect_pos [of True] by (simp add: accumulated_logLR_eq)
  then show ?thesis
    using sprt_bounds [of "\<lparr>logLR = 17, decision = Continue, trialsRecorded = 3\<rparr>" False True]
    by simp
qed

subsection \<open>A run of correct trials\<close>

lemma exp_045_lower: "(0.636::real) \<le> exp (- (9 / 20))"
proof -
  have "(\<Sum>m<4. (- (9 / 20)) ^ m / fact m) \<le> exp (- (9 / 20) :: real)"
    by (rule exp_lower_even) simp
  then show ?thesis by (simp add: eval_nat_numeral)
qed

lemma exp_045_upper: "exp (- (9 / 20)) \<le> (0.638::real)"
proof -
  have "exp (- (9 / 20) :: real) \<le> (\<Sum>m<5. (- (9 / 20)) ^ m / fact m)"
    by (rule exp_upper_odd) simp_all
  then show ?thesis by (simp add: eval_nat_numeral)
qed

lemma exp_15_upper: "exp (- (3 / 2)) \<le> (0.226::real)"
proof -
  have "exp (- (3 / 2) :: real) \<le> (\<Sum>m<7. (- (3 / 2)) ^ m / fact m)"
    by (rule exp_upper_odd) simp_all
  then show ?thesis by (simp add: eval_nat_numeral)
qed

lemma exp_15_lower: "(0.2225::real) \<le> exp (- (3 / 2))"
proof -
  have "(\<Sum>m<8. (- (3 / 2)) ^ m / fact m) \<le> exp (- (3 / 2) :: real)"
    by (rule exp_lower_even) simp
  then show ?thesis by (simp add: eval_nat_numeral)
qed

lemma target_ratio:
  "thetaToAccuracy theta1 True / thetaToAccuracy theta0 True
     = (1 + exp (- (3 / 2))) / (1 + exp (- (9 / 20)))"
  by (simp add: thetaToAccuracy_def theta0_def theta1_def)

lemma target_ratio_bounds:
  "0.74 < thetaToAccuracy theta1 True / thetaToAccuracy theta0 True"
  "thetaToAccuracy theta1 True / thetaToAccuracy theta0 True < 0.75"
proof -
  have pos: "0 < 1 + exp (- (9 / 20) :: real)" by (simp add: add_pos_pos)
  show "0.74 < thetaToAccuracy theta1 True / thetaToAccuracy theta0 True"
    unfolding target_ratio using exp_045_upper exp_15_lower pos
    by (simp add: pos_less_divide_eq)
  show "thetaToAccuracy theta1 True / thetaToAccuracy theta0 True < 0.75"
    unfolding target_ratio using exp_045_lower exp_15_upper pos
    by (simp add: pos_divide_less_eq)
qed

lemma seven_correct_above_acceptBound: "acceptBound < 7 * llr_step True True"
proof -
  let ?r = "thetaToAccuracy theta1 True / thetaToAccuracy theta0 True"
  have r: "0 < ?r"
    using thetaToAccuracy_pos [of theta0 True] thetaToAccuracy_pos [of theta1 True] by simp
  have "(2 / 19 :: real) < 0.74 ^ 7" by (simp add: power_divide)
  also have "\<dots> < ?r ^ 7"
    using target_ratio_bounds(1) by (intro power_strict_mono) simp_all
  finally have "ln (2 / 19) < ln (?r ^ 7)"
    by (rule ln_strict_mono) simp
  then show ?thesis
    using r by (simp add: ln_realpow acceptBound_def llr_step_def)
qed

lemma eight_correct_reach_acceptBound: "8 * llr_step True True \<le> acceptBound"
proof -
  let ?r = "thetaToAccuracy theta1 True / thetaToAccuracy theta0 True"
  have r: "0 < ?r"
    using thetaToAccuracy_pos [of theta0 True] thetaToAccuracy_pos [of theta1 True] by simp
  have "?r ^ 8 \<le> 0.75 ^ 8"
    using target_ratio_bounds(2) r by (intro power_mono) simp_all
  also have "\<dots> \<le> (2 / 19 :: real)" by (simp add: power_divide)
  finally have "ln (?r ^ 8) \<le> ln (2 / 19)"
    using zero_less_power [OF r, of 8] by (rule ln_mono)
  then show ?thesis
    using r by (simp add: ln_realpow acceptBound_def llr_step_def)
qed

lemma correct_targets_run:
  "k \<le> 7 \<Longrightarrow> logLR (SPRT_run SPRTStopper_new (replicate k (True, True))) = real k * llr_step True True"
proof (induction k)
  case 0
  then show ?case by (simp add: SPRT_run_def SPRTStopper_new_def)
next
  case (Suc k)
  have neg: "llr_step True True < 0" by (rule llr_step_correct_neg)
  have "7 * llr_step True True \<le> real (Suc k) * llr_step True True"
    using Suc.prems neg by (simp add: mult_right_mono_neg)
  then have lo: "acceptBound < real (Suc k) * llr_step True True"
    using seven_correct_above_acceptBound by linarith
  have "real (Suc k) * llr_step True True < 0"
    using neg by (simp add: mult_pos_neg)
  then have hi: "real (Suc k) * llr_step True True < stopBound"
    using stopBound_pos by linarith
  have "replicate (Suc k) (True, True) = replicate k (True, True) @ [(True, True)]"
    by (simp add: replicate_append_same)
  then have "SPRT_run SPRTStopper_new (replicate (Suc k) (True, True))
      = SPRT_recordTrial (SPRT_run SPRTStopper_new (replicate k (True, True))) True True"
    by (simp add: SPRT_run_def)
  then show ?case
    using Suc lo hi by (simp add: SPRT_recordTrial_logLR algebra_simps)
qed

text \<open>
  Claim C7 fails as stated: from a fresh stopper, seven correct target trials take \<open>logLR\<close> to
  seven times the (negative) step, still above the lower bound; the eighth reaches the bound,
  so \<open>logLR\<close> is reset to 0 and the call raises it.
\<close>

theorem eighth_correct_trial_raises_logLR:
  "logLR (SPRT_run SPRTStopper_new (replicate 7 (True, True)))
     < logLR (SPRT_recordTrial (SPRT_run SPRTStopper_new (replicate 7 (True, True))) True True)"
proof -
  have "logLR (SPRT_run SPRTStopper_new (replicate 7 (True, True))) = 7 * llr_step True True"
    using correct_targets_run [of 7] by simp
  moreover have "7 * llr_step True True < 0"
    using llr_step_correct_neg [of True] by simp
  moreover have "7 * llr_step True True + llr_step True True < stopBound"
    using llr_step_correct_neg [of True] stopBound_pos by linarith
  ultimately show ?thesis
    using eight_correct_reach_acceptBound by (simp add: SPRT_recordTrial_logLR)
qed

theorem logLR_direction_witness:
  "logLR SPRTStopper_new < logLR (SPRT_recordTrial SPRTStopper_new False True)
   \<and> acceptBound < accumulated_logLR SPRTStopper_new True True
   \<and> logLR (SPRT_recordTrial SPRTStopper_new True True) < logLR SPRTStopper_new
   \<and> accumulated_logLR (SPRT_run SPRTStopper_new (replicate 7 (True, True))) True True
        \<le> acceptBound
   \<and> logLR (SPRT_recordTrial (SPRT_run SPRTStopper_new (replicate 7 (True, True))) True True) = 0"
proof -
  have a: "acceptBound < accumulated_logLR SPRTStopper_new True True"
    using llr_step_correct_lower [of True] acceptBound_neg
    by (simp add: accumulated_logLR_eq SPRTStopper_new_def)
  have b: "accumulated_logLR (SPRT_run SPRTStopper_new (replicate 7 (True, True))) True True
        \<le> acceptBound"
    using correct_targets_run [of 7] eight_correct_reach_acceptBound
    by (simp add: accumulated_logLR_eq)
  show ?thesis
    using a b logLR_direction [of SPRTStopper_new True]
      logLR_direction [of "SPRT_run SPRTStopper_new (replicate 7 (True, True))" True]
    by simp
qed

section \<open>Properties of the trainer and the controller\<close>

text \<open>
  Claim C3. A response whose reaction time is below 150 ms or above 5000 ms leaves the whole
  trainer as it was (so the ability model, the difficulty controller and the SPRT stopper are
  unchanged) and still returns a result: \<open>correct\<close>, \<open>wasMatch\<close> and \<open>feedback\<close> as computed,
  and \<open>isValid = false\<close>.
\<close>

theorem invalid_trial_updates_nothing:
  assumes "reactionTime < 150 \<or> reactionTime > 5000"
  shows "recordResponse tr userClicked wasMatch reactionTime =
           (\<lparr>correct = (userClicked = wasMatch), resp_wasMatch = wasMatch,
             feedback = generateFeedback (userClicked = wasMatch) wasMatch, isValid = False\<rparr>,
            tr)"
  using assms by (auto simp: recordResponse_def isValidTrial_def Let_def)

theorem invalid_trial_updates_nothing_witness:
  "((100::real) < 150 \<or> (100::real) > 5000) \<and>
   recordResponse (WorkingMemoryTrainer_new 2 [''red'', ''green'', ''blue'']) True False 100 =
     (\<lparr>correct = False, resp_wasMatch = False, feedback = ''False positive'', isValid = False\<rparr>,
      WorkingMemoryTrainer_new 2 [''red'', ''green'', ''blue''])"
  using invalid_trial_updates_nothing
          [of 100 "WorkingMemoryTrainer_new 2 [''red'', ''green'', ''blue'']" True False]
  by (simp add: generateFeedback_def)

lemma step_hold_gate_fields [simp]:
  "targetEntropy (step_hold_gate dc c) = targetEntropy dc"
  "tse (step_hold_gate dc c) = tse dc"
  "integral (step_hold_gate dc c) = integral dc"
  "dc_n (step_hold_gate dc c) = dc_n dc"
  by (simp_all add: step_hold_gate_def Let_def)

lemma update_keeps_ranges:
  "0 \<le> targetEntropy (DifficultyController_update dc ab)
   \<and> targetEntropy (DifficultyController_update dc ab) \<le> 1
   \<and> 0 \<le> tse (DifficultyController_update dc ab)
   \<and> tse (DifficultyController_update dc ab) \<le> 1"
  by (simp add: DifficultyController_update_def Let_def next_entropy_def clamp01_def)

lemma new_controller_ranges:
  "targetEntropy (DifficultyController_new n) = 0 \<and> tse (DifficultyController_new n) = 0"
  by (simp add: DifficultyController_new_def)

lemma onSessionStopped_keeps_ranges:
  "0 \<le> targetEntropy (onSessionStopped dc) \<and> 0 \<le> tse (onSessionStopped dc)"
  by (simp add: onSessionStopped_def Let_def)

text \<open>
  Claim C8. On a controller whose committed colour count is 4, and whose \<open>targetEntropy\<close> and
  \<open>tse\<close> are not negative (the controller keeps both in \<open>[0, 1]\<close>, see \<open>update_keeps_ranges\<close>),
  \<open>onSessionStopped\<close> gives the count 3 whatever the hold counter and the pending candidate
  are, the integral 0, the hold counter 0, half the entropy, the match rate raised by 0.05 up
  to the cap 0.40, and 30 percent of the TSE.
\<close>

theorem onSessionStopped_from_four:
  assumes "currentUniqueColors dc = 4" and "0 \<le> targetEntropy dc" and "0 \<le> tse dc"
  shows "currentUniqueColors (onSessionStopped dc) = 3
       \<and> integral (onSessionStopped dc) = 0
       \<and> stepHoldCounter (onSessionStopped dc) = 0
       \<and> targetEntropy (onSessionStopped dc) = targetEntropy dc / 2
       \<and> matchRate (onSessionStopped dc) = min 0.40 (matchRate dc + 0.05)
       \<and> tse (onSessionStopped dc) = 0.3 * tse dc"
  using assms by (simp add: onSessionStopped_def Let_def minUniqueColors_def max_def)

theorem onSessionStopped_from_four_witness:
  "currentUniqueColors (onSessionStopped
      ((DifficultyController_new 3)\<lparr>targetEntropy := 0.8, tse := 0.6, currentUniqueColors := 4\<rparr>))
     = 3
   \<and> targetEntropy (onSessionStopped
      ((DifficultyController_new 3)\<lparr>targetEntropy := 0.8, tse := 0.6, currentUniqueColors := 4\<rparr>))
     = 0.4
   \<and> tse (onSessionStopped
      ((DifficultyController_new 3)\<lparr>targetEntropy := 0.8, tse := 0.6, currentUniqueColors := 4\<rparr>))
     = 0.18
   \<and> matchRate (onSessionStopped
      ((DifficultyController_new 3)\<lparr>targetEntropy := 0.8, tse := 0.6, currentUniqueColors := 4\<rparr>))
     = 0.35"
  using onSessionStopped_from_four
    [of "(DifficultyController_new 3)\<lparr>targetEntropy := 0.8, tse := 0.6, currentUniqueColors := 4\<rparr>"]
  by (simp add: DifficultyController_new_def)

text \<open>
  Claim C5. A fresh engine of the same \<open>n\<close>, warm-started with the \<open>strategic\<close> and \<open>recency\<close>
  objects of \<open>toJSON\<close>, reports the same \<open>theta\<close>, \<open>targetEntropy\<close>, \<open>tse\<close> and
  \<open>workingMemory.targetUniqueColors\<close> as the engine that was saved.
\<close>

theorem warmStart_toJSON_roundtrip:
  "es_theta (getStats (warmStart (NBackEngine_new (Some (currentN e)) cs)
       (Some (sv_strategic (toJSON e now))) (Some (sv_recency (toJSON e now)))))
     = es_theta (getStats e)
   \<and> es_targetEntropy (getStats (warmStart (NBackEngine_new (Some (currentN e)) cs)
       (Some (sv_strategic (toJSON e now))) (Some (sv_recency (toJSON e now)))))
     = es_targetEntropy (getStats e)
   \<and> es_tse (getStats (warmStart (NBackEngine_new (Some (currentN e)) cs)
       (Some (sv_strategic (toJSON e now))) (Some (sv_recency (toJSON e now)))))
     = es_tse (getStats e)
   \<and> wms_targetUniqueColors (workingMemory (getStats (warmStart
       (NBackEngine_new (Some (currentN e)) cs)
       (Some (sv_strategic (toJSON e now))) (Some (sv_recency (toJSON e now))))))
     = wms_targetUniqueColors (workingMemory (getStats e))"
  by (simp add: getStats_def warmStart_def toJSON_def trainer_warmStart_def
      trainer_getStats_def Let_def restore_def)

section \<open>Properties of the colour sequence generator\<close>

lemma set_uniq [simp]: "set (uniq xs) = set xs"
  by (induction xs rule: uniq.induct) auto

lemma distinct_uniq [simp]: "distinct (uniq xs)"
  by (induction xs rule: uniq.induct) auto

lemma set_size_card: "set_size xs = card (set xs)"
  using distinct_card [of "uniq xs"] by (simp add: set_size_def)

lemma rand_index_less:
  assumes "rng_ok g" and "0 < len" shows "rand_index g len < len"
proof -
  have r: "0 \<le> rand g" "rand g < 1"
    using assms(1) by (simp_all add: rng_ok_def rand_def)
  have "rand g * real len < real len"
    using r assms(2) by simp
  then have "\<lfloor>rand g * real len\<rfloor> < int len"
    by (simp add: floor_less_iff)
  moreover have "0 \<le> \<lfloor>rand g * real len\<rfloor>"
    using r by simp
  ultimately show ?thesis
    by (simp add: rand_index_def nat_less_iff)
qed

lemma rng_ok_rest: "rng_ok g \<Longrightarrow> rng_ok (rest g)"
  by (simp add: rng_ok_def rest_def)

lemma js_nth_rand_index_mem:
  assumes "rng_ok g" and "xs \<noteq> []"
  shows "js_nth xs (rand_index g (length xs)) \<in> set xs"
  using rand_index_less [OF assms(1), of "length xs"] assms(2)
  by (simp add: js_nth_def)

lemma forceRepair_repaired:
  assumes "rng_ok g"
  shows "repaired n palette w target (fst (forceRepair n palette w target g))
       \<and> rng_ok (snd (forceRepair n palette w target g))"
proof -
  define ws where "ws = uniq (slice_last (n + 1) w)"
  define av where "av = filter (\<lambda>c. c \<notin> set ws) (map Some palette)"
  have fr: "forceRepair n palette w target g =
      (if int (length ws) < target \<and> av \<noteq> []
       then (js_nth av (rand_index g (length av)), rest g) else (js_nth ws 0, g))"
    by (simp add: forceRepair_def Let_def ws_def av_def)
  have rp: "repaired n palette w target c =
      (if int (length ws) < target \<and> av \<noteq> [] then c \<in> set av else c = js_nth ws 0)" for c
    by (simp add: repaired_def Let_def ws_def av_def)
  show ?thesis
  proof (cases "int (length ws) < target \<and> av \<noteq> []")
    case True
    then have "js_nth av (rand_index g (length av)) \<in> set av"
      using js_nth_rand_index_mem [OF assms, of av] by simp
    then show ?thesis
      using True assms by (simp only: fr rp if_True fst_conv snd_conv rng_ok_rest simp_thms)
  next
    case False
    then show ?thesis
      using assms by (simp only: fr rp if_False fst_conv snd_conv simp_thms)
  qed
qed

lemma pickNextWithConstraint_result:
  assumes "rng_ok g" and "pickNextWithConstraint n palette w cands target g = (c, g')"
  shows "(isValidNextColor n w c target \<or> repaired n palette w target c) \<and> rng_ok g'"
proof (cases "filter (\<lambda>c. isValidNextColor n w c target) cands = []")
  case True
  then have "(c, g') = forceRepair n palette w target g"
    using assms(2) by (simp add: pickNextWithConstraint_def Let_def)
  then show ?thesis
    using forceRepair_repaired [OF assms(1), of n palette w target]
    by (metis fst_conv snd_conv)
next
  case False
  let ?valid = "filter (\<lambda>c. isValidNextColor n w c target) cands"
  have "c = js_nth ?valid (rand_index g (length ?valid))" "g' = rest g"
    using assms(2) False by (simp_all add: pickNextWithConstraint_def Let_def)
  moreover have "js_nth ?valid (rand_index g (length ?valid)) \<in> set ?valid"
    using assms(1) False by (rule js_nth_rand_index_mem)
  ultimately show ?thesis
    using assms(1) by (simp add: rng_ok_rest)
qed

lemma pick_accepted:
  assumes "rng_ok g" and "pickNextWithConstraint n palette w cands target g = (c, g')"
  shows "accepted n palette w target c"
  using pickNextWithConstraint_result [OF assms] by (simp add: accepted_def)

lemma replacement_accepted:
  assumes "rng_ok g" and "validReplacements n palette w as target \<noteq> []"
  shows "accepted n palette w target
           (js_nth (validReplacements n palette w as target)
              (rand_index g (length (validReplacements n palette w as target))))"
  using js_nth_rand_index_mem [OF assms] by (simp add: accepted_def validReplacements_def)

lemma generateForMinLoad_accepted:
  assumes "rng_ok g" and "generateForMinLoad cg w ex target g = (c, cg', g')"
  shows "accepted (cg_n cg) (availableColors cg) w target c"
  using assms(2) rng_ok_rest [OF assms(1)] rng_ok_rest [OF rng_ok_rest [OF assms(1)]] assms(1)
  by (auto simp: generateForMinLoad_def Let_def split: if_splits prod.splits
      intro: pick_accepted replacement_accepted)

lemma generateForMaxLoad_accepted:
  assumes "rng_ok g" and "generateForMaxLoad cg w ex target g = (c, cg', g')"
  shows "accepted (cg_n cg) (availableColors cg) w target c"
  using assms
  by (auto simp: generateForMaxLoad_def Let_def split: if_splits prod.splits
      intro: pick_accepted)

lemma generateForMidLoad_accepted:
  assumes "rng_ok g" and "generateForMidLoad cg w ex target g = (c, cg', g')"
  shows "accepted (cg_n cg) (availableColors cg) w target c"
  using assms(2) rng_ok_rest [OF assms(1)] rng_ok_rest [OF rng_ok_rest [OF assms(1)]] assms(1)
  by (auto simp: generateForMidLoad_def Let_def split: if_splits prod.splits
      intro: pick_accepted replacement_accepted)

lemma generateForMinLoad_state:
  assumes "generateForMinLoad cg w ex target g = (c, cg', g')"
  shows "memoryState cg' = memoryState cg \<and> cg_n cg' = cg_n cg
     \<and> availableColors cg' = availableColors cg \<and> lastTarget cg' = lastTarget cg"
  using assms unfolding generateForMinLoad_def Let_def
  by (auto split: if_splits prod.splits)

lemma generateForMaxLoad_state:
  assumes "generateForMaxLoad cg w ex target g = (c, cg', g')"
  shows "memoryState cg' = memoryState cg \<and> cg_n cg' = cg_n cg
     \<and> availableColors cg' = availableColors cg \<and> lastTarget cg' = lastTarget cg"
  using assms unfolding generateForMaxLoad_def Let_def
  by (auto split: prod.splits)

lemma generateForMidLoad_state:
  assumes "generateForMidLoad cg w ex target g = (c, cg', g')"
  shows "memoryState cg' = memoryState cg \<and> cg_n cg' = cg_n cg
     \<and> availableColors cg' = availableColors cg \<and> lastTarget cg' = lastTarget cg"
  using assms unfolding generateForMidLoad_def Let_def
  by (auto split: if_splits prod.splits)

lemma retarget_fields [simp]:
  "memoryState (retarget cg t) = memoryState cg"
  "cg_n (retarget cg t) = cg_n cg"
  "availableColors (retarget cg t) = availableColors cg"
  "lastTarget (retarget cg t) = Some t"
  by (simp_all add: retarget_def Let_def)

lemma generateNextColor_branches:
  assumes "generateNextColor cg t sm nb f ts g = (c, cg', g')"
  shows "(sm \<and> truthy nb \<and> c = nb \<and> cg' = retarget cg (max 2 t) \<and> g' = g
            \<and> (f \<or> isValidMatchColor (cg_n cg) (recentColors (memoryState cg)) nb (max 2 t)))
       \<or> (isValidNextColor (cg_n cg) (recentColors (memoryState cg)) c (max 2 t)
            \<and> cg' = retarget cg (max 2 t) \<and> g' = rest g)
       \<or> (\<exists>ex g1. (g1 = g \<or> g1 = rest g) \<and>
            (generateForMinLoad (retarget cg (max 2 t)) (recentColors (memoryState cg)) ex
                (max 2 t) g1 = (c, cg', g')
             \<or> generateForMaxLoad (retarget cg (max 2 t)) (recentColors (memoryState cg)) ex
                (max 2 t) g1 = (c, cg', g')
             \<or> generateForMidLoad (retarget cg (max 2 t)) (recentColors (memoryState cg)) ex
                (max 2 t) g1 = (c, cg', g')))"
proof (cases "sm \<and> truthy nb
    \<and> (f \<or> isValidMatchColor (cg_n cg) (recentColors (memoryState cg)) nb (max 2 t))")
  case True
  then show ?thesis
    using assms unfolding generateNextColor_def Let_def by simp
next
  case False
  let ?w = "recentColors (memoryState cg)"
  let ?ex = "if \<not> sm then nb else None"
  let ?biased = "ts < 1.0 \<and> ?w \<noteq> [] \<and> truthy (last ?w) \<and> last ?w \<noteq> ?ex"
  let ?g1 = "if ?biased then rest g else g"
  show ?thesis
  proof (cases "?biased \<and> rand g < (1 - 1 / (real (cg_n cg) + 1)) * (1 - ts)
      \<and> isValidNextColor (cg_n cg) ?w (last ?w) (max 2 t)")
    case True
    then have "(c, cg', g') = (last ?w, retarget cg (max 2 t), rest g)"
      using assms False unfolding generateNextColor_def Let_def by simp
    then show ?thesis using True by simp
  next
    case nobias: False
    have g1: "?g1 = g \<or> ?g1 = rest g" by simp
    have "generateForMinLoad (retarget cg (max 2 t)) ?w ?ex (max 2 t) ?g1 = (c, cg', g')
        \<or> generateForMaxLoad (retarget cg (max 2 t)) ?w ?ex (max 2 t) ?g1 = (c, cg', g')
        \<or> generateForMidLoad (retarget cg (max 2 t)) ?w ?ex (max 2 t) ?g1 = (c, cg', g')"
      using assms False nobias unfolding generateNextColor_def Let_def
      by (auto split: if_splits)
    then show ?thesis using g1 by blast
  qed
qed

lemma generateNextColor_accepted:
  assumes "rng_ok g" and "generateNextColor cg t sm nb f ts g = (c, cg', g')"
  shows "accepted (cg_n cg) (availableColors cg) (recentColors (memoryState cg)) (max 2 t) c
       \<or> (sm \<and> truthy nb \<and> c = nb
           \<and> (f \<or> isValidMatchColor (cg_n cg) (recentColors (memoryState cg)) nb (max 2 t)))"
proof -
  let ?w = "recentColors (memoryState cg)"
  let ?cg = "retarget cg (max 2 t)"
  consider
      "sm \<and> truthy nb \<and> c = nb \<and> (f \<or> isValidMatchColor (cg_n cg) ?w nb (max 2 t))"
    | "isValidNextColor (cg_n cg) ?w c (max 2 t)"
    | ex g1 where "rng_ok g1" "generateForMinLoad ?cg ?w ex (max 2 t) g1 = (c, cg', g')"
    | ex g1 where "rng_ok g1" "generateForMaxLoad ?cg ?w ex (max 2 t) g1 = (c, cg', g')"
    | ex g1 where "rng_ok g1" "generateForMidLoad ?cg ?w ex (max 2 t) g1 = (c, cg', g')"
    using generateNextColor_branches [OF assms(2)] assms(1) rng_ok_rest [OF assms(1)] by blast
  then show ?thesis
  proof cases
    case 1
    then show ?thesis by simp
  next
    case 2
    then show ?thesis by (simp add: accepted_def)
  next
    case 3
    then show ?thesis using generateForMinLoad_accepted [OF 3] by simp
  next
    case 4
    then show ?thesis using generateForMaxLoad_accepted [OF 4] by simp
  next
    case 5
    then show ?thesis using generateForMidLoad_accepted [OF 5] by simp
  qed
qed

lemma addColor_window:
  assumes "length (recentColors m) \<le> wm_n m + 1"
  shows "recentColors (addColor m c) = simulated (wm_n m) (recentColors m) c"
proof (cases "length (recentColors m) = wm_n m + 1")
  case True
  then have "recentColors m \<noteq> []" by auto
  then show ?thesis
    using True
    by (simp add: addColor_def push_shift_def simulated_def slice_last_def Let_def drop_Suc)
next
  case False
  then show ?thesis
    using assms
    by (simp add: addColor_def push_shift_def simulated_def slice_last_def Let_def)
qed

lemma addColor_load: "currentLoad (addColor m c) = set_size (recentColors (addColor m c))"
  by (simp add: addColor_def Let_def)

lemma generateNextColor_state:
  assumes "generateNextColor cg t sm nb f ts g = (c, cg', g')"
  shows "memoryState cg' = memoryState cg \<and> cg_n cg' = cg_n cg
     \<and> availableColors cg' = availableColors cg"
proof -
  consider "cg' = retarget cg (max 2 t)"
    | ex g1 where "generateForMinLoad (retarget cg (max 2 t)) (recentColors (memoryState cg)) ex
                (max 2 t) g1 = (c, cg', g')"
    | ex g1 where "generateForMaxLoad (retarget cg (max 2 t)) (recentColors (memoryState cg)) ex
                (max 2 t) g1 = (c, cg', g')"
    | ex g1 where "generateForMidLoad (retarget cg (max 2 t)) (recentColors (memoryState cg)) ex
                (max 2 t) g1 = (c, cg', g')"
    using generateNextColor_branches [OF assms] by blast
  then show ?thesis
  proof cases
    case 1
    then show ?thesis by simp
  next
    case 2
    then show ?thesis using generateForMinLoad_state [OF 2] by simp
  next
    case 3
    then show ?thesis using generateForMaxLoad_state [OF 3] by simp
  next
    case 4
    then show ?thesis using generateForMidLoad_state [OF 4] by simp
  qed
qed

lemma set_simulated_subset: "set (simulated n w c) \<subseteq> insert c (set w)"
  using set_drop_subset [of "length (w @ [c]) - (n + 1)" "w @ [c]"]
  by (auto simp: simulated_def slice_last_def)

lemma getNBackColor_in_window:
  assumes "truthy (getNBackColor m)" shows "getNBackColor m \<in> set (recentColors m)"
  using assms by (auto simp: getNBackColor_def js_nth_def truthy_def split: if_splits)

lemma match_keeps_load:
  assumes "truthy (getNBackColor m)"
  shows "set_size (simulated n (recentColors m) (getNBackColor m)) \<le> set_size (recentColors m)"
proof -
  have "set (simulated n (recentColors m) (getNBackColor m)) \<subseteq> set (recentColors m)"
    using set_simulated_subset [of n "recentColors m" "getNBackColor m"]
      getNBackColor_in_window [OF assms] by auto
  then show ?thesis
    by (simp add: set_size_card card_mono)
qed

lemma simulated_full: "length w = n + 1 \<Longrightarrow> simulated n w c = tl w @ [c]"
  by (cases w) (simp_all add: simulated_def slice_last_def)

lemma simulated_short: "length w \<le> n \<Longrightarrow> simulated n w c = w @ [c]"
  by (simp add: simulated_def slice_last_def)

lemma js_nth_uniq_0: "w \<noteq> [] \<Longrightarrow> js_nth (uniq w) 0 = hd w"
  by (cases w) (simp_all add: js_nth_def)

lemma slice_last_all: "length w \<le> k \<Longrightarrow> slice_last k w = w"
  by (simp add: slice_last_def)

lemma set_tl_hd: "w \<noteq> [] \<Longrightarrow> set w = insert (hd w) (set (tl w))"
  by (cases w) simp_all

lemma last_in_tl: "tl w \<noteq> [] \<Longrightarrow> last w \<in> set (tl w)"
  by (cases w) auto

lemma card_tl_bounds:
  assumes "w \<noteq> []"
  shows "card (set (tl w)) \<le> card (set w) \<and> card (set w) \<le> card (set (tl w)) + 1"
proof -
  have "set w = insert (hd w) (set (tl w))" using assms by (rule set_tl_hd)
  then show ?thesis
    by (simp add: card_insert_if)
qed

text \<open>Inserting a colour never lowers the count by more than one.\<close>

lemma simulated_lower:
  assumes "length w \<le> n + 1"
  shows "card (set w) \<le> card (set (simulated n w c)) + 1"
proof (cases "length w = n + 1")
  case True
  then have w: "w \<noteq> []" by auto
  have "card (set (tl w)) \<le> card (set (simulated n w c))"
    by (simp add: simulated_full [OF True] card_insert_if card_mono)
  then show ?thesis using card_tl_bounds [OF w] by linarith
next
  case False
  then have "length w \<le> n" using assms by simp
  then show ?thesis
    by (simp add: simulated_short card_insert_if)
qed

text \<open>A colour of the window, put at its end, leaves the set as it is when the window is full
  and its head is dropped, and when it is not full.\<close>

lemma simulated_hd:
  assumes "length w \<le> n + 1" and "w \<noteq> []"
  shows "set (simulated n w (hd w)) = set w"
proof (cases "length w = n + 1")
  case True
  show ?thesis
    using set_tl_hd [OF assms(2)] by (simp add: simulated_full [OF True])
next
  case False
  then have "length w \<le> n" using assms by simp
  then show ?thesis
    using assms(2) by (simp add: simulated_short insert_absorb)
qed

lemma simulated_new:
  assumes "length w \<le> n + 1" and "c \<notin> set w"
  shows "card (set w) \<le> card (set (simulated n w c))
       \<and> card (set (simulated n w c)) \<le> card (set w) + 1"
proof (cases "length w = n + 1")
  case True
  then have w: "w \<noteq> []" by auto
  have "c \<notin> set (tl w)"
    using assms(2) set_tl_hd [OF w] by auto
  then have "card (set (simulated n w c)) = card (set (tl w)) + 1"
    by (simp add: simulated_full [OF True])
  then show ?thesis using card_tl_bounds [OF w] by linarith
next
  case False
  then have "length w \<le> n" using assms by simp
  then show ?thesis
    using assms(2) by (simp add: simulated_short)
qed

lemma repaired_window:
  assumes "length w \<le> n + 1"
  shows "repaired n palette w target c =
    (if int (set_size w) < target \<and> filter (\<lambda>c. c \<notin> set w) (map Some palette) \<noteq> []
     then c \<in> set (filter (\<lambda>c. c \<notin> set w) (map Some palette))
     else c = js_nth (uniq w) 0)"
proof -
  have "slice_last (n + 1) w = w" using assms by (rule slice_last_all)
  then show ?thesis
    unfolding repaired_def Let_def set_size_def by simp
qed

text \<open>The fallback never takes the count away from the target.\<close>

lemma repaired_load:
  assumes len: "length w \<le> n + 1" and t: "2 \<le> target"
    and r: "repaired n palette w target c"
  shows "if int (set_size w) < target
         then set_size w \<le> set_size (simulated n w c) \<and> int (set_size (simulated n w c)) \<le> target
         else set_size (simulated n w c) = set_size w"
proof -
  define av where "av = filter (\<lambda>c. c \<notin> set w) (map Some palette)"
  have rp: "if int (set_size w) < target \<and> av \<noteq> [] then c \<in> set av else c = js_nth (uniq w) 0"
    using r unfolding repaired_window [OF len] av_def .
  show ?thesis
  proof (cases "int (set_size w) < target \<and> av \<noteq> []")
    case True
    then have "c \<notin> set w" using rp by (auto simp: av_def)
    from simulated_new [OF len this] True show ?thesis
      by (simp add: set_size_card)
  next
    case False
    then have c: "c = js_nth (uniq w) 0" using rp by auto
    show ?thesis
    proof (cases "w = []")
      case True
      then show ?thesis using t c by (simp add: set_size_def simulated_def slice_last_def)
    next
      case nonempty: False
      then have "c = hd w" using c by (simp add: js_nth_uniq_0)
      then have "set (simulated n w c) = set w"
        using simulated_hd [OF len nonempty] by simp
      then show ?thesis by (simp add: set_size_card)
    qed
  qed
qed

text \<open>A palette with at least \<open>target\<close> names has one outside a window of fewer colours.\<close>

lemma palette_room:
  assumes "int (set_size w) < target" and "target \<le> int (set_size palette)"
  shows "filter (\<lambda>c. c \<notin> set w) (map Some palette) \<noteq> []"
proof
  assume "filter (\<lambda>c. c \<notin> set w) (map Some palette) = []"
  then have "Some ` set palette \<subseteq> set w"
    by (auto simp: filter_empty_conv)
  then have "card (Some ` set palette) \<le> card (set w)"
    by (simp add: card_mono)
  moreover have "card (Some ` set palette) = card (set palette)"
    by (simp add: card_image)
  ultimately show False using assms by (simp add: set_size_card)
qed

lemma settled_accepted:
  assumes len: "length w \<le> n + 1" and t: "2 \<le> target"
    and st: "int (set_size w) = target
           \<or> (length w = n + 1 \<and> int (set_size w) = target - 1 \<and> hd w = last w \<and> 0 < n
               \<and> target \<le> int (set_size palette))"
    and acc: "accepted n palette w target c"
  shows "int (set_size (simulated n w c)) = target"
proof (cases "isValidNextColor n w c target")
  case True
  then show ?thesis by (simp add: isValidNextColor_def)
next
  case False
  then have r: "repaired n palette w target c" using acc by (simp add: accepted_def)
  from st show ?thesis
  proof
    assume a: "int (set_size w) = target"
    then show ?thesis using repaired_load [OF len t r] by simp
  next
    assume b: "length w = n + 1 \<and> int (set_size w) = target - 1 \<and> hd w = last w \<and> 0 < n
               \<and> target \<le> int (set_size palette)"
    then have full: "length w = n + 1" and under: "int (set_size w) < target" by simp_all
    have w: "w \<noteq> []" using full by auto
    have room: "filter (\<lambda>c. c \<notin> set w) (map Some palette) \<noteq> []"
      using palette_room [OF under] b by simp
    have "c \<in> set (filter (\<lambda>c. c \<notin> set w) (map Some palette))"
      using r under room unfolding repaired_window [OF len] by simp
    then have new: "c \<notin> set w" by simp
    have tlw: "tl w \<noteq> []" using full b by (cases w) auto
    then have "last w \<in> set (tl w)"
      by (rule last_in_tl)
    then have "set (tl w) = set w"
      using set_tl_hd [OF w] b by auto
    then have "set (simulated n w c) = insert c (set w)"
      by (simp add: simulated_full [OF full])
    then have "card (set (simulated n w c)) = card (set w) + 1"
      using new by simp
    then show ?thesis using b by (simp add: set_size_card)
  qed
qed

lemma settled_match:
  assumes len: "length (recentColors m) \<le> wm_n m + 1"
    and nb: "truthy (getNBackColor m)"
    and st: "int (set_size (recentColors m)) = target
           \<or> (length (recentColors m) = wm_n m + 1
               \<and> int (set_size (recentColors m)) = target - 1
               \<and> hd (recentColors m) = last (recentColors m))"
  shows "int (set_size (simulated (wm_n m) (recentColors m) (getNBackColor m))) = target
       \<or> (length (simulated (wm_n m) (recentColors m) (getNBackColor m)) = wm_n m + 1
           \<and> int (set_size (simulated (wm_n m) (recentColors m) (getNBackColor m))) = target - 1
           \<and> hd (simulated (wm_n m) (recentColors m) (getNBackColor m))
               = last (simulated (wm_n m) (recentColors m) (getNBackColor m)))"
proof (cases "length (recentColors m) = wm_n m + 1")
  case full: True
  let ?w = "recentColors m"
  let ?c = "getNBackColor m"
  have w: "?w \<noteq> []" using full by auto
  have n: "0 < wm_n m"
    using nb full by (auto simp: getNBackColor_def js_nth_def truthy_def split: if_splits)
  have c: "?c = ?w ! 1"
    using full n by (simp add: getNBackColor_def js_nth_def)
  have tlw: "tl ?w \<noteq> []" using full n by (cases ?w) auto
  have hd: "hd (tl ?w) = ?c"
    using c tlw w by (cases ?w; cases "tl ?w") auto
  then have mem: "?c \<in> set (tl ?w)"
    using tlw hd_in_set by metis
  have sim: "simulated (wm_n m) ?w ?c = tl ?w @ [?c]"
    by (rule simulated_full [OF full])
  have set': "set (simulated (wm_n m) ?w ?c) = set (tl ?w)"
    using mem by (auto simp: sim)
  have 1: "length (simulated (wm_n m) ?w ?c) = wm_n m + 1"
    using full by (simp add: sim)
  have 2: "hd (simulated (wm_n m) ?w ?c) = last (simulated (wm_n m) ?w ?c)"
    using tlw hd by (simp add: sim)
  from st have "int (card (set (tl ?w))) = target \<or> int (card (set (tl ?w))) = target - 1"
  proof
    assume "int (set_size ?w) = target"
    then show ?thesis using card_tl_bounds [OF w] by (auto simp: set_size_card)
  next
    assume b: "length ?w = wm_n m + 1 \<and> int (set_size ?w) = target - 1 \<and> hd ?w = last ?w"
    have "last ?w \<in> set (tl ?w)"
      using tlw by (rule last_in_tl)
    then have "set (tl ?w) = set ?w"
      using set_tl_hd [OF w] b by auto
    then show ?thesis using b by (simp add: set_size_card)
  qed
  then show ?thesis using 1 2 set' by (simp add: set_size_card)
next
  case False
  let ?w = "recentColors m"
  let ?c = "getNBackColor m"
  have short: "length ?w \<le> wm_n m" using False len by simp
  have "?c \<in> set ?w" using nb by (rule getNBackColor_in_window)
  then have "set (simulated (wm_n m) ?w ?c) = set ?w"
    by (auto simp: simulated_short [OF short])
  moreover have "int (set_size ?w) = target" using st False by blast
  ultimately show ?thesis by (simp add: set_size_card)
qed

text \<open>
  Claim C1, as the code has it. Draws lie in \<open>[0, 1)\<close>, the window state is consistent, and
  the target is \<open>max 2 targetUnique\<close>.

  In a settled window (at the target, or full and one below it right after a match; in the
  second case \<open>n\<close> is positive and the palette has at least as many distinct names as the
  target), with the n-back colour of the window passed in, the count after the insertion is
  exactly the target, unless the emitted colour is the n-back colour of a requested match, forced
  or not, where it is the target or one less. The window is settled again afterwards, so that
  this holds trial after trial as long as the target stays the same.

  In any other window (one that is still filling, or whose target has just changed) the count
  is the target when the colour passed the exact check; the n-back colour of a requested match
  gives at most the target when the match is not forced; and a colour of the \<open>forceRepair\<close>
  fallback brings an under-target count no further from the target and not above it, and
  leaves a count at or above the target as it is. In every window the count falls by at most
  one, and the n-back colour never raises it.
\<close>

theorem generated_window_load:
  assumes "rng_ok g" and "cg_ok cg"
    and "generateNextColor cg t sm nb f ts g = (c, cg', g')"
  shows "(settled cg (max 2 t) \<and> nb = getNBackColor (memoryState cg)
            \<and> (window_count cg = max 2 t
                \<or> (0 < cg_n cg \<and> max 2 t \<le> int (set_size (availableColors cg))))
          \<longrightarrow> (window_count (updateMemoryState cg' c) = max 2 t
                \<or> (sm \<and> truthy nb \<and> c = nb
                     \<and> window_count (updateMemoryState cg' c) = max 2 t - 1))
              \<and> settled (updateMemoryState cg' c) (max 2 t))
       \<and> (window_count (updateMemoryState cg' c) = max 2 t
          \<or> (sm \<and> truthy nb \<and> c = nb
              \<and> (f \<or> window_count (updateMemoryState cg' c) \<le> max 2 t))
          \<or> (repaired (cg_n cg) (availableColors cg) (recentColors (memoryState cg)) (max 2 t) c
              \<and> (if window_count cg < max 2 t
                  then window_count cg \<le> window_count (updateMemoryState cg' c)
                       \<and> window_count (updateMemoryState cg' c) \<le> max 2 t
                  else window_count (updateMemoryState cg' c) = window_count cg)))
       \<and> (truthy c \<and> c = getNBackColor (memoryState cg) \<longrightarrow>
            window_count (updateMemoryState cg' c) \<le> window_count cg)
       \<and> window_count cg \<le> window_count (updateMemoryState cg' c) + 1
       \<and> cg_n (updateMemoryState cg' c) = cg_n cg
       \<and> availableColors (updateMemoryState cg' c) = availableColors cg
       \<and> cg_ok (updateMemoryState cg' c)"
proof -
  let ?m = "memoryState cg"
  let ?w = "recentColors ?m"
  let ?n = "cg_n cg"
  let ?T = "max 2 t"
  let ?cg = "updateMemoryState cg' c"
  have st: "memoryState cg' = ?m" "cg_n cg' = ?n" "availableColors cg' = availableColors cg"
    using generateNextColor_state [OF assms(3)] by simp_all
  have ok: "wm_n ?m = ?n" "length ?w \<le> ?n + 1" "currentLoad ?m = set_size ?w"
    using assms(2) by (simp_all add: cg_ok_def)
  have win: "recentColors (memoryState ?cg) = simulated ?n ?w c"
    using addColor_window [of ?m c] ok by (simp add: updateMemoryState_def st)
  have load: "window_count ?cg = int (set_size (simulated ?n ?w c))"
    using addColor_load [of ?m c] win by (simp add: updateMemoryState_def st window_count_def)
  have load0: "window_count cg = int (set_size ?w)"
    by (simp add: window_count_def ok)
  have T: "2 \<le> ?T" by simp
  have len': "length (simulated ?n ?w c) \<le> ?n + 1"
    by (simp add: simulated_def slice_last_def)
  have 5: "cg_n ?cg = ?n" "availableColors ?cg = availableColors cg"
    by (simp_all add: updateMemoryState_def st)
  have "wm_n (memoryState ?cg) = ?n"
    by (simp add: updateMemoryState_def addColor_def Let_def st ok)
  moreover have "currentLoad (memoryState ?cg) = set_size (simulated ?n ?w c)"
    using load by (simp add: window_count_def)
  ultimately have 6: "cg_ok ?cg"
    using win len' 5 by (simp add: cg_ok_def)
  have gen: "accepted ?n (availableColors cg) ?w ?T c
       \<or> (sm \<and> truthy nb \<and> c = nb \<and> (f \<or> isValidMatchColor ?n ?w nb ?T))"
    by (rule generateNextColor_accepted [OF assms(1,3)])
  have 2: "window_count ?cg = ?T
          \<or> (sm \<and> truthy nb \<and> c = nb \<and> (f \<or> window_count ?cg \<le> ?T))
          \<or> (repaired ?n (availableColors cg) ?w ?T c
              \<and> (if window_count cg < ?T
                  then window_count cg \<le> window_count ?cg \<and> window_count ?cg \<le> ?T
                  else window_count ?cg = window_count cg))"
  proof -
    consider "isValidNextColor ?n ?w c ?T" | "repaired ?n (availableColors cg) ?w ?T c"
      | "sm \<and> truthy nb \<and> c = nb \<and> (f \<or> isValidMatchColor ?n ?w nb ?T)"
      using gen by (auto simp: accepted_def)
    then show ?thesis
    proof cases
      case 1
      then show ?thesis by (simp add: load isValidNextColor_def)
    next
      case 2
      from repaired_load [OF ok(2) T 2] have
        "if window_count cg < ?T
         then window_count cg \<le> window_count ?cg \<and> window_count ?cg \<le> ?T
         else window_count ?cg = window_count cg"
        unfolding load load0 by (simp split: if_splits)
      then show ?thesis using 2 by blast
    next
      case 3
      then have "f \<or> int (set_size (simulated ?n ?w c)) \<le> ?T"
        by (auto simp: isValidMatchColor_def)
      then have "f \<or> window_count ?cg \<le> ?T"
        unfolding load .
      then show ?thesis using 3 by blast
    qed
  qed
  have 3: "window_count ?cg \<le> window_count cg" if h: "truthy c \<and> c = getNBackColor ?m"
  proof -
    have "truthy (getNBackColor ?m)" using h by auto
    from match_keeps_load [OF this, of ?n]
    have "set_size (simulated ?n ?w c) \<le> set_size ?w" using h by simp
    then show ?thesis unfolding load load0 by simp
  qed
  have 4: "window_count cg \<le> window_count ?cg + 1"
    using simulated_lower [OF ok(2), of c] by (simp add: load load0 set_size_card)
  have 1: "(window_count ?cg = ?T
              \<or> (sm \<and> truthy nb \<and> c = nb \<and> window_count ?cg = ?T - 1))
           \<and> settled ?cg ?T"
    if h: "settled cg ?T \<and> nb = getNBackColor ?m
         \<and> (window_count cg = ?T
             \<or> (0 < ?n \<and> ?T \<le> int (set_size (availableColors cg))))"
  proof -
    have dyn: "int (set_size ?w) = ?T
        \<or> (length ?w = ?n + 1 \<and> int (set_size ?w) = ?T - 1 \<and> hd ?w = last ?w)"
      using h by (simp add: settled_def Let_def)
    have stat: "int (set_size ?w) = ?T
        \<or> (length ?w = ?n + 1 \<and> int (set_size ?w) = ?T - 1 \<and> hd ?w = last ?w \<and> 0 < ?n
            \<and> ?T \<le> int (set_size (availableColors cg)))"
      using dyn h unfolding load0 by blast
    show ?thesis
    proof (cases "accepted ?n (availableColors cg) ?w ?T c")
      case True
      have "int (set_size (simulated ?n ?w c)) = ?T"
        by (rule settled_accepted [OF ok(2) T stat True])
      then show ?thesis
        by (simp add: load settled_def Let_def win 5)
    next
      case False
      then have m: "sm" "truthy nb" "c = nb" using gen by auto
      have nb: "truthy (getNBackColor ?m)" "c = getNBackColor ?m" using m h by auto
      have le_m: "length (recentColors ?m) \<le> wm_n ?m + 1" using ok by simp
      have dyn_m: "int (set_size ?w) = ?T
        \<or> (length ?w = wm_n ?m + 1 \<and> int (set_size ?w) = ?T - 1 \<and> hd ?w = last ?w)"
        using dyn unfolding ok(1) .
      from settled_match [OF le_m nb(1) dyn_m]
      have "int (set_size (simulated ?n ?w c)) = ?T
           \<or> (length (simulated ?n ?w c) = ?n + 1
               \<and> int (set_size (simulated ?n ?w c)) = ?T - 1
               \<and> hd (simulated ?n ?w c) = last (simulated ?n ?w c))"
        unfolding ok(1) nb(2) .
      then show ?thesis
        using m unfolding load settled_def Let_def win 5 by blast
    qed
  qed
  show ?thesis using 1 2 3 4 5 6 by blast
qed

lemma rng_ok_const: "0 \<le> r \<Longrightarrow> r < 1 \<Longrightarrow> rng_ok (const_rng r)"
  by (simp add: rng_ok_def const_rng_def)

lemma rest_const [simp]: "rest (const_rng r) = const_rng r"
  by (simp add: rest_def const_rng_def)

lemma rand_const [simp]: "rand (const_rng r) = r"
  by (simp add: rand_def const_rng_def)

lemmas generator_defs =
  generateNextColor_def retarget_def generateForMinLoad_def Let_def isValidMatchColor_def
  isValidNextColor_def simulated_def slice_last_def set_size_def truthy_def not_in_window_def
  within_active_def pickNextWithConstraint_def forceRepair_def js_nth_def swapProbability_def
  validReplacements_def rand_index_def updateMemoryState_def addColor_def push_shift_def
  getNBackColor_def

text \<open>
  Claim C1 fails as stated, in windows that are not settled. On the first trial of a fresh
  2-back generator the window holds one colour, so its count is 1 and not the target 2. With a
  full window of three distinct colours, once the target has dropped from 3 to 2, a non-match
  trial that does not swap emits the oldest colour through \<open>forceRepair\<close>: the new window
  again has three distinct colours, and the emitted colour is not the n-back colour. Once the
  target has risen from 2 to 3, a match that is not forced takes the window red, green, green to
  three greens: the count is 1, two below the target. And once the target has dropped from 3
  to 2, a forced match takes the window red, green, red, blue of a 3-back generator to a window
  of three distinct colours, one above the target.
\<close>

theorem window_load_counterexample:
  "generateNextColor (ColorSequenceGenerator_new 2 example_palette) 2 False None False 0
       (const_rng 0)
     = (Some ''red'',
        (ColorSequenceGenerator_new 2 example_palette)
          \<lparr>activeSet := Some [Some ''red''], lastTarget := Some 2\<rparr>,
        const_rng 0)
   \<and> currentLoad (memoryState (updateMemoryState
        ((ColorSequenceGenerator_new 2 example_palette)
          \<lparr>activeSet := Some [Some ''red''], lastTarget := Some 2\<rparr>) (Some ''red''))) = 1
   \<and> getNBackColor (memoryState full_window_generator) = Some ''green''
   \<and> generateNextColor full_window_generator 2 False (Some ''green'') False 1
       (const_rng (9 / 10))
     = (Some ''red'',
        full_window_generator
          \<lparr>activeSet := Some [Some ''red'', Some ''green''], lastTarget := Some 2\<rparr>,
        const_rng (9 / 10))
   \<and> recentColors (memoryState (updateMemoryState
        (full_window_generator
          \<lparr>activeSet := Some [Some ''red'', Some ''green''], lastTarget := Some 2\<rparr>)
        (Some ''red''))) = [Some ''green'', Some ''blue'', Some ''red'']
   \<and> currentLoad (memoryState (updateMemoryState
        (full_window_generator
          \<lparr>activeSet := Some [Some ''red'', Some ''green''], lastTarget := Some 2\<rparr>)
        (Some ''red''))) = 3
   \<and> getNBackColor (memoryState repeating_window_generator) = Some ''green''
   \<and> generateNextColor repeating_window_generator 3 True (Some ''green'') False 1 (const_rng 0)
     = (Some ''green'',
        repeating_window_generator\<lparr>activeSet := None, lastTarget := Some 3\<rparr>,
        const_rng 0)
   \<and> recentColors (memoryState (updateMemoryState
        (repeating_window_generator\<lparr>activeSet := None, lastTarget := Some 3\<rparr>)
        (Some ''green''))) = [Some ''green'', Some ''green'', Some ''green'']
   \<and> currentLoad (memoryState (updateMemoryState
        (repeating_window_generator\<lparr>activeSet := None, lastTarget := Some 3\<rparr>)
        (Some ''green''))) = 1
   \<and> getNBackColor (memoryState three_back_generator) = Some ''green''
   \<and> generateNextColor three_back_generator 2 True (Some ''green'') True 1 (const_rng 0)
     = (Some ''green'',
        three_back_generator\<lparr>activeSet := None, lastTarget := Some 2\<rparr>,
        const_rng 0)
   \<and> recentColors (memoryState (updateMemoryState
        (three_back_generator\<lparr>activeSet := None, lastTarget := Some 2\<rparr>)
        (Some ''green''))) = [Some ''green'', Some ''red'', Some ''blue'', Some ''green'']
   \<and> currentLoad (memoryState (updateMemoryState
        (three_back_generator\<lparr>activeSet := None, lastTarget := Some 2\<rparr>)
        (Some ''green''))) = 3"
  by (simp add: full_window_generator_def repeating_window_generator_def
      three_back_generator_def ColorSequenceGenerator_new_def
      WorkingMemoryState_new_def example_palette_def generator_defs)

theorem generated_window_load_witness:
  "rng_ok (const_rng 0) \<and> cg_ok full_window_generator
   \<and> settled full_window_generator (max 2 3)
   \<and> getNBackColor (memoryState full_window_generator) = Some ''green''
   \<and> generateNextColor full_window_generator 3 True (Some ''green'') False 1 (const_rng 0)
       = (Some ''green'', full_window_generator, const_rng 0)
   \<and> window_count after_match_generator = max 2 3 - 1
   \<and> settled after_match_generator (max 2 3)
   \<and> cg_ok after_match_generator
   \<and> getNBackColor (memoryState after_match_generator) = Some ''blue''
   \<and> generateNextColor after_match_generator 3 False (Some ''blue'') False 1 (const_rng 0)
       = (Some ''red'', after_match_generator, const_rng 0)
   \<and> window_count (updateMemoryState after_match_generator (Some ''red'')) = max 2 3
   \<and> settled (updateMemoryState after_match_generator (Some ''red'')) (max 2 3)"
proof -
  have 1: "rng_ok (const_rng 0)"
    by (simp add: rng_ok_const)
  have 2: "cg_ok full_window_generator"
    by (simp add: cg_ok_def full_window_generator_def set_size_def)
  have 3: "generateNextColor full_window_generator 3 True (Some ''green'') False 1 (const_rng 0)
       = (Some ''green'', full_window_generator, const_rng 0)"
    by (simp add: full_window_generator_def example_palette_def generator_defs)
  have 4: "settled full_window_generator (max 2 3)
      \<and> Some ''green'' = getNBackColor (memoryState full_window_generator)
      \<and> window_count full_window_generator = max 2 3"
    by (simp add: settled_def window_count_def full_window_generator_def set_size_def
        getNBackColor_def js_nth_def)
  have 5: "window_count after_match_generator = max 2 3 - 1
      \<and> Some ''blue'' = getNBackColor (memoryState after_match_generator)
      \<and> 0 < cg_n after_match_generator
      \<and> max 2 3 \<le> int (set_size (availableColors after_match_generator))"
    by (simp add: after_match_generator_def full_window_generator_def example_palette_def
        window_count_def generator_defs)
  have 6: "generateNextColor after_match_generator 3 False (Some ''blue'') False 1 (const_rng 0)
       = (Some ''red'', after_match_generator, const_rng 0)"
    by (simp add: after_match_generator_def full_window_generator_def example_palette_def
        generateForMaxLoad_def generator_defs)
  have 7: "window_count (updateMemoryState after_match_generator (Some ''red'')) = max 2 3"
    by (simp add: after_match_generator_def full_window_generator_def example_palette_def
        window_count_def generator_defs)
  have a: "settled after_match_generator (max 2 3) \<and> cg_ok after_match_generator"
    using generated_window_load [OF 1 2 3] 4 unfolding after_match_generator_def by blast
  then have b: "settled (updateMemoryState after_match_generator (Some ''red'')) (max 2 3)"
    using generated_window_load [OF 1 _ 6] 5 by blast
  show ?thesis
    using 1 2 3 4 5 6 7 a b by simp
qed

section \<open>Properties of the match generator\<close>

lemma shouldCreateMatch_short:
  "length (recentColors ms) < wm_n ms \<Longrightarrow> shouldCreateMatch mg ms g = ((False, False), g)"
  by (simp add: shouldCreateMatch_def)

lemma shouldCreateMatch_forced:
  assumes "wm_n ms \<le> length (recentColors ms)" and "maxGap mg < int (trialsSinceLastMatch mg)"
    and "rng_ok g"
  shows "fst (shouldCreateMatch mg ms g) = (True, True)"
proof -
  have "match_probability mg = (1, True)"
    using assms(2) by (simp add: match_probability_def Let_def)
  moreover have "rand g < 1"
    using assms(3) by (simp add: rng_ok_def rand_def)
  ultimately show ?thesis
    using assms(1) by (simp add: shouldCreateMatch_def)
qed

lemma setTargetRate_fields [simp]:
  "trialsSinceLastMatch (setTargetRate mg r) = trialsSinceLastMatch mg"
  "recentMatches (setTargetRate mg r) = recentMatches mg"
  by (simp_all add: setTargetRate_def Let_def)

lemma starting_new: "starting n 0 (WorkingMemoryTrainer_new n colors)"
  by (simp add: starting_def WorkingMemoryTrainer_new_def ColorSequenceGenerator_new_def
      WorkingMemoryState_new_def MatchGenerator_new_def)

lemma starting_step:
  assumes "starting n k tr" and "k < n"
  shows "starting n (Suc k) (fst (next_trial (tr, g)))
       \<and> \<not> isMatch (fst (generateNextTrial tr g))
       \<and> match_decision (tr, g) = (False, False)"
proof -
  let ?ms = "memoryState (colorGenerator tr)"
  let ?mg1 = "setTargetRate (matchGenerator tr) (matchRate (difficultyController tr))"
  have len: "length (recentColors ?ms) = k" "wm_n ?ms = n"
    "trialsSinceLastMatch (matchGenerator tr) = k"
    and dc: "difficultyController tr = DifficultyController_new n"
    using assms(1) by (simp_all add: starting_def)
  have scm: "shouldCreateMatch ?mg1 ?ms g = ((False, False), g)"
    using len assms(2) by (simp add: shouldCreateMatch_short)
  have nb: "getNBackColor ?ms = None"
    using len assms(2) by (simp add: getNBackColor_def)
  obtain c cg1 g2 where gen: "generateNextColor (colorGenerator tr)
      (currentUniqueColors (difficultyController tr)) False None False
      (tse (difficultyController tr)) g = (c, cg1, g2)"
    by (metis prod_cases3)
  have st: "memoryState cg1 = ?ms"
    using generateNextColor_state [OF gen] by simp
  obtain pos g3 where gp: "generatePosition tr g2 = (pos, g3)"
    by (metis prod.exhaust)
  have nt: "generateNextTrial tr g =
      (\<lparr>tile_color = c, tile_position = pos, isMatch = False,
        tile_currentLoad = currentLoad (memoryState (updateMemoryState cg1 c)),
        targetLoad = currentUniqueColors (difficultyController tr),
        tile_targetUniqueColors = currentUniqueColors (difficultyController tr),
        tile_trialNumber = trialNumber tr\<rparr>,
       tr\<lparr>matchGenerator := registerActualMatch ?mg1 False,
          colorGenerator := updateMemoryState cg1 c,
          tr_currentTile := Some \<lparr>tile_color = c, tile_position = pos, isMatch = False,
            tile_currentLoad = currentLoad (memoryState (updateMemoryState cg1 c)),
            targetLoad = currentUniqueColors (difficultyController tr),
            tile_targetUniqueColors = currentUniqueColors (difficultyController tr),
            tile_trialNumber = trialNumber tr\<rparr>,
          trialNumber := trialNumber tr + 1\<rparr>,
       g3)"
    by (simp add: generateNextTrial_def Let_def scm nb gen gp truthy_def)
  have "length (recentColors (memoryState (updateMemoryState cg1 c))) = Suc k"
    "wm_n (memoryState (updateMemoryState cg1 c)) = n"
    using len assms(2)
    by (simp_all add: updateMemoryState_def addColor_def push_shift_def Let_def st)
  moreover have "trialsSinceLastMatch (registerActualMatch ?mg1 False) = Suc k"
    using len by (simp add: registerActualMatch_def)
  ultimately have "starting n (Suc k) (fst (next_trial (tr, g)))"
    using dc by (simp add: starting_def next_trial_def nt)
  moreover have "match_decision (tr, g) = (False, False)"
    by (simp add: match_decision_def scm)
  ultimately show ?thesis by (simp add: nt)
qed

lemma starting_run:
  "k \<le> n \<Longrightarrow> starting n k (fst ((next_trial ^^ k) (WorkingMemoryTrainer_new n colors, g)))"
proof (induction k)
  case 0
  then show ?case by (simp add: starting_new)
next
  case (Suc k)
  then have "starting n k (fst ((next_trial ^^ k) (WorkingMemoryTrainer_new n colors, g)))"
    by simp
  then show ?case
    using starting_step [of n k "fst ((next_trial ^^ k) (WorkingMemoryTrainer_new n colors, g))"
        "snd ((next_trial ^^ k) (WorkingMemoryTrainer_new n colors, g))"] Suc.prems
    by simp
qed

text \<open>
  Claim C9, as the code has it. Whatever the draws, \<open>shouldCreateMatch\<close> returns no match and
  not forced while the window holds fewer than \<open>n\<close> colours, so none of the first \<open>n\<close> trials
  of a fresh trainer is a match (the first two for \<open>n = 2\<close>). Once the window holds at least
  \<open>n\<close> colours, a gap above \<open>maxGap\<close> gives a forced match for every draw in \<open>[0, 1)\<close>; and
  \<open>maxGap\<close> is twice the rounded inverse of the target rate.
\<close>

theorem match_decision_rules:
  "(length (recentColors ms) < wm_n ms \<longrightarrow> shouldCreateMatch mg ms g = ((False, False), g))
   \<and> (k < n \<longrightarrow>
        match_decision ((next_trial ^^ k) (WorkingMemoryTrainer_new n colors, g)) = (False, False)
        \<and> \<not> isMatch (fst (generateNextTrial
              (fst ((next_trial ^^ k) (WorkingMemoryTrainer_new n colors, g)))
              (snd ((next_trial ^^ k) (WorkingMemoryTrainer_new n colors, g))))))
   \<and> (wm_n ms \<le> length (recentColors ms) \<and> maxGap mg < int (trialsSinceLastMatch mg)
        \<and> rng_ok g \<longrightarrow> fst (shouldCreateMatch mg ms g) = (True, True))
   \<and> maxGap (setTargetRate mg r) = js_round (1 / targetRate (setTargetRate mg r)) * 2
   \<and> maxGap (MatchGenerator_new r) = js_round (1 / targetRate (MatchGenerator_new r)) * 2"
proof -
  have "k < n \<Longrightarrow>
        match_decision ((next_trial ^^ k) (WorkingMemoryTrainer_new n colors, g)) = (False, False)
        \<and> \<not> isMatch (fst (generateNextTrial
              (fst ((next_trial ^^ k) (WorkingMemoryTrainer_new n colors, g)))
              (snd ((next_trial ^^ k) (WorkingMemoryTrainer_new n colors, g)))))"
    using starting_run [of k n colors g]
      starting_step [of n k "fst ((next_trial ^^ k) (WorkingMemoryTrainer_new n colors, g))"
        "snd ((next_trial ^^ k) (WorkingMemoryTrainer_new n colors, g))"]
    by simp
  then show ?thesis
    using shouldCreateMatch_short [of ms mg g] shouldCreateMatch_forced [of ms mg g]
    by (simp add: setTargetRate_def MatchGenerator_new_def Let_def)
qed

text \<open>
  Claim C9 fails as stated where its two conditions meet. A fresh 8-back trainer that has shown
  seven tiles has a gap of 7 above \<open>maxGap = 6\<close>, and a window of 7 colours, fewer than 8: the
  next decision is no match.
\<close>

theorem starved_but_no_history:
  "maxGap (setTargetRate
        (matchGenerator (fst ((next_trial ^^ 7) (WorkingMemoryTrainer_new 8 example_palette, const_rng 0))))
        (matchRate (difficultyController
           (fst ((next_trial ^^ 7) (WorkingMemoryTrainer_new 8 example_palette, const_rng 0))))))
     < int (trialsSinceLastMatch (setTargetRate
        (matchGenerator (fst ((next_trial ^^ 7) (WorkingMemoryTrainer_new 8 example_palette, const_rng 0))))
        (matchRate (difficultyController
           (fst ((next_trial ^^ 7) (WorkingMemoryTrainer_new 8 example_palette, const_rng 0)))))))
   \<and> match_decision ((next_trial ^^ 7) (WorkingMemoryTrainer_new 8 example_palette, const_rng 0))
       = (False, False)"
proof -
  let ?s = "(next_trial ^^ 7) (WorkingMemoryTrainer_new 8 example_palette, const_rng 0)"
  have st: "starting 8 7 (fst ?s)"
    using starting_run [of 7 8 example_palette "const_rng 0"] by simp
  have "match_decision ?s = (False, False)"
    using starting_step [OF st, of "snd ?s"] by simp
  moreover have "maxGap (setTargetRate (matchGenerator (fst ?s))
        (matchRate (difficultyController (fst ?s)))) = 6"
    using st by (simp add: starting_def setTargetRate_def DifficultyController_new_def js_round_def)
  moreover have "trialsSinceLastMatch (setTargetRate (matchGenerator (fst ?s))
        (matchRate (difficultyController (fst ?s)))) = 7"
    using st by (simp add: starting_def)
  ultimately show ?thesis by simp
qed

theorem match_decision_rules_witness:
  "length (recentColors (WorkingMemoryState_new 2)) < wm_n (WorkingMemoryState_new 2)
   \<and> shouldCreateMatch (MatchGenerator_new 0.30) (WorkingMemoryState_new 2) (const_rng 0)
       = ((False, False), const_rng 0)
   \<and> (0::nat) < 2
   \<and> match_decision ((next_trial ^^ 0) (WorkingMemoryTrainer_new 2 example_palette, const_rng 0))
       = (False, False)
   \<and> wm_n \<lparr>wm_n = 2, recentColors = [Some ''red'', Some ''green''], currentLoad = 2\<rparr>
       \<le> length (recentColors
             \<lparr>wm_n = 2, recentColors = [Some ''red'', Some ''green''], currentLoad = 2\<rparr>)
   \<and> maxGap ((MatchGenerator_new 0.30)\<lparr>trialsSinceLastMatch := 7\<rparr>)
       < int (trialsSinceLastMatch ((MatchGenerator_new 0.30)\<lparr>trialsSinceLastMatch := 7\<rparr>))
   \<and> rng_ok (const_rng 0)
   \<and> fst (shouldCreateMatch ((MatchGenerator_new 0.30)\<lparr>trialsSinceLastMatch := 7\<rparr>)
            \<lparr>wm_n = 2, recentColors = [Some ''red'', Some ''green''], currentLoad = 2\<rparr>
            (const_rng 0)) = (True, True)"
  using match_decision_rules
      [where ms = "WorkingMemoryState_new 2" and mg = "MatchGenerator_new 0.30"
         and g = "const_rng 0" and k = 0 and n = 2 and colors = example_palette]
    match_decision_rules
      [where ms = "\<lparr>wm_n = 2, recentColors = [Some ''red'', Some ''green''], currentLoad = 2\<rparr>"
         and mg = "(MatchGenerator_new 0.30)\<lparr>trialsSinceLastMatch := 7\<rparr>"
         and g = "const_rng 0"]
  by (simp add: WorkingMemoryState_new_def MatchGenerator_new_def js_round_def rng_ok_const)

section \<open>Properties of the ability estimate\<close>

lemma generateNextTrial_ability:
  "abilityModel (fst (snd (generateNextTrial tr g))) = abilityModel tr"
  by (simp add: generateNextTrial_def Let_def split: prod.splits)

lemma generateNextTile_theta:
  "engine_theta (fst (snd (generateNextTile e g))) = engine_theta e"
proof -
  obtain t tr g' where nt: "generateNextTrial (e_trainer e) g = (t, tr, g')"
    by (metis prod_cases3)
  then have "abilityModel tr = abilityModel (e_trainer e)"
    using generateNextTrial_ability [of "e_trainer e" g] by simp
  then show ?thesis
    by (simp add: generateNextTile_def engine_theta_def nt)
qed

lemma recordResponse_theta:
  "theta (abilityModel (snd (recordResponse tr uc wm rt))) =
     (if isValidTrial rt
      then theta (abilityModel tr) * (1 - thetaAlpha)
           + rawDPrime (trialWindow (abilityModel (snd (recordResponse tr uc wm rt)))) * thetaAlpha
      else theta (abilityModel tr))"
  by (simp add: recordResponse_def AbilityModel_recordTrial_def Let_def)

lemma onPoorPerformanceStop_theta [simp]:
  "engine_theta (onPoorPerformanceStop e) = engine_theta e"
  by (simp add: onPoorPerformanceStop_def engine_theta_def)

lemma trainer_warmStart_theta:
  "theta (abilityModel (trainer_warmStart tr strat rec)) =
     (case strat of None \<Rightarrow> theta (abilityModel tr)
      | Some s \<Rightarrow> restore (s_theta s) (theta (abilityModel tr)))"
  by (simp add: trainer_warmStart_def Let_def split: option.splits)

text \<open>
  Claim C6, as the code has it. One public call changes \<open>theta\<close> in three ways only: a valid
  response blends the raw sensitivity of the updated trial window into it with factor 0.15;
  \<open>reset\<close> sets it to 1.5; and \<open>warmStart\<close> assigns the persisted \<open>strategic.theta\<close> as it is,
  when there is one. Every other call, a response without a pending tile and an invalid
  response included, leaves it unchanged.
\<close>

theorem theta_updates:
  assumes "engine_step (e, g) op = (e', g')"
  shows "engine_theta e' = engine_theta e
     \<or> (\<exists>uc wm rt. op = OnUserResponse uc wm rt \<and> currentTile e \<noteq> None \<and> isValidTrial rt
          \<and> engine_theta e' = engine_theta e * (1 - thetaAlpha)
               + rawDPrime (trialWindow (abilityModel (e_trainer e'))) * thetaAlpha)
     \<or> (op = Reset \<and> engine_theta e' = 1.5)
     \<or> (\<exists>s r v. op = WarmStart (Some s) r \<and> s_theta s = Some v \<and> engine_theta e' = v)"
proof (cases op)
  case GenerateNextTile
  then show ?thesis
    using assms generateNextTile_theta [of e g] by (auto split: prod.splits)
next
  case (OnUserResponse uc wm rt)
  show ?thesis
  proof (cases "currentTile e")
    case None
    then show ?thesis
      using assms OnUserResponse by (simp add: onUserResponse_def)
  next
    case (Some t)
    then have "e' = e\<lparr>e_trainer := snd (recordResponse (e_trainer e) uc wm rt)\<rparr>"
      using assms OnUserResponse by (auto simp: onUserResponse_def split: prod.splits)
    then show ?thesis
      using recordResponse_theta [of "e_trainer e" uc wm rt] OnUserResponse Some
      by (auto simp: engine_theta_def)
  qed
next
  case GetCurrentN
  then show ?thesis using assms by simp
next
  case (SetExcludedPositions ps)
  then show ?thesis using assms by (auto simp: setExcludedPositions_def engine_theta_def)
next
  case OnPoorPerformanceStop
  then show ?thesis using assms by auto
next
  case ShouldStopSession
  then show ?thesis using assms by (auto simp: shouldStopSession_def)
next
  case (ShouldStopForErrors ts k)
  then show ?thesis using assms by (auto simp: shouldStopForErrors_def Let_def)
next
  case GetStats
  then show ?thesis using assms by simp
next
  case Reset
  then show ?thesis
    using assms
    by (auto simp: reset_def trainer_reset_def AbilityModel_reset_def engine_theta_def)
next
  case (WarmStart strat rec)
  then have "engine_theta e' = (case strat of None \<Rightarrow> engine_theta e
      | Some s \<Rightarrow> restore (s_theta s) (engine_theta e))"
    using assms trainer_warmStart_theta [of "e_trainer e" strat rec]
    by (auto simp: warmStart_def engine_theta_def split: option.splits)
  then show ?thesis
    using WarmStart by (auto simp: restore_def engine_theta_def split: option.splits)
next
  case (ToJSON now)
  then show ?thesis using assms by simp
qed

lemma rawDPrime_empty: "rawDPrime [] = 0"
  by (simp add: rawDPrime_def getSDTCounts_def computeDPrime_def Let_def)

text \<open>
  Claim C6 fails as stated: \<open>warmStart\<close> on a fresh engine with a persisted \<open>theta\<close> of 3 sets
  \<open>theta\<close> to 3. No trial was recorded, the trial window is still empty, and the blend of the
  old \<open>theta\<close> 1.5 with the raw sensitivity of that window is not 3.
\<close>

theorem warmStart_assigns_theta:
  "engine_theta (NBackEngine_new (Some 2) (Some example_palette)) = 1.5
   \<and> engine_theta (fst (engine_step
        (NBackEngine_new (Some 2) (Some example_palette), const_rng 0)
        (WarmStart (Some (only_theta 3)) None))) = 3
   \<and> trialWindow (abilityModel (e_trainer (fst (engine_step
        (NBackEngine_new (Some 2) (Some example_palette), const_rng 0)
        (WarmStart (Some (only_theta 3)) None))))) = []
   \<and> 1.5 * (1 - thetaAlpha) + rawDPrime [] * thetaAlpha \<noteq> 3"
  by (simp add: rawDPrime_empty engine_theta_def NBackEngine_new_def
      WorkingMemoryTrainer_new_def AbilityModel_new_def warmStart_def trainer_warmStart_def
      only_theta_def restore_def thetaAlpha_def Let_def)

theorem theta_updates_witness:
  "engine_step (NBackEngine_new (Some 2) (Some example_palette), const_rng 0)
        (WarmStart (Some (only_theta 3)) None)
     = (warmStart (NBackEngine_new (Some 2) (Some example_palette)) (Some (only_theta 3)) None,
        const_rng 0)
   \<and> s_theta (only_theta 3) = Some 3
   \<and> engine_theta (warmStart (NBackEngine_new (Some 2) (Some example_palette))
        (Some (only_theta 3)) None) = 3"
proof -
  have 1: "engine_step (NBackEngine_new (Some 2) (Some example_palette), const_rng 0)
        (WarmStart (Some (only_theta 3)) None)
     = (warmStart (NBackEngine_new (Some 2) (Some example_palette)) (Some (only_theta 3)) None,
        const_rng 0)"
    by simp
  have 2: "engine_theta (NBackEngine_new (Some 2) (Some example_palette)) = 1.5"
    by (simp add: engine_theta_def NBackEngine_new_def WorkingMemoryTrainer_new_def
        AbilityModel_new_def)
  have 3: "engine_theta (warmStart (NBackEngine_new (Some 2) (Some example_palette))
        (Some (only_theta 3)) None) = 3"
    by (simp add: engine_theta_def warmStart_def trainer_warmStart_def only_theta_def
        restore_def Let_def)
  show ?thesis
    using theta_updates [OF 1] 1 2 3 by (simp add: only_theta_def)
qed

section \<open>Properties of the step-hold gate\<close>

lemma held_zero [simp]: "held 0 v cs"
  by (simp add: held_def)

lemma held_snoc: "held k v cs \<Longrightarrow> held (Suc k) v (cs @ [v])"
  by (simp add: held_def Suc_diff_le replicate_append_same)

lemma held_one [simp]: "held (Suc 0) v (cs @ [v])"
  using held_snoc [of 0 v cs] by simp

lemma held_less:
  assumes "held k v cs" and "j \<le> k" shows "held j v cs"
proof -
  have k: "k \<le> length cs" "drop (length cs - k) cs = replicate k v"
    using assms(1) by (simp_all add: held_def)
  have "drop (length cs - j) cs = drop (k - j) (drop (length cs - k) cs)"
    using k(1) assms(2) by simp
  also have "\<dots> = replicate j v"
    using assms(2) by (simp add: k(2))
  finally show ?thesis
    using k(1) assms(2) by (simp add: held_def)
qed

lemma step_hold_gate_cases:
  "step_hold_gate dc c =
    (if c = currentUniqueColors dc then dc\<lparr>stepHoldCounter := 0\<rparr>
     else
       let k = (if c = pendingUniqueColors dc then stepHoldCounter dc + 1 else 1)
       in if requiredHold dc c \<le> enat k \<and> \<not> (c > currentUniqueColors dc \<and> tse dc < 0.5)
          then dc\<lparr>pendingUniqueColors := c, currentUniqueColors := c, stepHoldCounter := 0\<rparr>
          else dc\<lparr>pendingUniqueColors := c, stepHoldCounter := k\<rparr>)"
  by (auto simp: step_hold_gate_def requiredHold_def Let_def)

lemma update_hold_fields:
  "currentUniqueColors (DifficultyController_update dc ab)
     = currentUniqueColors (step_hold_gate dc (candidateColors dc ab))"
  "pendingUniqueColors (DifficultyController_update dc ab)
     = pendingUniqueColors (step_hold_gate dc (candidateColors dc ab))"
  "stepHoldCounter (DifficultyController_update dc ab)
     = stepHoldCounter (step_hold_gate dc (candidateColors dc ab))"
  "dc_n (DifficultyController_update dc ab) = dc_n dc"
  by (simp_all add: DifficultyController_update_def Let_def step_hold_gate_cases requiredHold_def)

lemma gate_keeps_held:
  assumes "held (stepHoldCounter dc) (pendingUniqueColors dc) cs"
  shows "held (stepHoldCounter (step_hold_gate dc c)) (pendingUniqueColors (step_hold_gate dc c))
           (cs @ [c])"
  using assms held_snoc [of "stepHoldCounter dc" c cs]
  by (auto simp: step_hold_gate_cases Let_def)

lemma gate_commit:
  assumes "held (stepHoldCounter dc) (pendingUniqueColors dc) cs"
    and "currentUniqueColors (step_hold_gate dc c) \<noteq> currentUniqueColors dc"
  shows "currentUniqueColors (step_hold_gate dc c) = c
       \<and> (\<exists>h. requiredHold dc c = enat h \<and> held h c (cs @ [c]))"
proof -
  define k where "k = (if c = pendingUniqueColors dc then stepHoldCounter dc + 1 else 1)"
  have ne: "c \<noteq> currentUniqueColors dc"
    using assms(2) by (auto simp: step_hold_gate_cases)
  have commit: "requiredHold dc c \<le> enat k" "currentUniqueColors (step_hold_gate dc c) = c"
    using assms(2) ne by (auto simp: step_hold_gate_cases Let_def k_def split: if_splits)
  have hk: "held k c (cs @ [c])"
    using assms(1) held_snoc [of "stepHoldCounter dc" c cs] by (auto simp: k_def)
  obtain h where h: "requiredHold dc c = enat h" "h \<le> k"
    using commit(1) by (cases "requiredHold dc c") auto
  then have "held h c (cs @ [c])"
    using hk held_less by blast
  then show ?thesis
    using commit(2) h(1) by blast
qed

lemma gate_tse:
  "tse dc < 0.5 \<Longrightarrow> currentUniqueColors (step_hold_gate dc c) \<le> currentUniqueColors dc"
  by (auto simp: step_hold_gate_cases Let_def)

lemma requiredHold_pos: "enat 1 \<le> requiredHold dc c"
proof -
  have "enat 1 \<le> stepHoldIncrease n" "enat 1 \<le> stepHoldDecrease n" for n
    by (auto simp: stepHoldIncrease_def stepHoldDecrease_def max_def)
  then show ?thesis
    by (simp add: requiredHold_def)
qed

lemma dc_run_snoc: "dc_run dc (snaps @ [ab]) = DifficultyController_update (dc_run dc snaps) ab"
  by (simp add: dc_run_def)

lemma candidates_snoc:
  "candidates dc (snaps @ [ab]) = candidates dc snaps @ [candidateColors (dc_run dc snaps) ab]"
  by (induction snaps arbitrary: dc) (simp_all add: dc_run_def)

lemma run_keeps_held:
  assumes "stepHoldCounter dc0 = 0"
  shows "held (stepHoldCounter (dc_run dc0 snaps)) (pendingUniqueColors (dc_run dc0 snaps))
           (candidates dc0 snaps)"
proof (induction snaps rule: rev_induct)
  case Nil
  then show ?case using assms by (simp add: dc_run_def)
next
  case (snoc ab snaps)
  then show ?case
    using gate_keeps_held [of "dc_run dc0 snaps" "candidates dc0 snaps"
        "candidateColors (dc_run dc0 snaps) ab"]
    by (simp add: dc_run_snoc candidates_snoc update_hold_fields)
qed

lemma dc_run_n [simp]: "dc_n (dc_run dc snaps) = dc_n dc"
  by (induction snaps rule: rev_induct) (simp_all add: dc_run_snoc update_hold_fields dc_run_def)

lemma new_controller_counter: "stepHoldCounter (DifficultyController_new n) = 0"
  by (simp add: DifficultyController_new_def)

lemma onSessionStopped_counter: "stepHoldCounter (onSessionStopped dc) = 0"
  by (simp add: onSessionStopped_def Let_def)

text \<open>
  Claim C2. Start from a controller whose hold counter is 0 (as constructed, or right after a
  commit or \<open>onSessionStopped\<close>) and call \<open>update\<close> any number of times. If a call changes
  \<open>currentUniqueColors\<close>, the new value is the candidate of that call and of the calls just
  before it, \<open>h\<close> consecutive calls in all, where \<open>h\<close> is \<open>stepHoldIncrease\<close> for an increase and
  \<open>stepHoldDecrease\<close> for a decrease. And a call made while \<open>tse < 0.5\<close> never increases it.
\<close>

theorem hold_gate:
  assumes "stepHoldCounter dc0 = 0"
  shows "(currentUniqueColors (DifficultyController_update (dc_run dc0 snaps) ab)
            \<noteq> currentUniqueColors (dc_run dc0 snaps) \<longrightarrow>
          (\<exists>h. (if currentUniqueColors (DifficultyController_update (dc_run dc0 snaps) ab)
                      > currentUniqueColors (dc_run dc0 snaps)
                   then stepHoldIncrease (dc_n dc0) else stepHoldDecrease (dc_n dc0)) = enat h
               \<and> 1 \<le> h
               \<and> held h (currentUniqueColors (DifficultyController_update (dc_run dc0 snaps) ab))
                     (candidates dc0 (snaps @ [ab]))))
       \<and> (tse (dc_run dc0 snaps) < 0.5 \<longrightarrow>
            currentUniqueColors (DifficultyController_update (dc_run dc0 snaps) ab)
              \<le> currentUniqueColors (dc_run dc0 snaps))"
proof -
  let ?dc = "dc_run dc0 snaps"
  let ?c = "candidateColors ?dc ab"
  have inv: "held (stepHoldCounter ?dc) (pendingUniqueColors ?dc) (candidates dc0 snaps)"
    using run_keeps_held [OF assms] .
  have 2: "tse ?dc < 0.5 \<longrightarrow>
      currentUniqueColors (DifficultyController_update ?dc ab) \<le> currentUniqueColors ?dc"
    using gate_tse [of ?dc ?c] by (simp add: update_hold_fields)
  have 1: "\<exists>h. (if currentUniqueColors (DifficultyController_update ?dc ab)
                      > currentUniqueColors ?dc
                   then stepHoldIncrease (dc_n dc0) else stepHoldDecrease (dc_n dc0)) = enat h
               \<and> 1 \<le> h
               \<and> held h (currentUniqueColors (DifficultyController_update ?dc ab))
                     (candidates dc0 (snaps @ [ab]))"
    if ch: "currentUniqueColors (DifficultyController_update ?dc ab) \<noteq> currentUniqueColors ?dc"
  proof -
    have ch': "currentUniqueColors (step_hold_gate ?dc ?c) \<noteq> currentUniqueColors ?dc"
      using ch by (simp add: update_hold_fields)
    obtain h where h: "currentUniqueColors (step_hold_gate ?dc ?c) = ?c"
        "requiredHold ?dc ?c = enat h" "held h ?c (candidates dc0 snaps @ [?c])"
      using gate_commit [OF inv ch'] by blast
    have "enat 1 \<le> enat h"
      using requiredHold_pos [of ?dc ?c] h(2) by simp
    then have "1 \<le> h" by simp
    then show ?thesis
      using h by (auto simp: update_hold_fields candidates_snoc requiredHold_def)
  qed
  show ?thesis using 1 2 by blast
qed

lemma strong_player_signals:
  "getThetaTrend strong_player = 0" "getFatigueIndex strong_player = 0"
  by (simp_all add: strong_player_def AbilityModel_new_def getThetaTrend_def getFatigueIndex_def
      getRTStats_def slice_last_def Let_def)

lemma strong_adjustment: "pi_adjustment dc strong_player < 0"
proof -
  have "pi_integral dc strong_player \<le> 3"
    by (simp add: pi_integral_def integralMax_def)
  then show ?thesis
    by (simp add: pi_adjustment_def Let_def strong_player_signals Kp_def Ki_def targetTheta_def
        strong_player_def AbilityModel_new_def)
qed

lemma strong_step:
  assumes "dc_n dc = 2" and "targetEntropy dc = 1" and "tse dc = 1"
  shows "candidateColors dc strong_player = 3"
    and "targetEntropy (DifficultyController_update dc strong_player) = 1"
    and "tse (DifficultyController_update dc strong_player) = 1"
proof -
  have adj: "pi_adjustment dc strong_player < 0" by (rule strong_adjustment)
  have rate: "0 < entropyClimbRate 2"
    by (simp add: entropyClimbRate_def)
  have "0 < - pi_adjustment dc strong_player * entropyClimbRate 2"
    using adj rate by (simp add: mult_neg_pos)
  then have ne: "next_entropy dc strong_player = 1"
    using adj assms by (simp add: next_entropy_def Let_def clamp01_def)
  then show "candidateColors dc strong_player = 3"
    using assms(1)
    by (simp add: candidateColors_def Let_def maxUniqueColors_def minUniqueColors_def js_round_def)
  show "targetEntropy (DifficultyController_update dc strong_player) = 1"
    using ne by (simp add: DifficultyController_update_def Let_def)
  have "0 < - pi_adjustment dc strong_player * tseClimbRate"
    using adj by (simp add: tseClimbRate_def mult_neg_pos)
  then show "tse (DifficultyController_update dc strong_player) = 1"
    using adj assms(3) by (simp add: DifficultyController_update_def Let_def clamp01_def)
qed

lemma primed_run:
  "k \<le> 5 \<Longrightarrow>
     dc_n (dc_run primed_controller (replicate k strong_player)) = 2
   \<and> targetEntropy (dc_run primed_controller (replicate k strong_player)) = 1
   \<and> tse (dc_run primed_controller (replicate k strong_player)) = 1
   \<and> currentUniqueColors (dc_run primed_controller (replicate k strong_player)) = 2
   \<and> stepHoldCounter (dc_run primed_controller (replicate k strong_player)) = k
   \<and> pendingUniqueColors (dc_run primed_controller (replicate k strong_player))
       = (if k = 0 then 2 else 3)"
proof (induction k)
  case 0
  then show ?case
    by (simp add: dc_run_def primed_controller_def DifficultyController_new_def)
next
  case (Suc k)
  let ?dc = "dc_run primed_controller (replicate k strong_player)"
  have ih: "dc_n ?dc = 2" "targetEntropy ?dc = 1" "tse ?dc = 1" "currentUniqueColors ?dc = 2"
    "stepHoldCounter ?dc = k" "pendingUniqueColors ?dc = (if k = 0 then 2 else 3)"
    using Suc by simp_all
  have run: "dc_run primed_controller (replicate (Suc k) strong_player)
      = DifficultyController_update ?dc strong_player"
    using dc_run_snoc [of primed_controller "replicate k strong_player" strong_player]
    by (simp add: replicate_append_same)
  have hold: "requiredHold ?dc 3 = enat 6"
    using ih by (simp add: requiredHold_def stepHoldIncrease_def colorRange_def
        maxUniqueColors_def minUniqueColors_def js_round_def)
  show ?case
    unfolding run
    using Suc.prems ih strong_step [OF ih(1,2,3)] hold
    by (simp add: update_hold_fields step_hold_gate_cases Let_def)
qed

theorem hold_gate_witness:
  "stepHoldCounter primed_controller = 0
   \<and> currentUniqueColors (dc_run primed_controller (replicate 5 strong_player)) = 2
   \<and> currentUniqueColors (DifficultyController_update
        (dc_run primed_controller (replicate 5 strong_player)) strong_player) = 3
   \<and> stepHoldIncrease (dc_n primed_controller) = enat 6
   \<and> held 6 3 (candidates primed_controller (replicate 5 strong_player @ [strong_player]))"
proof -
  let ?dc = "dc_run primed_controller (replicate 5 strong_player)"
  have 0: "stepHoldCounter primed_controller = 0"
    by (simp add: primed_controller_def DifficultyController_new_def)
  have n: "dc_n primed_controller = 2"
    by (simp add: primed_controller_def DifficultyController_new_def)
  have st: "dc_n ?dc = 2" "targetEntropy ?dc = 1" "tse ?dc = 1" "currentUniqueColors ?dc = 2"
    "stepHoldCounter ?dc = 5" "pendingUniqueColors ?dc = 3"
    using primed_run [of 5] by simp_all
  have hold: "stepHoldIncrease 2 = enat 6"
    by (simp add: stepHoldIncrease_def colorRange_def maxUniqueColors_def minUniqueColors_def
        js_round_def)
  have up: "currentUniqueColors (DifficultyController_update ?dc strong_player) = 3"
    using st strong_step [OF st(1,2,3)] hold
    by (simp add: update_hold_fields step_hold_gate_cases Let_def requiredHold_def)
  show ?thesis
    using hold_gate [OF 0, of "replicate 5 strong_player" strong_player] 0 n st(4) up hold
    by auto
qed

section \<open>Thirty correct target trials\<close>

subsection \<open>Bounds on the tail branch of \<open>invNorm\<close>\<close>

lemma sqrt_between:
  fixes a b y :: real
  assumes "0 \<le> a" and "0 \<le> b" and "a\<^sup>2 \<le> 2 * lo" and "2 * hi \<le> b\<^sup>2"
    and "lo \<le> y" and "y \<le> hi"
  shows "a \<le> sqrt (2 * y) \<and> sqrt (2 * y) \<le> b"
proof -
  have "a\<^sup>2 \<le> 2 * y" using assms(3,5) by linarith
  then have 1: "a \<le> sqrt (2 * y)" by (rule real_le_rsqrt)
  have "2 * y \<le> b\<^sup>2" using assms(4,6) by linarith
  then have 2: "sqrt (2 * y) \<le> b" using assms(2) by (intro real_le_lsqrt) simp_all
  show ?thesis using 1 2 by simp
qed

lemma horner_step:
  fixes u v a q k :: real
  assumes "0 \<le> u" and "u \<le> v" and "0 \<le> a" and "a \<le> q" and "0 \<le> k"
  shows "0 \<le> u * a + k \<and> u * a + k \<le> v * q + k"
proof -
  have "u * a \<le> v * q"
    using assms by (intro mult_mono) simp_all
  moreover have "0 \<le> u * a" using assms by simp
  ultimately show ?thesis using assms(5) by linarith
qed

lemma horner_negated:
  fixes q :: real
  shows "- ((((((- k1 * q + - k2) * q + - k3) * q + - k4) * q + c5) * q + c6) / dd)
       = ((((k1 * q + k2) * q + k3) * q + k4) * q * q - c5 * q - c6) / dd"
proof -
  have "- (((((- k1 * q + - k2) * q + - k3) * q + - k4) * q + c5) * q + c6)
       = (((k1 * q + k2) * q + k3) * q + k4) * q * q - c5 * q - c6"
    by (simp add: algebra_simps)
  then show ?thesis
    by (simp only: minus_divide_left)
qed

lemma tail_ratio_split: "- tail_ratio q = tail_num q q / tail_den q"
  unfolding tail_ratio_def tail_num_def tail_den_def by (rule horner_negated)

lemma tail_den_mono:
  assumes "0 \<le> a" and "a \<le> q" shows "1 \<le> tail_den a \<and> tail_den a \<le> tail_den q"
proof -
  have q: "0 \<le> q" using assms by linarith
  have 1: "0 \<le> 0.007784695709041462 * a + 0.3224671290700398
      \<and> 0.007784695709041462 * a + 0.3224671290700398
          \<le> 0.007784695709041462 * q + 0.3224671290700398"
    using assms by simp
  have 2: "0 \<le> (0.007784695709041462 * a + 0.3224671290700398) * a + 2.445134137142996
      \<and> (0.007784695709041462 * a + 0.3224671290700398) * a + 2.445134137142996
          \<le> (0.007784695709041462 * q + 0.3224671290700398) * q + 2.445134137142996"
    using 1 assms by (intro horner_step) simp_all
  have 3: "0 \<le> ((0.007784695709041462 * a + 0.3224671290700398) * a + 2.445134137142996) * a
              + 3.754408661907416
      \<and> ((0.007784695709041462 * a + 0.3224671290700398) * a + 2.445134137142996) * a
              + 3.754408661907416
          \<le> ((0.007784695709041462 * q + 0.3224671290700398) * q + 2.445134137142996) * q
              + 3.754408661907416"
    using 2 assms by (intro horner_step) simp_all
  have 4: "0 \<le> (((0.007784695709041462 * a + 0.3224671290700398) * a + 2.445134137142996) * a
              + 3.754408661907416) * a + 1
      \<and> (((0.007784695709041462 * a + 0.3224671290700398) * a + 2.445134137142996) * a
              + 3.754408661907416) * a + 1
          \<le> (((0.007784695709041462 * q + 0.3224671290700398) * q + 2.445134137142996) * q
              + 3.754408661907416) * q + 1"
    using 3 assms by (intro horner_step) simp_all
  have "0 \<le> (((0.007784695709041462 * a + 0.3224671290700398) * a + 2.445134137142996) * a
              + 3.754408661907416) * a"
    using 3 assms(1) by simp
  then show ?thesis
    using 4 unfolding tail_den_def by linarith
qed

lemma tail_num_mono:
  assumes "0 \<le> a" and "a \<le> q" and "q \<le> b"
  shows "tail_num a b \<le> tail_num q q \<and> tail_num q q \<le> tail_num b a"
proof -
  have pos: "0 \<le> q" "0 \<le> b" using assms by linarith+
  have h: "0 \<le> ((0.007784894002430293 * x + 0.3223964580411365) * x + 2.400758277161838) * x
        + 2.549732539343734
      \<and> (((0.007784894002430293 * x + 0.3223964580411365) * x + 2.400758277161838) * x
        + 2.549732539343734) * x * x
        \<le> (((0.007784894002430293 * y + 0.3223964580411365) * y + 2.400758277161838) * y
        + 2.549732539343734) * y * y" if "0 \<le> x" "x \<le> y" for x y :: real
  proof -
    have 1: "0 \<le> 0.007784894002430293 * x + 0.3223964580411365
        \<and> 0.007784894002430293 * x + 0.3223964580411365
          \<le> 0.007784894002430293 * y + 0.3223964580411365"
      using that by simp
    have 2: "0 \<le> (0.007784894002430293 * x + 0.3223964580411365) * x + 2.400758277161838
        \<and> (0.007784894002430293 * x + 0.3223964580411365) * x + 2.400758277161838
          \<le> (0.007784894002430293 * y + 0.3223964580411365) * y + 2.400758277161838"
      using 1 that by (intro horner_step) simp_all
    have 3: "0 \<le> ((0.007784894002430293 * x + 0.3223964580411365) * x + 2.400758277161838) * x
          + 2.549732539343734
        \<and> ((0.007784894002430293 * x + 0.3223964580411365) * x + 2.400758277161838) * x
          + 2.549732539343734
          \<le> ((0.007784894002430293 * y + 0.3223964580411365) * y + 2.400758277161838) * y
          + 2.549732539343734"
      using 2 that by (intro horner_step) simp_all
    have 4: "0 \<le> (((0.007784894002430293 * x + 0.3223964580411365) * x + 2.400758277161838) * x
          + 2.549732539343734) * x + 0
        \<and> (((0.007784894002430293 * x + 0.3223964580411365) * x + 2.400758277161838) * x
          + 2.549732539343734) * x + 0
          \<le> (((0.007784894002430293 * y + 0.3223964580411365) * y + 2.400758277161838) * y
          + 2.549732539343734) * y + 0"
      using 3 that by (intro horner_step) simp_all
    have 5: "0 \<le> ((((0.007784894002430293 * x + 0.3223964580411365) * x + 2.400758277161838) * x
          + 2.549732539343734) * x + 0) * x + 0
        \<and> ((((0.007784894002430293 * x + 0.3223964580411365) * x + 2.400758277161838) * x
          + 2.549732539343734) * x + 0) * x + 0
          \<le> ((((0.007784894002430293 * y + 0.3223964580411365) * y + 2.400758277161838) * y
          + 2.549732539343734) * y + 0) * y + 0"
      using 4 that by (intro horner_step) simp_all
    show ?thesis using 3 5 by simp
  qed
  define P :: "real \<Rightarrow> real" where
    "P x = (((0.007784894002430293 * x + 0.3223964580411365) * x + 2.400758277161838) * x
        + 2.549732539343734) * x * x" for x
  have tn: "tail_num x y = P x - 4.374664141464968 * y - 2.938163982698783" for x y
    by (simp only: tail_num_def P_def)
  have 1: "P a \<le> P q" using h [OF assms(1,2)] by (simp only: P_def)
  have 2: "P q \<le> P b" using h [OF pos(1) assms(3)] by (simp only: P_def)
  have 3: "4.374664141464968 * a \<le> 4.374664141464968 * q"
    "4.374664141464968 * q \<le> 4.374664141464968 * b"
    using assms(2,3) by simp_all
  show ?thesis
    unfolding tn using 1 2 3 by linarith
qed

lemma tail_bounds:
  assumes "0 \<le> a" and "a \<le> q" and "q \<le> b" and "0 \<le> tail_num a b"
  shows "tail_num a b / tail_den b \<le> - tail_ratio q
       \<and> - tail_ratio q \<le> tail_num b a / tail_den a"
proof -
  have q: "0 \<le> q" using assms by linarith
  have d1: "1 \<le> tail_den a" "tail_den a \<le> tail_den q"
    using tail_den_mono [OF assms(1,2)] by simp_all
  have d2: "tail_den q \<le> tail_den b"
    using tail_den_mono [OF q assms(3)] by simp
  have n: "tail_num a b \<le> tail_num q q" "tail_num q q \<le> tail_num b a"
    using tail_num_mono [OF assms(1,2,3)] by simp_all
  have "tail_num a b / tail_den b \<le> tail_num a b / tail_den q"
    using assms(4) d1 d2 by (intro divide_left_mono) (simp_all add: mult_pos_pos)
  also have "\<dots> \<le> tail_num q q / tail_den q"
    using n(1) d1 by (intro divide_right_mono) simp_all
  finally have lo: "tail_num a b / tail_den b \<le> - tail_ratio q"
    by (simp add: tail_ratio_split)
  have "tail_num q q / tail_den q \<le> tail_num b a / tail_den q"
    using n(2) d1 by (intro divide_right_mono) simp_all
  also have "\<dots> \<le> tail_num b a / tail_den a"
    using assms(4) n d1 by (intro divide_left_mono) (simp_all add: mult_pos_pos)
  finally have hi: "- tail_ratio q \<le> tail_num b a / tail_den a"
    by (simp add: tail_ratio_split)
  show ?thesis using lo hi by simp
qed

lemma invNorm_upper_tail:
  assumes "0.97575 < p" shows "invNorm p = - tail_ratio (sqrt (- 2 * ln (1 - p)))"
proof -
  have c: "\<not> p < 0.02425" "\<not> p \<le> 1 - 0.02425"
    using assms by simp_all
  show ?thesis
    unfolding invNorm_def Let_def tail_ratio_def using c
    by (simp only: if_False minus_divide_left)
qed

subsection \<open>The raw sensitivity after each trial\<close>

lemma invNorm_hit_1: "0.674487 < invNorm (3 / 4) \<and> invNorm (3 / 4) < 0.674492"
  by (simp add: invNorm_def Let_def)

lemma invNorm_hit_2: "0.967419 < invNorm (5 / 6) \<and> invNorm (5 / 6) < 0.967424"
  by (simp add: invNorm_def Let_def)

lemma invNorm_hit_3: "1.150347 < invNorm (7 / 8) \<and> invNorm (7 / 8) < 1.150352"
  by (simp add: invNorm_def Let_def)

lemma invNorm_hit_4: "1.281549 < invNorm (9 / 10) \<and> invNorm (9 / 10) < 1.281554"
  by (simp add: invNorm_def Let_def)

lemma invNorm_hit_5: "1.382992 < invNorm (11 / 12) \<and> invNorm (11 / 12) < 1.382997"
  by (simp add: invNorm_def Let_def)

lemma invNorm_hit_6: "1.465231 < invNorm (13 / 14) \<and> invNorm (13 / 14) < 1.465236"
  by (simp add: invNorm_def Let_def)

lemma invNorm_hit_7: "1.534118 < invNorm (15 / 16) \<and> invNorm (15 / 16) < 1.534123"
  by (simp add: invNorm_def Let_def)

lemma invNorm_hit_8: "1.593216 < invNorm (17 / 18) \<and> invNorm (17 / 18) < 1.593221"
  by (simp add: invNorm_def Let_def)

lemma invNorm_hit_9: "1.644851 < invNorm (19 / 20) \<and> invNorm (19 / 20) < 1.644856"
  by (simp add: invNorm_def Let_def)

lemma invNorm_hit_10: "1.690619 < invNorm (21 / 22) \<and> invNorm (21 / 22) < 1.690624"
  by (simp add: invNorm_def Let_def)

lemma invNorm_hit_11: "1.731662 < invNorm (23 / 24) \<and> invNorm (23 / 24) < 1.731667"
  by (simp add: invNorm_def Let_def)

lemma invNorm_hit_12: "1.768823 < invNorm (25 / 26) \<and> invNorm (25 / 26) < 1.768828"
  by (simp add: invNorm_def Let_def)

lemma invNorm_hit_13: "1.802741 < invNorm (27 / 28) \<and> invNorm (27 / 28) < 1.802746"
  by (simp add: invNorm_def Let_def)

lemma invNorm_hit_14: "1.833912 < invNorm (29 / 30) \<and> invNorm (29 / 30) < 1.833917"
  by (simp add: invNorm_def Let_def)

lemma invNorm_hit_15: "1.862729 < invNorm (31 / 32) \<and> invNorm (31 / 32) < 1.862734"
  by (simp add: invNorm_def Let_def)

lemma invNorm_hit_16: "1.889507 < invNorm (33 / 34) \<and> invNorm (33 / 34) < 1.889512"
  by (simp add: invNorm_def Let_def)

lemma invNorm_hit_17: "1.914503 < invNorm (35 / 36) \<and> invNorm (35 / 36) < 1.914508"
  by (simp add: invNorm_def Let_def)

lemma invNorm_hit_18: "1.937929 < invNorm (37 / 38) \<and> invNorm (37 / 38) < 1.937934"
  by (simp add: invNorm_def Let_def)

lemma invNorm_hit_19: "1.959961 < invNorm (39 / 40) \<and> invNorm (39 / 40) < 1.959966"
  by (simp add: invNorm_def Let_def)

lemma ln_42: "3.7376685 \<le> ln (42::real) \<and> ln (42::real) \<le> 3.7376705"
proof -
  have "0.271933 \<le> ln (21 / 16 :: real)"
    by (rule ln_lower_taylor) (simp_all add: eval_nat_numeral)
  moreover have "ln (21 / 16 :: real) \<le> 0.271934"
    by (rule ln_upper_taylor) (simp_all add: eval_nat_numeral)
  moreover have "ln (42::real) = 5 * ln 2 + ln (21 / 16 :: real)"
    using ln_mult [of "2 ^ 5 :: real" "21 / 16"] ln_realpow [of "2::real" 5] by simp
  ultimately show ?thesis
    using ln_2_bounds by auto
qed

lemma invNorm_hit_20: "1.980728 < invNorm (41 / 42) \<and> invNorm (41 / 42) < 1.980773"
proof -
  have arg: "- 2 * ln (1 - 41 / 42) = 2 * ln (42::real)"
    using ln_div [of 1 "42::real"] by simp
  have q: "2.7341 \<le> sqrt (2 * ln (42::real)) \<and> sqrt (2 * ln (42::real)) \<le> 2.73411"
    using ln_42 by (intro sqrt_between [of _ _ "3.7376685" "3.7376705"]) (simp_all add: power2_eq_square)
  have "invNorm (41 / 42) = - tail_ratio (sqrt (2 * ln (42::real)))"
    using invNorm_upper_tail [of "41 / 42"] by (simp only: arg) simp
  moreover have "tail_num 2.7341 2.73411 / tail_den 2.73411 \<le> - tail_ratio (sqrt (2 * ln (42::real)))
      \<and> - tail_ratio (sqrt (2 * ln (42::real))) \<le> tail_num 2.73411 2.7341 / tail_den 2.7341"
    using q by (intro tail_bounds) (simp_all add: tail_num_def)
  moreover have "1.980728 < tail_num 2.7341 2.73411 / tail_den 2.73411"
    by (simp add: tail_num_def tail_den_def)
  moreover have "tail_num 2.73411 2.7341 / tail_den 2.7341 < 1.980773"
    by (simp add: tail_num_def tail_den_def)
  ultimately show ?thesis by linarith
qed

lemma ln_44: "3.7841885 \<le> ln (44::real) \<and> ln (44::real) \<le> 3.7841905"
proof -
  have "0.318453 \<le> ln (11 / 8 :: real)"
    by (rule ln_lower_taylor) (simp_all add: eval_nat_numeral)
  moreover have "ln (11 / 8 :: real) \<le> 0.318454"
    by (rule ln_upper_taylor) (simp_all add: eval_nat_numeral)
  moreover have "ln (44::real) = 5 * ln 2 + ln (11 / 8 :: real)"
    using ln_mult [of "2 ^ 5 :: real" "11 / 8"] ln_realpow [of "2::real" 5] by simp
  ultimately show ?thesis
    using ln_2_bounds by auto
qed

lemma invNorm_hit_21: "2.000382 < invNorm (43 / 44) \<and> invNorm (43 / 44) < 2.000468"
proof -
  have arg: "- 2 * ln (1 - 43 / 44) = 2 * ln (44::real)"
    using ln_div [of 1 "44::real"] by simp
  have q: "2.75106 \<le> sqrt (2 * ln (44::real)) \<and> sqrt (2 * ln (44::real)) \<le> 2.75108"
    using ln_44 by (intro sqrt_between [of _ _ "3.7841885" "3.7841905"]) (simp_all add: power2_eq_square)
  have "invNorm (43 / 44) = - tail_ratio (sqrt (2 * ln (44::real)))"
    using invNorm_upper_tail [of "43 / 44"] by (simp only: arg) simp
  moreover have "tail_num 2.75106 2.75108 / tail_den 2.75108 \<le> - tail_ratio (sqrt (2 * ln (44::real)))
      \<and> - tail_ratio (sqrt (2 * ln (44::real))) \<le> tail_num 2.75108 2.75106 / tail_den 2.75106"
    using q by (intro tail_bounds) (simp_all add: tail_num_def)
  moreover have "2.000382 < tail_num 2.75106 2.75108 / tail_den 2.75108"
    by (simp add: tail_num_def tail_den_def)
  moreover have "tail_num 2.75108 2.75106 / tail_den 2.75106 < 2.000468"
    by (simp add: tail_num_def tail_den_def)
  ultimately show ?thesis by linarith
qed

lemma ln_46: "3.8286405 \<le> ln (46::real) \<and> ln (46::real) \<le> 3.8286425"
proof -
  have "0.362905 \<le> ln (23 / 16 :: real)"
    by (rule ln_lower_taylor) (simp_all add: eval_nat_numeral)
  moreover have "ln (23 / 16 :: real) \<le> 0.362906"
    by (rule ln_upper_taylor) (simp_all add: eval_nat_numeral)
  moreover have "ln (46::real) = 5 * ln 2 + ln (23 / 16 :: real)"
    using ln_mult [of "2 ^ 5 :: real" "23 / 16"] ln_realpow [of "2::real" 5] by simp
  ultimately show ?thesis
    using ln_2_bounds by auto
qed

lemma invNorm_hit_22: "2.019044 < invNorm (45 / 46) \<and> invNorm (45 / 46) < 2.019129"
proof -
  have arg: "- 2 * ln (1 - 45 / 46) = 2 * ln (46::real)"
    using ln_div [of 1 "46::real"] by simp
  have q: "2.76717 \<le> sqrt (2 * ln (46::real)) \<and> sqrt (2 * ln (46::real)) \<le> 2.76719"
    using ln_46 by (intro sqrt_between [of _ _ "3.8286405" "3.8286425"]) (simp_all add: power2_eq_square)
  have "invNorm (45 / 46) = - tail_ratio (sqrt (2 * ln (46::real)))"
    using invNorm_upper_tail [of "45 / 46"] by (simp only: arg) simp
  moreover have "tail_num 2.76717 2.76719 / tail_den 2.76719 \<le> - tail_ratio (sqrt (2 * ln (46::real)))
      \<and> - tail_ratio (sqrt (2 * ln (46::real))) \<le> tail_num 2.76719 2.76717 / tail_den 2.76717"
    using q by (intro tail_bounds) (simp_all add: tail_num_def)
  moreover have "2.019044 < tail_num 2.76717 2.76719 / tail_den 2.76719"
    by (simp add: tail_num_def tail_den_def)
  moreover have "tail_num 2.76719 2.76717 / tail_den 2.76717 < 2.019129"
    by (simp add: tail_num_def tail_den_def)
  ultimately show ?thesis by linarith
qed

lemma ln_48: "3.8711995 \<le> ln (48::real) \<and> ln (48::real) \<le> 3.8712025"
proof -
  have "0.405464 \<le> ln (3 / 2 :: real)"
    by (rule ln_lower_taylor) (simp_all add: eval_nat_numeral)
  moreover have "ln (3 / 2 :: real) \<le> 0.405466"
    by (rule ln_upper_taylor) (simp_all add: eval_nat_numeral)
  moreover have "ln (48::real) = 5 * ln 2 + ln (3 / 2 :: real)"
    using ln_mult [of "2 ^ 5 :: real" "3 / 2"] ln_realpow [of "2::real" 5] by simp
  ultimately show ?thesis
    using ln_2_bounds by auto
qed

lemma invNorm_hit_23: "2.036809 < invNorm (47 / 48) \<and> invNorm (47 / 48) < 2.036854"
proof -
  have arg: "- 2 * ln (1 - 47 / 48) = 2 * ln (48::real)"
    using ln_div [of 1 "48::real"] by simp
  have q: "2.78251 \<le> sqrt (2 * ln (48::real)) \<and> sqrt (2 * ln (48::real)) \<le> 2.78252"
    using ln_48 by (intro sqrt_between [of _ _ "3.8711995" "3.8712025"]) (simp_all add: power2_eq_square)
  have "invNorm (47 / 48) = - tail_ratio (sqrt (2 * ln (48::real)))"
    using invNorm_upper_tail [of "47 / 48"] by (simp only: arg) simp
  moreover have "tail_num 2.78251 2.78252 / tail_den 2.78252 \<le> - tail_ratio (sqrt (2 * ln (48::real)))
      \<and> - tail_ratio (sqrt (2 * ln (48::real))) \<le> tail_num 2.78252 2.78251 / tail_den 2.78251"
    using q by (intro tail_bounds) (simp_all add: tail_num_def)
  moreover have "2.036809 < tail_num 2.78251 2.78252 / tail_den 2.78252"
    by (simp add: tail_num_def tail_den_def)
  moreover have "tail_num 2.78252 2.78251 / tail_den 2.78251 < 2.036854"
    by (simp add: tail_num_def tail_den_def)
  ultimately show ?thesis by linarith
qed

lemma ln_50: "3.9120215 \<le> ln (50::real) \<and> ln (50::real) \<le> 3.9120245"
proof -
  have "0.446286 \<le> ln (25 / 16 :: real)"
    by (rule ln_lower_taylor) (simp_all add: eval_nat_numeral)
  moreover have "ln (25 / 16 :: real) \<le> 0.446288"
    by (rule ln_upper_taylor) (simp_all add: eval_nat_numeral)
  moreover have "ln (50::real) = 5 * ln 2 + ln (25 / 16 :: real)"
    using ln_mult [of "2 ^ 5 :: real" "25 / 16"] ln_realpow [of "2::real" 5] by simp
  ultimately show ?thesis
    using ln_2_bounds by auto
qed

lemma invNorm_hit_24: "2.053706 < invNorm (49 / 50) \<and> invNorm (49 / 50) < 2.053792"
proof -
  have arg: "- 2 * ln (1 - 49 / 50) = 2 * ln (50::real)"
    using ln_div [of 1 "50::real"] by simp
  have q: "2.79714 \<le> sqrt (2 * ln (50::real)) \<and> sqrt (2 * ln (50::real)) \<le> 2.79716"
    using ln_50 by (intro sqrt_between [of _ _ "3.9120215" "3.9120245"]) (simp_all add: power2_eq_square)
  have "invNorm (49 / 50) = - tail_ratio (sqrt (2 * ln (50::real)))"
    using invNorm_upper_tail [of "49 / 50"] by (simp only: arg) simp
  moreover have "tail_num 2.79714 2.79716 / tail_den 2.79716 \<le> - tail_ratio (sqrt (2 * ln (50::real)))
      \<and> - tail_ratio (sqrt (2 * ln (50::real))) \<le> tail_num 2.79716 2.79714 / tail_den 2.79714"
    using q by (intro tail_bounds) (simp_all add: tail_num_def)
  moreover have "2.053706 < tail_num 2.79714 2.79716 / tail_den 2.79716"
    by (simp add: tail_num_def tail_den_def)
  moreover have "tail_num 2.79716 2.79714 / tail_den 2.79714 < 2.053792"
    by (simp add: tail_num_def tail_den_def)
  ultimately show ?thesis by linarith
qed

lemma ln_52: "3.9512425 \<le> ln (52::real) \<and> ln (52::real) \<le> 3.9512455"
proof -
  have "0.485507 \<le> ln (13 / 8 :: real)"
    by (rule ln_lower_taylor) (simp_all add: eval_nat_numeral)
  moreover have "ln (13 / 8 :: real) \<le> 0.485509"
    by (rule ln_upper_taylor) (simp_all add: eval_nat_numeral)
  moreover have "ln (52::real) = 5 * ln 2 + ln (13 / 8 :: real)"
    using ln_mult [of "2 ^ 5 :: real" "13 / 8"] ln_realpow [of "2::real" 5] by simp
  ultimately show ?thesis
    using ln_2_bounds by auto
qed

lemma invNorm_hit_25: "2.069878 < invNorm (51 / 52) \<and> invNorm (51 / 52) < 2.069923"
proof -
  have arg: "- 2 * ln (1 - 51 / 52) = 2 * ln (52::real)"
    using ln_div [of 1 "52::real"] by simp
  have q: "2.81113 \<le> sqrt (2 * ln (52::real)) \<and> sqrt (2 * ln (52::real)) \<le> 2.81114"
    using ln_52 by (intro sqrt_between [of _ _ "3.9512425" "3.9512455"]) (simp_all add: power2_eq_square)
  have "invNorm (51 / 52) = - tail_ratio (sqrt (2 * ln (52::real)))"
    using invNorm_upper_tail [of "51 / 52"] by (simp only: arg) simp
  moreover have "tail_num 2.81113 2.81114 / tail_den 2.81114 \<le> - tail_ratio (sqrt (2 * ln (52::real)))
      \<and> - tail_ratio (sqrt (2 * ln (52::real))) \<le> tail_num 2.81114 2.81113 / tail_den 2.81113"
    using q by (intro tail_bounds) (simp_all add: tail_num_def)
  moreover have "2.069878 < tail_num 2.81113 2.81114 / tail_den 2.81114"
    by (simp add: tail_num_def tail_den_def)
  moreover have "tail_num 2.81114 2.81113 / tail_den 2.81113 < 2.069923"
    by (simp add: tail_num_def tail_den_def)
  ultimately show ?thesis by linarith
qed

lemma ln_54: "3.9889825 \<le> ln (54::real) \<and> ln (54::real) \<le> 3.9889855"
proof -
  have "0.523247 \<le> ln (27 / 16 :: real)"
    by (rule ln_lower_taylor) (simp_all add: eval_nat_numeral)
  moreover have "ln (27 / 16 :: real) \<le> 0.523249"
    by (rule ln_upper_taylor) (simp_all add: eval_nat_numeral)
  moreover have "ln (54::real) = 5 * ln 2 + ln (27 / 16 :: real)"
    using ln_mult [of "2 ^ 5 :: real" "27 / 16"] ln_realpow [of "2::real" 5] by simp
  ultimately show ?thesis
    using ln_2_bounds by auto
qed

lemma invNorm_hit_26: "2.085313 < invNorm (53 / 54) \<and> invNorm (53 / 54) < 2.085399"
proof -
  have arg: "- 2 * ln (1 - 53 / 54) = 2 * ln (54::real)"
    using ln_div [of 1 "54::real"] by simp
  have q: "2.82452 \<le> sqrt (2 * ln (54::real)) \<and> sqrt (2 * ln (54::real)) \<le> 2.82454"
    using ln_54 by (intro sqrt_between [of _ _ "3.9889825" "3.9889855"]) (simp_all add: power2_eq_square)
  have "invNorm (53 / 54) = - tail_ratio (sqrt (2 * ln (54::real)))"
    using invNorm_upper_tail [of "53 / 54"] by (simp only: arg) simp
  moreover have "tail_num 2.82452 2.82454 / tail_den 2.82454 \<le> - tail_ratio (sqrt (2 * ln (54::real)))
      \<and> - tail_ratio (sqrt (2 * ln (54::real))) \<le> tail_num 2.82454 2.82452 / tail_den 2.82452"
    using q by (intro tail_bounds) (simp_all add: tail_num_def)
  moreover have "2.085313 < tail_num 2.82452 2.82454 / tail_den 2.82454"
    by (simp add: tail_num_def tail_den_def)
  moreover have "tail_num 2.82454 2.82452 / tail_den 2.82452 < 2.085399"
    by (simp add: tail_num_def tail_den_def)
  ultimately show ?thesis by linarith
qed

lemma ln_56: "4.0253505 \<le> ln (56::real) \<and> ln (56::real) \<le> 4.0253525"
proof -
  have "0.559615 \<le> ln (7 / 4 :: real)"
    by (rule ln_lower_taylor) (simp_all add: eval_nat_numeral)
  moreover have "ln (7 / 4 :: real) \<le> 0.559616"
    by (rule ln_upper_taylor) (simp_all add: eval_nat_numeral)
  moreover have "ln (56::real) = 5 * ln 2 + ln (7 / 4 :: real)"
    using ln_mult [of "2 ^ 5 :: real" "7 / 4"] ln_realpow [of "2::real" 5] by simp
  ultimately show ?thesis
    using ln_2_bounds by auto
qed

lemma invNorm_hit_27: "2.100142 < invNorm (55 / 56) \<and> invNorm (55 / 56) < 2.100187"
proof -
  have arg: "- 2 * ln (1 - 55 / 56) = 2 * ln (56::real)"
    using ln_div [of 1 "56::real"] by simp
  have q: "2.83737 \<le> sqrt (2 * ln (56::real)) \<and> sqrt (2 * ln (56::real)) \<le> 2.83738"
    using ln_56 by (intro sqrt_between [of _ _ "4.0253505" "4.0253525"]) (simp_all add: power2_eq_square)
  have "invNorm (55 / 56) = - tail_ratio (sqrt (2 * ln (56::real)))"
    using invNorm_upper_tail [of "55 / 56"] by (simp only: arg) simp
  moreover have "tail_num 2.83737 2.83738 / tail_den 2.83738 \<le> - tail_ratio (sqrt (2 * ln (56::real)))
      \<and> - tail_ratio (sqrt (2 * ln (56::real))) \<le> tail_num 2.83738 2.83737 / tail_den 2.83737"
    using q by (intro tail_bounds) (simp_all add: tail_num_def)
  moreover have "2.100142 < tail_num 2.83737 2.83738 / tail_den 2.83738"
    by (simp add: tail_num_def tail_den_def)
  moreover have "tail_num 2.83738 2.83737 / tail_den 2.83737 < 2.100187"
    by (simp add: tail_num_def tail_den_def)
  ultimately show ?thesis by linarith
qed

lemma ln_58: "4.0604415 \<le> ln (58::real) \<and> ln (58::real) \<le> 4.0604445"
proof -
  have "0.594706 \<le> ln (29 / 16 :: real)"
    by (rule ln_lower_taylor) (simp_all add: eval_nat_numeral)
  moreover have "ln (29 / 16 :: real) \<le> 0.594708"
    by (rule ln_upper_taylor) (simp_all add: eval_nat_numeral)
  moreover have "ln (58::real) = 5 * ln 2 + ln (29 / 16 :: real)"
    using ln_mult [of "2 ^ 5 :: real" "29 / 16"] ln_realpow [of "2::real" 5] by simp
  ultimately show ?thesis
    using ln_2_bounds by auto
qed

lemma invNorm_hit_28: "2.114356 < invNorm (57 / 58) \<and> invNorm (57 / 58) < 2.114401"
proof -
  have arg: "- 2 * ln (1 - 57 / 58) = 2 * ln (58::real)"
    using ln_div [of 1 "58::real"] by simp
  have q: "2.84971 \<le> sqrt (2 * ln (58::real)) \<and> sqrt (2 * ln (58::real)) \<le> 2.84972"
    using ln_58 by (intro sqrt_between [of _ _ "4.0604415" "4.0604445"]) (simp_all add: power2_eq_square)
  have "invNorm (57 / 58) = - tail_ratio (sqrt (2 * ln (58::real)))"
    using invNorm_upper_tail [of "57 / 58"] by (simp only: arg) simp
  moreover have "tail_num 2.84971 2.84972 / tail_den 2.84972 \<le> - tail_ratio (sqrt (2 * ln (58::real)))
      \<and> - tail_ratio (sqrt (2 * ln (58::real))) \<le> tail_num 2.84972 2.84971 / tail_den 2.84971"
    using q by (intro tail_bounds) (simp_all add: tail_num_def)
  moreover have "2.114356 < tail_num 2.84971 2.84972 / tail_den 2.84972"
    by (simp add: tail_num_def tail_den_def)
  moreover have "tail_num 2.84972 2.84971 / tail_den 2.84971 < 2.114401"
    by (simp add: tail_num_def tail_den_def)
  ultimately show ?thesis by linarith
qed

lemma ln_60: "4.0943435 \<le> ln (60::real) \<and> ln (60::real) \<le> 4.0943455"
proof -
  have "0.628608 \<le> ln (15 / 8 :: real)"
    by (rule ln_lower_taylor) (simp_all add: eval_nat_numeral)
  moreover have "ln (15 / 8 :: real) \<le> 0.628609"
    by (rule ln_upper_taylor) (simp_all add: eval_nat_numeral)
  moreover have "ln (60::real) = 5 * ln 2 + ln (15 / 8 :: real)"
    using ln_mult [of "2 ^ 5 :: real" "15 / 8"] ln_realpow [of "2::real" 5] by simp
  ultimately show ?thesis
    using ln_2_bounds by auto
qed

lemma invNorm_hit_29: "2.128019 < invNorm (59 / 60) \<and> invNorm (59 / 60) < 2.128064"
proof -
  have arg: "- 2 * ln (1 - 59 / 60) = 2 * ln (60::real)"
    using ln_div [of 1 "60::real"] by simp
  have q: "2.86158 \<le> sqrt (2 * ln (60::real)) \<and> sqrt (2 * ln (60::real)) \<le> 2.86159"
    using ln_60 by (intro sqrt_between [of _ _ "4.0943435" "4.0943455"]) (simp_all add: power2_eq_square)
  have "invNorm (59 / 60) = - tail_ratio (sqrt (2 * ln (60::real)))"
    using invNorm_upper_tail [of "59 / 60"] by (simp only: arg) simp
  moreover have "tail_num 2.86158 2.86159 / tail_den 2.86159 \<le> - tail_ratio (sqrt (2 * ln (60::real)))
      \<and> - tail_ratio (sqrt (2 * ln (60::real))) \<le> tail_num 2.86159 2.86158 / tail_den 2.86158"
    using q by (intro tail_bounds) (simp_all add: tail_num_def)
  moreover have "2.128019 < tail_num 2.86158 2.86159 / tail_den 2.86159"
    by (simp add: tail_num_def tail_den_def)
  moreover have "tail_num 2.86159 2.86158 / tail_den 2.86158 < 2.128064"
    by (simp add: tail_num_def tail_den_def)
  ultimately show ?thesis by linarith
qed

lemma ln_62: "4.1271335 \<le> ln (62::real) \<and> ln (62::real) \<le> 4.1271355"
proof -
  have "0.661398 \<le> ln (31 / 16 :: real)"
    by (rule ln_lower_taylor) (simp_all add: eval_nat_numeral)
  moreover have "ln (31 / 16 :: real) \<le> 0.661399"
    by (rule ln_upper_taylor) (simp_all add: eval_nat_numeral)
  moreover have "ln (62::real) = 5 * ln 2 + ln (31 / 16 :: real)"
    using ln_mult [of "2 ^ 5 :: real" "31 / 16"] ln_realpow [of "2::real" 5] by simp
  ultimately show ?thesis
    using ln_2_bounds by auto
qed

lemma invNorm_hit_30: "2.141176 < invNorm (61 / 62) \<and> invNorm (61 / 62) < 2.141221"
proof -
  have arg: "- 2 * ln (1 - 61 / 62) = 2 * ln (62::real)"
    using ln_div [of 1 "62::real"] by simp
  have q: "2.87302 \<le> sqrt (2 * ln (62::real)) \<and> sqrt (2 * ln (62::real)) \<le> 2.87303"
    using ln_62 by (intro sqrt_between [of _ _ "4.1271335" "4.1271355"]) (simp_all add: power2_eq_square)
  have "invNorm (61 / 62) = - tail_ratio (sqrt (2 * ln (62::real)))"
    using invNorm_upper_tail [of "61 / 62"] by (simp only: arg) simp
  moreover have "tail_num 2.87302 2.87303 / tail_den 2.87303 \<le> - tail_ratio (sqrt (2 * ln (62::real)))
      \<and> - tail_ratio (sqrt (2 * ln (62::real))) \<le> tail_num 2.87303 2.87302 / tail_den 2.87302"
    using q by (intro tail_bounds) (simp_all add: tail_num_def)
  moreover have "2.141176 < tail_num 2.87302 2.87303 / tail_den 2.87303"
    by (simp add: tail_num_def tail_den_def)
  moreover have "tail_num 2.87303 2.87302 / tail_den 2.87302 < 2.141221"
    by (simp add: tail_num_def tail_den_def)
  ultimately show ?thesis by linarith
qed

subsection \<open>The course of \<open>theta\<close>\<close>

lemma ability_run_snoc:
  "ability_run ab (ts @ [(m, c, rt)]) = AbilityModel_recordTrial (ability_run ab ts) m c rt"
  by (simp add: ability_run_def)

lemma hits_window:
  "k \<le> 30 \<Longrightarrow>
     trialWindow (ability_run AbilityModel_new (replicate k (True, True, 500)))
       = replicate k (True, True)"
proof (induction k)
  case 0
  then show ?case by (simp add: ability_run_def AbilityModel_new_def)
next
  case (Suc k)
  have "replicate (Suc k) (True, True, 500::real) = replicate k (True, True, 500) @ [(True, True, 500)]"
    by (simp add: replicate_append_same)
  then have "ability_run AbilityModel_new (replicate (Suc k) (True, True, 500))
      = AbilityModel_recordTrial (ability_run AbilityModel_new (replicate k (True, True, 500)))
          True True 500"
    by (simp only: ability_run_snoc)
  then show ?case
    using Suc
    by (simp add: AbilityModel_recordTrial_def Let_def push_shift_def windowSize_def
        replicate_append_same)
qed

lemma invNorm_half: "invNorm (1 / 2) = 0"
  by (simp add: invNorm_def Let_def)

lemma rawDPrime_hits:
  assumes "1 \<le> k" and "k \<le> 30"
  shows "rawDPrime (replicate k (True, True)) = invNorm ((real k + 0.5) / (real k + 1))"
proof -
  have c: "getSDTCounts (replicate k (True, True))
      = \<lparr>hits = k, misses = 0, falseAlarms = 0, correctRejections = 0\<rparr>"
    by (simp add: getSDTCounts_def)
  have lo: "0.01 \<le> (real k + 0.5) / (real k + 1)"
    by (simp add: field_simps)
  have hi: "(real k + 0.5) / (real k + 1) \<le> 0.99"
    using assms(2) by (simp add: field_simps)
  show ?thesis
    using lo hi by (simp add: rawDPrime_def c computeDPrime_def Let_def invNorm_half)
qed

lemma theta_after_Suc:
  assumes "k < 30"
  shows "theta_after (Suc k)
       = theta_after k * (1 - thetaAlpha)
         + invNorm ((real (Suc k) + 0.5) / (real (Suc k) + 1)) * thetaAlpha"
proof -
  have "replicate (Suc k) (True, True, 500::real) = replicate k (True, True, 500) @ [(True, True, 500)]"
    by (simp add: replicate_append_same)
  then have run: "ability_run AbilityModel_new (replicate (Suc k) (True, True, 500))
      = AbilityModel_recordTrial (ability_run AbilityModel_new (replicate k (True, True, 500)))
          True True 500"
    by (simp only: ability_run_snoc)
  have w: "trialWindow (ability_run AbilityModel_new (replicate (Suc k) (True, True, 500)))
      = replicate (Suc k) (True, True)"
    using hits_window [of "Suc k"] assms by simp
  have "theta (AbilityModel_recordTrial ab True True 500)
      = theta ab * (1 - thetaAlpha)
        + rawDPrime (trialWindow (AbilityModel_recordTrial ab True True 500)) * thetaAlpha" for ab
    by (simp add: AbilityModel_recordTrial_def Let_def)
  then show ?thesis
    using rawDPrime_hits [of "Suc k"] assms w
    unfolding theta_after_def run by simp
qed

lemma theta_after_0: "theta_after 0 = 1.5"
  by (simp add: theta_after_def ability_run_def AbilityModel_new_def)

lemma theta_after_blend:
  assumes "k < 30"
  shows "theta_after (Suc k)
       = theta_after k * (17 / 20)
         + invNorm ((real (Suc k) + 0.5) / (real (Suc k) + 1)) * (3 / 20)"
proof -
  have a: "1 - thetaAlpha = 17 / 20" "thetaAlpha = 3 / 20"
    by (simp_all add: thetaAlpha_def)
  show ?thesis
    using theta_after_Suc [OF assms] by (simp add: thetaAlpha_def)
qed

lemma hit_1: "674487 / 1000000 < invNorm (3 / 4) \<and> invNorm (3 / 4) < 674492 / 1000000"
  using invNorm_hit_1 by simp

lemma hit_2: "967419 / 1000000 < invNorm (5 / 6) \<and> invNorm (5 / 6) < 967424 / 1000000"
  using invNorm_hit_2 by simp

lemma hit_3: "1150347 / 1000000 < invNorm (7 / 8) \<and> invNorm (7 / 8) < 1150352 / 1000000"
  using invNorm_hit_3 by simp

lemma hit_4: "1281549 / 1000000 < invNorm (9 / 10) \<and> invNorm (9 / 10) < 1281554 / 1000000"
  using invNorm_hit_4 by simp

lemma hit_5: "1382992 / 1000000 < invNorm (11 / 12) \<and> invNorm (11 / 12) < 1382997 / 1000000"
  using invNorm_hit_5 by simp

lemma hit_6: "1465231 / 1000000 < invNorm (13 / 14) \<and> invNorm (13 / 14) < 1465236 / 1000000"
  using invNorm_hit_6 by simp

lemma hit_7: "1534118 / 1000000 < invNorm (15 / 16) \<and> invNorm (15 / 16) < 1534123 / 1000000"
  using invNorm_hit_7 by simp

lemma hit_8: "1593216 / 1000000 < invNorm (17 / 18) \<and> invNorm (17 / 18) < 1593221 / 1000000"
  using invNorm_hit_8 by simp

lemma hit_9: "1644851 / 1000000 < invNorm (19 / 20) \<and> invNorm (19 / 20) < 1644856 / 1000000"
  using invNorm_hit_9 by simp

lemma hit_10: "1690619 / 1000000 < invNorm (21 / 22) \<and> invNorm (21 / 22) < 1690624 / 1000000"
  using invNorm_hit_10 by simp

lemma hit_11: "1731662 / 1000000 < invNorm (23 / 24) \<and> invNorm (23 / 24) < 1731667 / 1000000"
  using invNorm_hit_11 by simp

lemma hit_12: "1768823 / 1000000 < invNorm (25 / 26) \<and> invNorm (25 / 26) < 1768828 / 1000000"
  using invNorm_hit_12 by simp

lemma hit_13: "1802741 / 1000000 < invNorm (27 / 28) \<and> invNorm (27 / 28) < 1802746 / 1000000"
  using invNorm_hit_13 by simp

lemma hit_14: "1833912 / 1000000 < invNorm (29 / 30) \<and> invNorm (29 / 30) < 1833917 / 1000000"
  using invNorm_hit_14 by simp

lemma hit_15: "1862729 / 1000000 < invNorm (31 / 32) \<and> invNorm (31 / 32) < 1862734 / 1000000"
  using invNorm_hit_15 by simp

lemma hit_16: "1889507 / 1000000 < invNorm (33 / 34) \<and> invNorm (33 / 34) < 1889512 / 1000000"
  using invNorm_hit_16 by simp

lemma hit_17: "1914503 / 1000000 < invNorm (35 / 36) \<and> invNorm (35 / 36) < 1914508 / 1000000"
  using invNorm_hit_17 by simp

lemma hit_18: "1937929 / 1000000 < invNorm (37 / 38) \<and> invNorm (37 / 38) < 1937934 / 1000000"
  using invNorm_hit_18 by simp

lemma hit_19: "1959961 / 1000000 < invNorm (39 / 40) \<and> invNorm (39 / 40) < 1959966 / 1000000"
  using invNorm_hit_19 by simp

lemma hit_20: "1980728 / 1000000 < invNorm (41 / 42) \<and> invNorm (41 / 42) < 1980773 / 1000000"
  using invNorm_hit_20 by simp

lemma hit_21: "2000382 / 1000000 < invNorm (43 / 44) \<and> invNorm (43 / 44) < 2000468 / 1000000"
  using invNorm_hit_21 by simp

lemma hit_22: "2019044 / 1000000 < invNorm (45 / 46) \<and> invNorm (45 / 46) < 2019129 / 1000000"
  using invNorm_hit_22 by simp

lemma hit_23: "2036809 / 1000000 < invNorm (47 / 48) \<and> invNorm (47 / 48) < 2036854 / 1000000"
  using invNorm_hit_23 by simp

lemma hit_24: "2053706 / 1000000 < invNorm (49 / 50) \<and> invNorm (49 / 50) < 2053792 / 1000000"
  using invNorm_hit_24 by simp

lemma hit_25: "2069878 / 1000000 < invNorm (51 / 52) \<and> invNorm (51 / 52) < 2069923 / 1000000"
  using invNorm_hit_25 by simp

lemma hit_26: "2085313 / 1000000 < invNorm (53 / 54) \<and> invNorm (53 / 54) < 2085399 / 1000000"
  using invNorm_hit_26 by simp

lemma hit_27: "2100142 / 1000000 < invNorm (55 / 56) \<and> invNorm (55 / 56) < 2100187 / 1000000"
  using invNorm_hit_27 by simp

lemma hit_28: "2114356 / 1000000 < invNorm (57 / 58) \<and> invNorm (57 / 58) < 2114401 / 1000000"
  using invNorm_hit_28 by simp

lemma hit_29: "2128019 / 1000000 < invNorm (59 / 60) \<and> invNorm (59 / 60) < 2128064 / 1000000"
  using invNorm_hit_29 by simp

lemma hit_30: "2141176 / 1000000 < invNorm (61 / 62) \<and> invNorm (61 / 62) < 2141221 / 1000000"
  using invNorm_hit_30 by simp

lemma theta_bounds_0: "3 / 2 \<le> theta_after 0 \<and> theta_after 0 \<le> 3 / 2"
  by (simp add: theta_after_0)

lemma theta_step_1:
  "theta_after 1 = theta_after 0 * (17 / 20) + invNorm (3 / 4) * (3 / 20)"
proof -
  have s: "Suc 0 = 1" by simp
  have r: "(real (Suc 0) + 0.5) / (real (Suc 0) + 1) = 3 / 4" by simp
  have "(0::nat) < 30" by simp
  from theta_after_blend [OF this]
  have "theta_after (Suc 0) = theta_after 0 * (17 / 20) + invNorm (3 / 4) * (3 / 20)"
    unfolding r .
  then show ?thesis unfolding s .
qed

lemma theta_bounds_1: "13761730 / 10000000 < theta_after 1 \<and> theta_after 1 < 13761738 / 10000000"
  using theta_bounds_0 hit_1 theta_step_1 by linarith

lemma theta_step_2:
  "theta_after 2 = theta_after 1 * (17 / 20) + invNorm (5 / 6) * (3 / 20)"
proof -
  have s: "Suc 1 = 2" by simp
  have r: "(real (Suc 1) + 0.5) / (real (Suc 1) + 1) = 5 / 6" by simp
  have "(1::nat) < 30" by simp
  from theta_after_blend [OF this]
  have "theta_after (Suc 1) = theta_after 1 * (17 / 20) + invNorm (5 / 6) * (3 / 20)"
    unfolding r .
  then show ?thesis unfolding s .
qed

lemma theta_bounds_2: "13148599 / 10000000 < theta_after 2 \<and> theta_after 2 < 13148614 / 10000000"
  using theta_bounds_1 hit_2 theta_step_2 by linarith

lemma theta_step_3:
  "theta_after 3 = theta_after 2 * (17 / 20) + invNorm (7 / 8) * (3 / 20)"
proof -
  have s: "Suc 2 = 3" by simp
  have r: "(real (Suc 2) + 0.5) / (real (Suc 2) + 1) = 7 / 8" by simp
  have "(2::nat) < 30" by simp
  from theta_after_blend [OF this]
  have "theta_after (Suc 2) = theta_after 2 * (17 / 20) + invNorm (7 / 8) * (3 / 20)"
    unfolding r .
  then show ?thesis unfolding s .
qed

lemma theta_bounds_3: "12901829 / 10000000 < theta_after 3 \<and> theta_after 3 < 12901850 / 10000000"
  using theta_bounds_2 hit_3 theta_step_3 by linarith

lemma theta_step_4:
  "theta_after 4 = theta_after 3 * (17 / 20) + invNorm (9 / 10) * (3 / 20)"
proof -
  have s: "Suc 3 = 4" by simp
  have r: "(real (Suc 3) + 0.5) / (real (Suc 3) + 1) = 9 / 10" by simp
  have "(3::nat) < 30" by simp
  from theta_after_blend [OF this]
  have "theta_after (Suc 3) = theta_after 3 * (17 / 20) + invNorm (9 / 10) * (3 / 20)"
    unfolding r .
  then show ?thesis unfolding s .
qed

lemma theta_bounds_4: "12888878 / 10000000 < theta_after 4 \<and> theta_after 4 < 12888904 / 10000000"
  using theta_bounds_3 hit_4 theta_step_4 by linarith

lemma theta_step_5:
  "theta_after 5 = theta_after 4 * (17 / 20) + invNorm (11 / 12) * (3 / 20)"
proof -
  have s: "Suc 4 = 5" by simp
  have r: "(real (Suc 4) + 0.5) / (real (Suc 4) + 1) = 11 / 12" by simp
  have "(4::nat) < 30" by simp
  from theta_after_blend [OF this]
  have "theta_after (Suc 4) = theta_after 4 * (17 / 20) + invNorm (11 / 12) * (3 / 20)"
    unfolding r .
  then show ?thesis unfolding s .
qed

lemma theta_bounds_5: "13030034 / 10000000 < theta_after 5 \<and> theta_after 5 < 13030064 / 10000000"
  using theta_bounds_4 hit_5 theta_step_5 by linarith

lemma theta_step_6:
  "theta_after 6 = theta_after 5 * (17 / 20) + invNorm (13 / 14) * (3 / 20)"
proof -
  have s: "Suc 5 = 6" by simp
  have r: "(real (Suc 5) + 0.5) / (real (Suc 5) + 1) = 13 / 14" by simp
  have "(5::nat) < 30" by simp
  from theta_after_blend [OF this]
  have "theta_after (Suc 5) = theta_after 5 * (17 / 20) + invNorm (13 / 14) * (3 / 20)"
    unfolding r .
  then show ?thesis unfolding s .
qed

lemma theta_bounds_6: "13273375 / 10000000 < theta_after 6 \<and> theta_after 6 < 13273409 / 10000000"
  using theta_bounds_5 hit_6 theta_step_6 by linarith

lemma theta_step_7:
  "theta_after 7 = theta_after 6 * (17 / 20) + invNorm (15 / 16) * (3 / 20)"
proof -
  have s: "Suc 6 = 7" by simp
  have r: "(real (Suc 6) + 0.5) / (real (Suc 6) + 1) = 15 / 16" by simp
  have "(6::nat) < 30" by simp
  from theta_after_blend [OF this]
  have "theta_after (Suc 6) = theta_after 6 * (17 / 20) + invNorm (15 / 16) * (3 / 20)"
    unfolding r .
  then show ?thesis unfolding s .
qed

lemma theta_bounds_7: "13583545 / 10000000 < theta_after 7 \<and> theta_after 7 < 13583583 / 10000000"
  using theta_bounds_6 hit_7 theta_step_7 by linarith

lemma theta_step_8:
  "theta_after 8 = theta_after 7 * (17 / 20) + invNorm (17 / 18) * (3 / 20)"
proof -
  have s: "Suc 7 = 8" by simp
  have r: "(real (Suc 7) + 0.5) / (real (Suc 7) + 1) = 17 / 18" by simp
  have "(7::nat) < 30" by simp
  from theta_after_blend [OF this]
  have "theta_after (Suc 7) = theta_after 7 * (17 / 20) + invNorm (17 / 18) * (3 / 20)"
    unfolding r .
  then show ?thesis unfolding s .
qed

lemma theta_bounds_8: "13935837 / 10000000 < theta_after 8 \<and> theta_after 8 < 13935878 / 10000000"
  using theta_bounds_7 hit_8 theta_step_8 by linarith

lemma theta_step_9:
  "theta_after 9 = theta_after 8 * (17 / 20) + invNorm (19 / 20) * (3 / 20)"
proof -
  have s: "Suc 8 = 9" by simp
  have r: "(real (Suc 8) + 0.5) / (real (Suc 8) + 1) = 19 / 20" by simp
  have "(8::nat) < 30" by simp
  from theta_after_blend [OF this]
  have "theta_after (Suc 8) = theta_after 8 * (17 / 20) + invNorm (19 / 20) * (3 / 20)"
    unfolding r .
  then show ?thesis unfolding s .
qed

lemma theta_bounds_9: "14312737 / 10000000 < theta_after 9 \<and> theta_after 9 < 14312781 / 10000000"
  using theta_bounds_8 hit_9 theta_step_9 by linarith

lemma theta_step_10:
  "theta_after 10 = theta_after 9 * (17 / 20) + invNorm (21 / 22) * (3 / 20)"
proof -
  have s: "Suc 9 = 10" by simp
  have r: "(real (Suc 9) + 0.5) / (real (Suc 9) + 1) = 21 / 22" by simp
  have "(9::nat) < 30" by simp
  from theta_after_blend [OF this]
  have "theta_after (Suc 9) = theta_after 9 * (17 / 20) + invNorm (21 / 22) * (3 / 20)"
    unfolding r .
  then show ?thesis unfolding s .
qed

lemma theta_bounds_10: "14701754 / 10000000 < theta_after 10 \<and> theta_after 10 < 14701800 / 10000000"
  using theta_bounds_9 hit_10 theta_step_10 by linarith

lemma theta_step_11:
  "theta_after 11 = theta_after 10 * (17 / 20) + invNorm (23 / 24) * (3 / 20)"
proof -
  have s: "Suc 10 = 11" by simp
  have r: "(real (Suc 10) + 0.5) / (real (Suc 10) + 1) = 23 / 24" by simp
  have "(10::nat) < 30" by simp
  from theta_after_blend [OF this]
  have "theta_after (Suc 10) = theta_after 10 * (17 / 20) + invNorm (23 / 24) * (3 / 20)"
    unfolding r .
  then show ?thesis unfolding s .
qed

lemma theta_bounds_11: "15093983 / 10000000 < theta_after 11 \<and> theta_after 11 < 15094031 / 10000000"
  using theta_bounds_10 hit_11 theta_step_11 by linarith

lemma theta_step_12:
  "theta_after 12 = theta_after 11 * (17 / 20) + invNorm (25 / 26) * (3 / 20)"
proof -
  have s: "Suc 11 = 12" by simp
  have r: "(real (Suc 11) + 0.5) / (real (Suc 11) + 1) = 25 / 26" by simp
  have "(11::nat) < 30" by simp
  from theta_after_blend [OF this]
  have "theta_after (Suc 11) = theta_after 11 * (17 / 20) + invNorm (25 / 26) * (3 / 20)"
    unfolding r .
  then show ?thesis unfolding s .
qed

lemma theta_bounds_12: "15483120 / 10000000 < theta_after 12 \<and> theta_after 12 < 15483169 / 10000000"
  using theta_bounds_11 hit_12 theta_step_12 by linarith

lemma theta_step_13:
  "theta_after 13 = theta_after 12 * (17 / 20) + invNorm (27 / 28) * (3 / 20)"
proof -
  have s: "Suc 12 = 13" by simp
  have r: "(real (Suc 12) + 0.5) / (real (Suc 12) + 1) = 27 / 28" by simp
  have "(12::nat) < 30" by simp
  from theta_after_blend [OF this]
  have "theta_after (Suc 12) = theta_after 12 * (17 / 20) + invNorm (27 / 28) * (3 / 20)"
    unfolding r .
  then show ?thesis unfolding s .
qed

lemma theta_bounds_13: "15864763 / 10000000 < theta_after 13 \<and> theta_after 13 < 15864813 / 10000000"
  using theta_bounds_12 hit_13 theta_step_13 by linarith

lemma theta_step_14:
  "theta_after 14 = theta_after 13 * (17 / 20) + invNorm (29 / 30) * (3 / 20)"
proof -
  have s: "Suc 13 = 14" by simp
  have r: "(real (Suc 13) + 0.5) / (real (Suc 13) + 1) = 29 / 30" by simp
  have "(13::nat) < 30" by simp
  from theta_after_blend [OF this]
  have "theta_after (Suc 13) = theta_after 13 * (17 / 20) + invNorm (29 / 30) * (3 / 20)"
    unfolding r .
  then show ?thesis unfolding s .
qed

lemma theta_bounds_14: "16235916 / 10000000 < theta_after 14 \<and> theta_after 14 < 16235967 / 10000000"
  using theta_bounds_13 hit_14 theta_step_14 by linarith

lemma theta_step_15:
  "theta_after 15 = theta_after 14 * (17 / 20) + invNorm (31 / 32) * (3 / 20)"
proof -
  have s: "Suc 14 = 15" by simp
  have r: "(real (Suc 14) + 0.5) / (real (Suc 14) + 1) = 31 / 32" by simp
  have "(14::nat) < 30" by simp
  from theta_after_blend [OF this]
  have "theta_after (Suc 14) = theta_after 14 * (17 / 20) + invNorm (31 / 32) * (3 / 20)"
    unfolding r .
  then show ?thesis unfolding s .
qed

lemma theta_bounds_15: "16594622 / 10000000 < theta_after 15 \<and> theta_after 15 < 16594673 / 10000000"
  using theta_bounds_14 hit_15 theta_step_15 by linarith

lemma theta_step_16:
  "theta_after 16 = theta_after 15 * (17 / 20) + invNorm (33 / 34) * (3 / 20)"
proof -
  have s: "Suc 15 = 16" by simp
  have r: "(real (Suc 15) + 0.5) / (real (Suc 15) + 1) = 33 / 34" by simp
  have "(15::nat) < 30" by simp
  from theta_after_blend [OF this]
  have "theta_after (Suc 15) = theta_after 15 * (17 / 20) + invNorm (33 / 34) * (3 / 20)"
    unfolding r .
  then show ?thesis unfolding s .
qed

lemma theta_bounds_16: "16939689 / 10000000 < theta_after 16 \<and> theta_after 16 < 16939741 / 10000000"
  using theta_bounds_15 hit_16 theta_step_16 by linarith

lemma theta_step_17:
  "theta_after 17 = theta_after 16 * (17 / 20) + invNorm (35 / 36) * (3 / 20)"
proof -
  have s: "Suc 16 = 17" by simp
  have r: "(real (Suc 16) + 0.5) / (real (Suc 16) + 1) = 35 / 36" by simp
  have "(16::nat) < 30" by simp
  from theta_after_blend [OF this]
  have "theta_after (Suc 16) = theta_after 16 * (17 / 20) + invNorm (35 / 36) * (3 / 20)"
    unfolding r .
  then show ?thesis unfolding s .
qed

lemma theta_bounds_17: "17270490 / 10000000 < theta_after 17 \<and> theta_after 17 < 17270542 / 10000000"
  using theta_bounds_16 hit_17 theta_step_17 by linarith

lemma theta_step_18:
  "theta_after 18 = theta_after 17 * (17 / 20) + invNorm (37 / 38) * (3 / 20)"
proof -
  have s: "Suc 17 = 18" by simp
  have r: "(real (Suc 17) + 0.5) / (real (Suc 17) + 1) = 37 / 38" by simp
  have "(17::nat) < 30" by simp
  from theta_after_blend [OF this]
  have "theta_after (Suc 17) = theta_after 17 * (17 / 20) + invNorm (37 / 38) * (3 / 20)"
    unfolding r .
  then show ?thesis unfolding s .
qed

lemma theta_bounds_18: "17586810 / 10000000 < theta_after 18 \<and> theta_after 18 < 17586862 / 10000000"
  using theta_bounds_17 hit_18 theta_step_18 by linarith

lemma theta_step_19:
  "theta_after 19 = theta_after 18 * (17 / 20) + invNorm (39 / 40) * (3 / 20)"
proof -
  have s: "Suc 18 = 19" by simp
  have r: "(real (Suc 18) + 0.5) / (real (Suc 18) + 1) = 39 / 40" by simp
  have "(18::nat) < 30" by simp
  from theta_after_blend [OF this]
  have "theta_after (Suc 18) = theta_after 18 * (17 / 20) + invNorm (39 / 40) * (3 / 20)"
    unfolding r .
  then show ?thesis unfolding s .
qed

lemma theta_bounds_19: "17888730 / 10000000 < theta_after 19 \<and> theta_after 19 < 17888782 / 10000000"
  using theta_bounds_18 hit_19 theta_step_19 by linarith

lemma theta_step_20:
  "theta_after 20 = theta_after 19 * (17 / 20) + invNorm (41 / 42) * (3 / 20)"
proof -
  have s: "Suc 19 = 20" by simp
  have r: "(real (Suc 19) + 0.5) / (real (Suc 19) + 1) = 41 / 42" by simp
  have "(19::nat) < 30" by simp
  from theta_after_blend [OF this]
  have "theta_after (Suc 19) = theta_after 19 * (17 / 20) + invNorm (41 / 42) * (3 / 20)"
    unfolding r .
  then show ?thesis unfolding s .
qed

lemma theta_bounds_20: "18176512 / 10000000 < theta_after 20 \<and> theta_after 20 < 18176625 / 10000000"
  using theta_bounds_19 hit_20 theta_step_20 by linarith

lemma theta_step_21:
  "theta_after 21 = theta_after 20 * (17 / 20) + invNorm (43 / 44) * (3 / 20)"
proof -
  have s: "Suc 20 = 21" by simp
  have r: "(real (Suc 20) + 0.5) / (real (Suc 20) + 1) = 43 / 44" by simp
  have "(20::nat) < 30" by simp
  from theta_after_blend [OF this]
  have "theta_after (Suc 20) = theta_after 20 * (17 / 20) + invNorm (43 / 44) * (3 / 20)"
    unfolding r .
  then show ?thesis unfolding s .
qed

lemma theta_bounds_21: "18450608 / 10000000 < theta_after 21 \<and> theta_after 21 < 18450834 / 10000000"
  using theta_bounds_20 hit_21 theta_step_21 by linarith

lemma theta_step_22:
  "theta_after 22 = theta_after 21 * (17 / 20) + invNorm (45 / 46) * (3 / 20)"
proof -
  have s: "Suc 21 = 22" by simp
  have r: "(real (Suc 21) + 0.5) / (real (Suc 21) + 1) = 45 / 46" by simp
  have "(21::nat) < 30" by simp
  from theta_after_blend [OF this]
  have "theta_after (Suc 21) = theta_after 21 * (17 / 20) + invNorm (45 / 46) * (3 / 20)"
    unfolding r .
  then show ?thesis unfolding s .
qed

lemma theta_bounds_22: "18711582 / 10000000 < theta_after 22 \<and> theta_after 22 < 18711903 / 10000000"
  using theta_bounds_21 hit_22 theta_step_22 by linarith

lemma theta_step_23:
  "theta_after 23 = theta_after 22 * (17 / 20) + invNorm (47 / 48) * (3 / 20)"
proof -
  have s: "Suc 22 = 23" by simp
  have r: "(real (Suc 22) + 0.5) / (real (Suc 22) + 1) = 47 / 48" by simp
  have "(22::nat) < 30" by simp
  from theta_after_blend [OF this]
  have "theta_after (Suc 22) = theta_after 22 * (17 / 20) + invNorm (47 / 48) * (3 / 20)"
    unfolding r .
  then show ?thesis unfolding s .
qed

lemma theta_bounds_23: "18960058 / 10000000 < theta_after 23 \<and> theta_after 23 < 18960399 / 10000000"
  using theta_bounds_22 hit_23 theta_step_23 by linarith

lemma theta_step_24:
  "theta_after 24 = theta_after 23 * (17 / 20) + invNorm (49 / 50) * (3 / 20)"
proof -
  have s: "Suc 23 = 24" by simp
  have r: "(real (Suc 23) + 0.5) / (real (Suc 23) + 1) = 49 / 50" by simp
  have "(23::nat) < 30" by simp
  from theta_after_blend [OF this]
  have "theta_after (Suc 23) = theta_after 23 * (17 / 20) + invNorm (49 / 50) * (3 / 20)"
    unfolding r .
  then show ?thesis unfolding s .
qed

lemma theta_bounds_24: "19196608 / 10000000 < theta_after 24 \<and> theta_after 24 < 19197028 / 10000000"
  using theta_bounds_23 hit_24 theta_step_24 by linarith

lemma theta_step_25:
  "theta_after 25 = theta_after 24 * (17 / 20) + invNorm (51 / 52) * (3 / 20)"
proof -
  have s: "Suc 24 = 25" by simp
  have r: "(real (Suc 24) + 0.5) / (real (Suc 24) + 1) = 51 / 52" by simp
  have "(24::nat) < 30" by simp
  from theta_after_blend [OF this]
  have "theta_after (Suc 24) = theta_after 24 * (17 / 20) + invNorm (51 / 52) * (3 / 20)"
    unfolding r .
  then show ?thesis unfolding s .
qed

lemma theta_bounds_25: "19421933 / 10000000 < theta_after 25 \<and> theta_after 25 < 19422359 / 10000000"
  using theta_bounds_24 hit_25 theta_step_25 by linarith

lemma theta_step_26:
  "theta_after 26 = theta_after 25 * (17 / 20) + invNorm (53 / 54) * (3 / 20)"
proof -
  have s: "Suc 25 = 26" by simp
  have r: "(real (Suc 25) + 0.5) / (real (Suc 25) + 1) = 53 / 54" by simp
  have "(25::nat) < 30" by simp
  from theta_after_blend [OF this]
  have "theta_after (Suc 25) = theta_after 25 * (17 / 20) + invNorm (53 / 54) * (3 / 20)"
    unfolding r .
  then show ?thesis unfolding s .
qed

lemma theta_bounds_26: "19636612 / 10000000 < theta_after 26 \<and> theta_after 26 < 19637104 / 10000000"
  using theta_bounds_25 hit_26 theta_step_26 by linarith

lemma theta_step_27:
  "theta_after 27 = theta_after 26 * (17 / 20) + invNorm (55 / 56) * (3 / 20)"
proof -
  have s: "Suc 26 = 27" by simp
  have r: "(real (Suc 26) + 0.5) / (real (Suc 26) + 1) = 55 / 56" by simp
  have "(26::nat) < 30" by simp
  from theta_after_blend [OF this]
  have "theta_after (Suc 26) = theta_after 26 * (17 / 20) + invNorm (55 / 56) * (3 / 20)"
    unfolding r .
  then show ?thesis unfolding s .
qed

lemma theta_bounds_27: "19841333 / 10000000 < theta_after 27 \<and> theta_after 27 < 19841819 / 10000000"
  using theta_bounds_26 hit_27 theta_step_27 by linarith

lemma theta_step_28:
  "theta_after 28 = theta_after 27 * (17 / 20) + invNorm (57 / 58) * (3 / 20)"
proof -
  have s: "Suc 27 = 28" by simp
  have r: "(real (Suc 27) + 0.5) / (real (Suc 27) + 1) = 57 / 58" by simp
  have "(27::nat) < 30" by simp
  from theta_after_blend [OF this]
  have "theta_after (Suc 27) = theta_after 27 * (17 / 20) + invNorm (57 / 58) * (3 / 20)"
    unfolding r .
  then show ?thesis unfolding s .
qed

lemma theta_bounds_28: "20036667 / 10000000 < theta_after 28 \<and> theta_after 28 < 20037148 / 10000000"
  using theta_bounds_27 hit_28 theta_step_28 by linarith

lemma theta_step_29:
  "theta_after 29 = theta_after 28 * (17 / 20) + invNorm (59 / 60) * (3 / 20)"
proof -
  have s: "Suc 28 = 29" by simp
  have r: "(real (Suc 28) + 0.5) / (real (Suc 28) + 1) = 59 / 60" by simp
  have "(28::nat) < 30" by simp
  from theta_after_blend [OF this]
  have "theta_after (Suc 28) = theta_after 28 * (17 / 20) + invNorm (59 / 60) * (3 / 20)"
    unfolding r .
  then show ?thesis unfolding s .
qed

lemma theta_bounds_29: "20223195 / 10000000 < theta_after 29 \<and> theta_after 29 < 20223672 / 10000000"
  using theta_bounds_28 hit_29 theta_step_29 by linarith

lemma theta_step_30:
  "theta_after 30 = theta_after 29 * (17 / 20) + invNorm (61 / 62) * (3 / 20)"
proof -
  have s: "Suc 29 = 30" by simp
  have r: "(real (Suc 29) + 0.5) / (real (Suc 29) + 1) = 61 / 62" by simp
  have "(29::nat) < 30" by simp
  from theta_after_blend [OF this]
  have "theta_after (Suc 29) = theta_after 29 * (17 / 20) + invNorm (61 / 62) * (3 / 20)"
    unfolding r .
  then show ?thesis unfolding s .
qed

lemma theta_bounds_30: "20401479 / 10000000 < theta_after 30 \<and> theta_after 30 < 20401953 / 10000000"
  using theta_bounds_29 hit_30 theta_step_30 by linarith

lemma theta_falls_1: "theta_after (Suc 0) < theta_after 0"
proof -
  have s: "Suc 0 = 1" by simp
  show ?thesis
    unfolding s using theta_bounds_0 hit_1 theta_step_1 by linarith
qed

lemma theta_falls_2: "theta_after (Suc 1) < theta_after 1"
proof -
  have s: "Suc 1 = 2" by simp
  show ?thesis
    unfolding s using theta_bounds_1 hit_2 theta_step_2 by linarith
qed

lemma theta_falls_3: "theta_after (Suc 2) < theta_after 2"
proof -
  have s: "Suc 2 = 3" by simp
  show ?thesis
    unfolding s using theta_bounds_2 hit_3 theta_step_3 by linarith
qed

lemma theta_falls_4: "theta_after (Suc 3) < theta_after 3"
proof -
  have s: "Suc 3 = 4" by simp
  show ?thesis
    unfolding s using theta_bounds_3 hit_4 theta_step_4 by linarith
qed

lemma theta_rises_5: "theta_after 4 < theta_after (Suc 4)"
proof -
  have s: "Suc 4 = 5" by simp
  show ?thesis
    unfolding s using theta_bounds_4 hit_5 theta_step_5 by linarith
qed

lemma theta_rises_6: "theta_after 5 < theta_after (Suc 5)"
proof -
  have s: "Suc 5 = 6" by simp
  show ?thesis
    unfolding s using theta_bounds_5 hit_6 theta_step_6 by linarith
qed

lemma theta_rises_7: "theta_after 6 < theta_after (Suc 6)"
proof -
  have s: "Suc 6 = 7" by simp
  show ?thesis
    unfolding s using theta_bounds_6 hit_7 theta_step_7 by linarith
qed

lemma theta_rises_8: "theta_after 7 < theta_after (Suc 7)"
proof -
  have s: "Suc 7 = 8" by simp
  show ?thesis
    unfolding s using theta_bounds_7 hit_8 theta_step_8 by linarith
qed

lemma theta_rises_9: "theta_after 8 < theta_after (Suc 8)"
proof -
  have s: "Suc 8 = 9" by simp
  show ?thesis
    unfolding s using theta_bounds_8 hit_9 theta_step_9 by linarith
qed

lemma theta_rises_10: "theta_after 9 < theta_after (Suc 9)"
proof -
  have s: "Suc 9 = 10" by simp
  show ?thesis
    unfolding s using theta_bounds_9 hit_10 theta_step_10 by linarith
qed

lemma theta_rises_11: "theta_after 10 < theta_after (Suc 10)"
proof -
  have s: "Suc 10 = 11" by simp
  show ?thesis
    unfolding s using theta_bounds_10 hit_11 theta_step_11 by linarith
qed

lemma theta_rises_12: "theta_after 11 < theta_after (Suc 11)"
proof -
  have s: "Suc 11 = 12" by simp
  show ?thesis
    unfolding s using theta_bounds_11 hit_12 theta_step_12 by linarith
qed

lemma theta_rises_13: "theta_after 12 < theta_after (Suc 12)"
proof -
  have s: "Suc 12 = 13" by simp
  show ?thesis
    unfolding s using theta_bounds_12 hit_13 theta_step_13 by linarith
qed

lemma theta_rises_14: "theta_after 13 < theta_after (Suc 13)"
proof -
  have s: "Suc 13 = 14" by simp
  show ?thesis
    unfolding s using theta_bounds_13 hit_14 theta_step_14 by linarith
qed

lemma theta_rises_15: "theta_after 14 < theta_after (Suc 14)"
proof -
  have s: "Suc 14 = 15" by simp
  show ?thesis
    unfolding s using theta_bounds_14 hit_15 theta_step_15 by linarith
qed

lemma theta_rises_16: "theta_after 15 < theta_after (Suc 15)"
proof -
  have s: "Suc 15 = 16" by simp
  show ?thesis
    unfolding s using theta_bounds_15 hit_16 theta_step_16 by linarith
qed

lemma theta_rises_17: "theta_after 16 < theta_after (Suc 16)"
proof -
  have s: "Suc 16 = 17" by simp
  show ?thesis
    unfolding s using theta_bounds_16 hit_17 theta_step_17 by linarith
qed

lemma theta_rises_18: "theta_after 17 < theta_after (Suc 17)"
proof -
  have s: "Suc 17 = 18" by simp
  show ?thesis
    unfolding s using theta_bounds_17 hit_18 theta_step_18 by linarith
qed

lemma theta_rises_19: "theta_after 18 < theta_after (Suc 18)"
proof -
  have s: "Suc 18 = 19" by simp
  show ?thesis
    unfolding s using theta_bounds_18 hit_19 theta_step_19 by linarith
qed

lemma theta_rises_20: "theta_after 19 < theta_after (Suc 19)"
proof -
  have s: "Suc 19 = 20" by simp
  show ?thesis
    unfolding s using theta_bounds_19 hit_20 theta_step_20 by linarith
qed

lemma theta_rises_21: "theta_after 20 < theta_after (Suc 20)"
proof -
  have s: "Suc 20 = 21" by simp
  show ?thesis
    unfolding s using theta_bounds_20 hit_21 theta_step_21 by linarith
qed

lemma theta_rises_22: "theta_after 21 < theta_after (Suc 21)"
proof -
  have s: "Suc 21 = 22" by simp
  show ?thesis
    unfolding s using theta_bounds_21 hit_22 theta_step_22 by linarith
qed

lemma theta_rises_23: "theta_after 22 < theta_after (Suc 22)"
proof -
  have s: "Suc 22 = 23" by simp
  show ?thesis
    unfolding s using theta_bounds_22 hit_23 theta_step_23 by linarith
qed

lemma theta_rises_24: "theta_after 23 < theta_after (Suc 23)"
proof -
  have s: "Suc 23 = 24" by simp
  show ?thesis
    unfolding s using theta_bounds_23 hit_24 theta_step_24 by linarith
qed

lemma theta_rises_25: "theta_after 24 < theta_after (Suc 24)"
proof -
  have s: "Suc 24 = 25" by simp
  show ?thesis
    unfolding s using theta_bounds_24 hit_25 theta_step_25 by linarith
qed

lemma theta_rises_26: "theta_after 25 < theta_after (Suc 25)"
proof -
  have s: "Suc 25 = 26" by simp
  show ?thesis
    unfolding s using theta_bounds_25 hit_26 theta_step_26 by linarith
qed

lemma theta_rises_27: "theta_after 26 < theta_after (Suc 26)"
proof -
  have s: "Suc 26 = 27" by simp
  show ?thesis
    unfolding s using theta_bounds_26 hit_27 theta_step_27 by linarith
qed

lemma theta_rises_28: "theta_after 27 < theta_after (Suc 27)"
proof -
  have s: "Suc 27 = 28" by simp
  show ?thesis
    unfolding s using theta_bounds_27 hit_28 theta_step_28 by linarith
qed

lemma theta_rises_29: "theta_after 28 < theta_after (Suc 28)"
proof -
  have s: "Suc 28 = 29" by simp
  show ?thesis
    unfolding s using theta_bounds_28 hit_29 theta_step_29 by linarith
qed

lemma theta_rises_30: "theta_after 29 < theta_after (Suc 29)"
proof -
  have s: "Suc 29 = 30" by simp
  show ?thesis
    unfolding s using theta_bounds_29 hit_30 theta_step_30 by linarith
qed

lemma theta_falls_first_four:
  "theta_after (Suc k) < theta_after k" if h: "k < 4" for k
proof -
  have "k = 0 \<or> k = 1 \<or> k = 2 \<or> k = 3"
    using h by presburger
  then consider "k = 0" | "k = 1" | "k = 2" | "k = 3"
    by blast
  then show ?thesis
  proof cases
    case 1
    show ?thesis unfolding 1 by (rule theta_falls_1)
  next
    case 2
    show ?thesis unfolding 2 by (rule theta_falls_2)
  next
    case 3
    show ?thesis unfolding 3 by (rule theta_falls_3)
  next
    case 4
    show ?thesis unfolding 4 by (rule theta_falls_4)
  qed
qed

lemma theta_rises_afterwards:
  "theta_after k < theta_after (Suc k)" if h: "4 \<le> k \<and> k < 30" for k
proof -
  have "k = 4 \<or> k = 5 \<or> k = 6 \<or> k = 7 \<or> k = 8 \<or> k = 9 \<or> k = 10 \<or> k = 11 \<or> k = 12 \<or> k = 13 \<or> k = 14 \<or> k = 15 \<or> k = 16 \<or> k = 17 \<or> k = 18 \<or> k = 19 \<or> k = 20 \<or> k = 21 \<or> k = 22 \<or> k = 23 \<or> k = 24 \<or> k = 25 \<or> k = 26 \<or> k = 27 \<or> k = 28 \<or> k = 29"
    using h by presburger
  then consider "k = 4" | "k = 5" | "k = 6" | "k = 7" | "k = 8" | "k = 9" | "k = 10" | "k = 11" | "k = 12" | "k = 13" | "k = 14" | "k = 15" | "k = 16" | "k = 17" | "k = 18" | "k = 19" | "k = 20" | "k = 21" | "k = 22" | "k = 23" | "k = 24" | "k = 25" | "k = 26" | "k = 27" | "k = 28" | "k = 29"
    by blast
  then show ?thesis
  proof cases
    case 1
    show ?thesis unfolding 1 by (rule theta_rises_5)
  next
    case 2
    show ?thesis unfolding 2 by (rule theta_rises_6)
  next
    case 3
    show ?thesis unfolding 3 by (rule theta_rises_7)
  next
    case 4
    show ?thesis unfolding 4 by (rule theta_rises_8)
  next
    case 5
    show ?thesis unfolding 5 by (rule theta_rises_9)
  next
    case 6
    show ?thesis unfolding 6 by (rule theta_rises_10)
  next
    case 7
    show ?thesis unfolding 7 by (rule theta_rises_11)
  next
    case 8
    show ?thesis unfolding 8 by (rule theta_rises_12)
  next
    case 9
    show ?thesis unfolding 9 by (rule theta_rises_13)
  next
    case 10
    show ?thesis unfolding 10 by (rule theta_rises_14)
  next
    case 11
    show ?thesis unfolding 11 by (rule theta_rises_15)
  next
    case 12
    show ?thesis unfolding 12 by (rule theta_rises_16)
  next
    case 13
    show ?thesis unfolding 13 by (rule theta_rises_17)
  next
    case 14
    show ?thesis unfolding 14 by (rule theta_rises_18)
  next
    case 15
    show ?thesis unfolding 15 by (rule theta_rises_19)
  next
    case 16
    show ?thesis unfolding 16 by (rule theta_rises_20)
  next
    case 17
    show ?thesis unfolding 17 by (rule theta_rises_21)
  next
    case 18
    show ?thesis unfolding 18 by (rule theta_rises_22)
  next
    case 19
    show ?thesis unfolding 19 by (rule theta_rises_23)
  next
    case 20
    show ?thesis unfolding 20 by (rule theta_rises_24)
  next
    case 21
    show ?thesis unfolding 21 by (rule theta_rises_25)
  next
    case 22
    show ?thesis unfolding 22 by (rule theta_rises_26)
  next
    case 23
    show ?thesis unfolding 23 by (rule theta_rises_27)
  next
    case 24
    show ?thesis unfolding 24 by (rule theta_rises_28)
  next
    case 25
    show ?thesis unfolding 25 by (rule theta_rises_29)
  next
    case 26
    show ?thesis unfolding 26 by (rule theta_rises_30)
  qed
qed


text \<open>
  Claim C10, as the code has it. Over 30 consecutive correct target trials answered in 500 ms,
  starting from a fresh model, \<open>theta\<close> strictly decreases at each of the first four calls (the
  raw sensitivity of so short a window is below the prior 1.5), strictly increases at each of
  the calls 5 to 30, is still below 2.0 after call 27 and is above 2.0 after calls 28, 29
  and 30.
\<close>

theorem correct_targets_theta:
  "(\<forall>k<4. theta_after (Suc k) < theta_after k)
   \<and> (\<forall>k. 4 \<le> k \<and> k < 30 \<longrightarrow> theta_after k < theta_after (Suc k))
   \<and> theta_after 27 < 2
   \<and> (\<forall>k. 28 \<le> k \<and> k \<le> 30 \<longrightarrow> 2 < theta_after k)"
proof -
  have 1: "\<forall>k<4. theta_after (Suc k) < theta_after k"
    using theta_falls_first_four by blast
  have 2: "\<forall>k. 4 \<le> k \<and> k < 30 \<longrightarrow> theta_after k < theta_after (Suc k)"
    using theta_rises_afterwards by blast
  have 3: "theta_after 27 < 2"
    using theta_bounds_27 by linarith
  have "2 < theta_after 28" "2 < theta_after 29" "2 < theta_after 30"
    using theta_bounds_28 theta_bounds_29 theta_bounds_30 by linarith+
  moreover have "k = 28 \<or> k = 29 \<or> k = 30" if "28 \<le> k \<and> k \<le> 30" for k :: nat
    using that by presburger
  ultimately have 4: "\<forall>k. 28 \<le> k \<and> k \<le> 30 \<longrightarrow> 2 < theta_after k"
    by blast
  show ?thesis using 1 2 3 4 by blast
qed

text \<open>
  Claim C10 fails as stated: the first correct target trial lowers \<open>theta\<close>, from 1.5 to about
  1.376.
\<close>

theorem first_correct_trial_lowers_theta: "theta_after (Suc 0) < theta_after 0"
  by (rule theta_falls_1)

theorem correct_targets_theta_witness:
  "(4::nat) \<le> 4 \<and> (4::nat) < 30 \<and> theta_after 4 < theta_after (Suc 4)
   \<and> (28::nat) \<le> 30 \<and> (30::nat) \<le> 30 \<and> 2 < theta_after 30"
proof -
  have a: "(4::nat) \<le> 4 \<and> (4::nat) < 30" and b: "(28::nat) \<le> 30 \<and> (30::nat) \<le> 30"
    by simp_all
  have "theta_after 4 < theta_after (Suc 4)" "2 < theta_after 30"
    using correct_targets_theta a b by blast+
  then show ?thesis by simp
qed

end
